(* ===== verification/Prelude.thy ===== *)
theory Prelude
  imports Main "HOL-Library.Sublist"
begin

text \<open>
  Shared vocabulary of the development. Go maps of label keys to label values
  (node selectors, node labels, resource lists) are partial maps \<open>str_map\<close>;
  object identities (\<open>types.NamespacedName\<close>) are pairs of namespace and name.
  The collections \<open>client_simps\<close> and \<open>builder_defs\<close> gather the equations of
  the object-store client and of the desired-object builders, so that the
  component proofs can evaluate them with \<open>simp add:\<close>. The generic lemmas
  below are about maps, lists and the contiguous-substring relation
  \<open>sublist\<close> (Go's \<open>strings.Contains\<close> on error messages).
\<close>

named_theorems client_simps "equations of the object-store client operations"
named_theorems builder_defs "definitions of the desired-object builders"

type_synonym str_map = "string \<rightharpoonup> string"
type_synonym nsname = "string \<times> string"

subsection \<open>Maps\<close>

text \<open>Adding a key keeps a selector below the result exactly when it does not override it.\<close>

lemma map_le_self_upd_iff:
  "(m \<subseteq>\<^sub>m m(k \<mapsto> v)) \<longleftrightarrow> (m k = None \<or> m k = Some v)"
  by (auto simp: map_le_def)

lemma map_le_upd_mono:
  "m \<subseteq>\<^sub>m m' \<Longrightarrow> m k = None \<Longrightarrow> m \<subseteq>\<^sub>m m'(k \<mapsto> v)"
  by (auto simp: map_le_def)

subsection \<open>Lists\<close>

lemma count_list_filter_neq [simp]:
  "count_list (filter (\<lambda>y. y \<noteq> x) xs) x = 0"
  by (induction xs) auto

lemma count_list_le_one_snoc:
  "x \<notin> set xs \<Longrightarrow> count_list (xs @ [x]) x = 1"
  by (simp add: count_list_0_iff)

lemma count_list_filter_other:
  "y \<noteq> x \<Longrightarrow> count_list (filter (\<lambda>z. z \<noteq> x) xs) y = count_list xs y"
  by (induction xs) auto

subsection \<open>Substrings of messages\<close>

lemma sublist_prefix_msg [simp]:
  "sublist p (p @ s)"
  by (rule sublist_append_rightI)

lemma sublist_suffix_msg [simp]:
  "sublist s (p @ s)"
  by (rule sublist_append_leftI)

lemma sublist_suffix_trans:
  "sublist x s \<Longrightarrow> sublist x (p @ s)"
  by (meson sublist_append_leftI sublist_order.order_trans)

lemma sublist_prefix_trans:
  "sublist x p \<Longrightarrow> sublist x (p @ s)"
  by (meson sublist_append_rightI sublist_order.order_trans)

end
