(* ===== verification/Api.thy ===== *)
theory Api
  imports Prelude
begin

text \<open>
  The Kubernetes API machinery the sources call: Go errors (API status errors,
  \<open>errors.New\<close>, \<open>fmt.Errorf\<close> with \<open>%v\<close> and \<open>%w\<close>) and the
  classifier \<open>apierrors.IsNotFound\<close>; object metadata with finalizers and owner
  references; the runtime scheme; and controller-runtime's
  \<open>SetControllerReference\<close> with its helpers (\<open>validateOwner\<close>,
  \<open>GetControllerOf\<close>, \<open>referSameObject\<close>, \<open>upsertOwnerRef\<close>). None of
  this code is in the repository: it is modelled from its documented behaviour,
  and only as far as \<open>module.go\<close> and the controller depend on it.
\<close>

subsection \<open>Errors\<close>

datatype api_error =
    NotFound
  | AlreadyExists
  | Conflict
  | ServiceUnavailable string
  | InternalError string

text \<open>
  A Go \<open>error\<close> value: a \<open>*StatusError\<close> of the API server, a plain error
  (\<open>errors.New\<close>, or \<open>fmt.Errorf\<close> with \<open>%v\<close>, which flattens the wrapped
  error into the message), or an error wrapped with \<open>%w\<close>, which keeps the
  wrapped error reachable to \<open>errors.As\<close>.
\<close>

datatype error =
    ApiError api_error
  | Plain string
  | Wrapped string error

fun api_error_string :: "api_error \<Rightarrow> string" where
  "api_error_string NotFound = ''not found''"
| "api_error_string AlreadyExists = ''already exists''"
| "api_error_string Conflict = ''the object has been modified''"
| "api_error_string (ServiceUnavailable s) = s"
| "api_error_string (InternalError s) = s"

fun error_string :: "error \<Rightarrow> string" where
  "error_string (ApiError e) = api_error_string e"
| "error_string (Plain s) = s"
| "error_string (Wrapped p e) = p @ '': '' @ error_string e"

text \<open>\<open>apierrors.IsNotFound\<close> follows the \<open>%w\<close> chain (\<open>errors.As\<close>).\<close>

fun is_not_found :: "error \<Rightarrow> bool" where
  "is_not_found (ApiError e) = (e = NotFound)"
| "is_not_found (Plain s) = False"
| "is_not_found (Wrapped p e) = is_not_found e"

definition errorf_v :: "string \<Rightarrow> error \<Rightarrow> error" where
  "errorf_v p e = Plain (p @ '': '' @ error_string e)"

definition errorf_w :: "string \<Rightarrow> error \<Rightarrow> error" where
  "errorf_w p e = Wrapped p e"

subsection \<open>Object metadata and owner references\<close>

record owner_reference =
  or_api_version :: string
  or_kind :: string
  or_name :: string
  or_uid :: string
  or_controller :: bool
  or_block_owner_deletion :: bool

text \<open>\<open>deletionTimestamp\<close> is a moment (a clock reading) or unset.\<close>

record object_meta =
  om_name :: string
  om_namespace :: string
  om_uid :: string
  om_generation :: nat
  om_deletion_timestamp :: "nat option"
  om_finalizers :: "string list"
  om_owner_references :: "owner_reference list"

definition om_key :: "object_meta \<Rightarrow> nsname" where
  "om_key m = (om_namespace m, om_name m)"

text \<open>A fresh object with only a name and a namespace, as \<open>metav1.ObjectMeta{Name:, Namespace:}\<close>.\<close>

definition new_object_meta :: "string \<Rightarrow> string \<Rightarrow> object_meta" where
  "new_object_meta n ns =
     \<lparr>om_name = n, om_namespace = ns, om_uid = [], om_generation = 0,
      om_deletion_timestamp = None, om_finalizers = [], om_owner_references = []\<rparr>"

subsection \<open>The runtime scheme\<close>

text \<open>A scheme registers, for each Go kind, its API version (\<open>group/version\<close>).\<close>

type_synonym scheme = "(string \<times> string) list"

definition gvk_for_object :: "scheme \<Rightarrow> string \<Rightarrow> error + string" where
  "gvk_for_object s k =
     (case map_of s k of
        None \<Rightarrow> Inl (Plain (''no kind is registered for the type '' @ k))
      | Some av \<Rightarrow> Inr av)"

text \<open>\<open>schema.ParseGroupVersion\<close>: the group is what precedes the slash; \<open>v1\<close> is the core group.\<close>

definition api_group :: "string \<Rightarrow> string" where
  "api_group av = (if CHR ''/'' \<in> set av then takeWhile (\<lambda>c. c \<noteq> CHR ''/'') av else [])"

definition refer_same_object :: "owner_reference \<Rightarrow> owner_reference \<Rightarrow> bool" where
  "refer_same_object a b \<longleftrightarrow>
     api_group (or_api_version a) = api_group (or_api_version b) \<and>
     or_kind a = or_kind b \<and> or_name a = or_name b"

fun upsert_owner_ref :: "owner_reference \<Rightarrow> owner_reference list \<Rightarrow> owner_reference list" where
  "upsert_owner_ref r [] = [r]"
| "upsert_owner_ref r (x # xs) =
     (if refer_same_object x r then r # xs else x # upsert_owner_ref r xs)"

definition get_controller_of :: "object_meta \<Rightarrow> owner_reference option" where
  "get_controller_of m = find or_controller (om_owner_references m)"

definition validate_owner :: "object_meta \<Rightarrow> object_meta \<Rightarrow> error option" where
  "validate_owner owner obj =
     (let ons = om_namespace owner in
      if ons = [] then None
      else if om_namespace obj = []
        then Some (Plain (''cluster-scoped resource must not have a namespace-scoped owner, owner namespace '' @ ons))
      else if ons \<noteq> om_namespace obj
        then Some (Plain (''cross-namespace owner references are disallowed, owner namespace '' @ ons @
                          '', obj namespace '' @ om_namespace obj))
      else None)"

definition controller_ref :: "string \<Rightarrow> string \<Rightarrow> object_meta \<Rightarrow> owner_reference" where
  "controller_ref av k owner =
     \<lparr>or_api_version = av, or_kind = k, or_name = om_name owner, or_uid = om_uid owner,
      or_controller = True, or_block_owner_deletion = True\<rparr>"

text \<open>
  \<open>ctrl.SetControllerReference(owner, controlled, scheme)\<close>: validate the
  namespaces, look the owner's kind up in the scheme, refuse an object that
  already has another controller, and otherwise insert or replace the owner
  reference. The owner is given by its metadata and its Go kind.
\<close>

definition set_controller_reference ::
  "object_meta \<Rightarrow> string \<Rightarrow> object_meta \<Rightarrow> scheme \<Rightarrow> error + object_meta" where
  "set_controller_reference owner k obj s =
     (case validate_owner owner obj of
        Some e \<Rightarrow> Inl e
      | None \<Rightarrow>
          (case gvk_for_object s k of
             Inl e \<Rightarrow> Inl e
           | Inr av \<Rightarrow>
               (let r = controller_ref av k owner in
                case get_controller_of obj of
                  Some ex \<Rightarrow>
                    if \<not> refer_same_object ex r
                    then Inl (Plain (''Object '' @ om_namespace obj @ ''/'' @ om_name obj @
                                     '' is already owned by another '' @ or_kind ex @
                                     '' controller '' @ or_name ex))
                    else Inr (obj\<lparr>om_owner_references := upsert_owner_ref r (om_owner_references obj)\<rparr>)
                | None \<Rightarrow>
                    Inr (obj\<lparr>om_owner_references := upsert_owner_ref r (om_owner_references obj)\<rparr>))))"

text \<open>
  Exactly when \<open>SetControllerReference\<close> succeeds: the namespaces are
  compatible, the owner's kind is registered, and the object has no controller
  or one that refers to the same owner.
\<close>

definition can_set_controller :: "object_meta \<Rightarrow> string \<Rightarrow> object_meta \<Rightarrow> scheme \<Rightarrow> bool" where
  "can_set_controller owner k obj s \<longleftrightarrow>
     validate_owner owner obj = None \<and>
     (case map_of s k of
        None \<Rightarrow> False
      | Some av \<Rightarrow> (case get_controller_of obj of
                     None \<Rightarrow> True
                   | Some ex \<Rightarrow> refer_same_object ex (controller_ref av k owner)))"

subsection \<open>Lemmas on errors and owner references\<close>

lemma error_string_errorf_v [simp]:
  "error_string (errorf_v p e) = p @ '': '' @ error_string e"
  by (simp add: errorf_v_def)

lemma error_string_errorf_w [simp]:
  "error_string (errorf_w p e) = p @ '': '' @ error_string e"
  by (simp add: errorf_w_def)

lemma is_not_found_errorf_v [simp]: "\<not> is_not_found (errorf_v p e)"
  by (simp add: errorf_v_def)

lemma is_not_found_errorf_w [simp]: "is_not_found (errorf_w p e) = is_not_found e"
  by (simp add: errorf_w_def)

lemma sublist_errorf_w_prefix:
  "sublist p (error_string (errorf_w p e))"
  by simp

lemma sublist_errorf_w_inner:
  "sublist (error_string e) (error_string (errorf_w p e))"
  using sublist_append_leftI [of "error_string e" "p @ '': ''"] by simp

lemma om_key_new_object_meta [simp]: "om_key (new_object_meta n ns) = (ns, n)"
  by (simp add: om_key_def new_object_meta_def)

lemma refer_same_object_refl [simp]: "refer_same_object r r"
  by (simp add: refer_same_object_def)

lemma refer_same_object_sym: "refer_same_object a b = refer_same_object b a"
  by (auto simp: refer_same_object_def)

lemma upsert_owner_ref_member: "r \<in> set (upsert_owner_ref r rs)"
  by (induction rs) auto

lemma upsert_owner_ref_idem:
  "upsert_owner_ref r (upsert_owner_ref r rs) = upsert_owner_ref r rs"
  by (induction rs) auto

lemma upsert_owner_ref_others:
  "x \<in> set rs \<Longrightarrow> \<not> refer_same_object x r \<Longrightarrow> x \<in> set (upsert_owner_ref r rs)"
  by (induction rs) auto

lemma upsert_owner_ref_length:
  "length (upsert_owner_ref r rs) \<le> Suc (length rs)"
  by (induction rs) auto

lemma refer_same_object_trans:
  "refer_same_object a b \<Longrightarrow> refer_same_object b c \<Longrightarrow> refer_same_object a c"
  by (simp add: refer_same_object_def)

lemma find_controller_upsert:
  assumes "or_controller r"
    and "\<forall>ex. find or_controller rs = Some ex \<longrightarrow> refer_same_object ex r"
  shows "\<exists>c. find or_controller (upsert_owner_ref r rs) = Some c \<and> refer_same_object c r"
  using assms(2)
proof (induction rs)
  case Nil
  with assms(1) show ?case by simp
next
  case (Cons x xs)
  show ?case
  proof (cases "refer_same_object x r")
    case True
    with assms(1) Cons.prems show ?thesis by auto
  next
    case False
    with Cons show ?thesis by auto
  qed
qed

lemma set_controller_reference_iff:
  "set_controller_reference owner k obj s = Inr obj' \<longleftrightarrow>
     can_set_controller owner k obj s \<and>
     obj' = obj\<lparr>om_owner_references :=
               upsert_owner_ref (controller_ref (the (map_of s k)) k owner) (om_owner_references obj)\<rparr>"
  by (auto simp: set_controller_reference_def can_set_controller_def gvk_for_object_def Let_def
           split: option.splits sum.splits if_splits)

lemma validate_owner_refs [simp]:
  "validate_owner owner (obj\<lparr>om_owner_references := rs\<rparr>) = validate_owner owner obj"
  by (simp add: validate_owner_def Let_def)

lemma can_set_controller_upsert:
  assumes "can_set_controller owner k obj s" and "map_of s k = Some av"
  shows "can_set_controller owner k
           (obj\<lparr>om_owner_references := upsert_owner_ref (controller_ref av k owner) (om_owner_references obj)\<rparr>) s"
proof -
  have "or_controller (controller_ref av k owner)" by (simp add: controller_ref_def)
  moreover have "\<forall>ex. find or_controller (om_owner_references obj) = Some ex \<longrightarrow>
                   refer_same_object ex (controller_ref av k owner)"
    using assms by (auto simp: can_set_controller_def get_controller_of_def)
  ultimately obtain c where
    "find or_controller (upsert_owner_ref (controller_ref av k owner) (om_owner_references obj)) = Some c"
    "refer_same_object c (controller_ref av k owner)"
    using find_controller_upsert by blast
  with assms show ?thesis
    by (simp add: can_set_controller_def get_controller_of_def)
qed

lemma set_controller_reference_can:
  "can_set_controller owner k obj s \<Longrightarrow>
     set_controller_reference owner k obj s =
       Inr (obj\<lparr>om_owner_references :=
              upsert_owner_ref (controller_ref (the (map_of s k)) k owner) (om_owner_references obj)\<rparr>)"
  by (simp add: set_controller_reference_iff)

text \<open>After the upsert, the owner's reference is the object's controller.\<close>

lemma find_controller_upsert_eq:
  assumes "or_controller r"
    and "\<forall>ex. find or_controller rs = Some ex \<longrightarrow> refer_same_object ex r"
  shows "find or_controller (upsert_owner_ref r rs) = Some r"
  using assms(2)
proof (induction rs)
  case Nil
  with assms(1) show ?case by simp
next
  case (Cons x xs)
  show ?case
  proof (cases "refer_same_object x r")
    case True
    with assms(1) show ?thesis by simp
  next
    case False
    with Cons.prems have "\<not> or_controller x" by auto
    with False Cons show ?thesis by simp
  qed
qed

end
