(* ===== verification/Types.thy ===== *)
theory Types
  imports Api
begin

text \<open>
  The data the controller reads and writes. The DeviceConfig custom resource
  (\<open>api/v1alpha1\<close>, not in the repository; its fields follow the spec's data
  model), its status conditions (\<open>metav1.Condition\<close>), cluster nodes, the
  process-wide settings (\<open>internal/settings\<close>), and the Kernel Module
  Management \<open>Module\<close> type in the shape \<open>module.go\<close> builds it: a selector,
  a module loader with its kernel mappings and modprobe block, and a device
  plugin with its container and resource requirements. Resource quantities are
  kept as the strings \<open>module.go\<close> passes to \<open>resource.MustParse\<close>, all of
  which parse.
\<close>

subsection \<open>DeviceConfig\<close>

record device_config_spec =
  driver_image :: string
  driver_version :: string
  node_selector :: str_map

datatype condition_status = ConditionTrue | ConditionFalse | ConditionUnknown

record condition =
  cond_type :: string
  cond_status :: condition_status
  cond_reason :: string
  cond_message :: string
  cond_observed_generation :: nat
  cond_last_transition_time :: nat

record device_config =
  dc_meta :: object_meta
  dc_spec :: device_config_spec
  dc_conditions :: "condition list"

definition dc_key :: "device_config \<Rightarrow> nsname" where
  "dc_key dc = om_key (dc_meta dc)"

definition dc_name :: "device_config \<Rightarrow> string" where
  "dc_name dc = om_name (dc_meta dc)"

definition dc_namespace :: "device_config \<Rightarrow> string" where
  "dc_namespace dc = om_namespace (dc_meta dc)"

text \<open>The Go kind under which a DeviceConfig is registered in the scheme.\<close>

definition device_config_kind :: string where
  "device_config_kind = ''DeviceConfig''"

text \<open>
  \<open>DeviceConfig.GetNodeSelector()\<close>: the spec's selector as a fresh map (the
  Go caller writes a key into it, which must neither panic on a nil map nor
  change the DeviceConfig).
\<close>

definition get_node_selector :: "device_config \<Rightarrow> str_map" where
  "get_node_selector dc = node_selector (dc_spec dc)"

subsection \<open>Nodes and settings\<close>

record node =
  node_name :: string
  node_labels :: str_map

record settings =
  device_plugin_image :: string

subsection \<open>The Kernel Module Management Module\<close>

datatype pull_policy = PullAlways | PullIfNotPresent | PullNever

record kernel_mapping =
  km_container_image :: string
  km_regexp :: string

record modprobe_spec =
  mp_module_name :: string
  mp_firmware_path :: string

record module_loader_container_spec =
  mlc_image_pull_policy :: pull_policy
  mlc_kernel_mappings :: "kernel_mapping list"
  mlc_modprobe :: modprobe_spec

record module_loader_spec =
  ml_container :: module_loader_container_spec
  ml_service_account_name :: string

record resource_requirements =
  rr_limits :: str_map
  rr_requests :: str_map

record device_plugin_container_spec =
  dpc_args :: "string list"
  dpc_command :: "string list"
  dpc_image :: string
  dpc_image_pull_policy :: pull_policy
  dpc_resources :: resource_requirements

record device_plugin_spec =
  dp_container :: device_plugin_container_spec
  dp_service_account_name :: string

record module_spec =
  ms_device_plugin :: "device_plugin_spec option"
  ms_module_loader :: module_loader_spec
  ms_selector :: str_map

record kmm_module =
  mod_meta :: object_meta
  mod_spec :: module_spec

definition empty_module_spec :: module_spec where
  "empty_module_spec =
     \<lparr>ms_device_plugin = None,
      ms_module_loader =
        \<lparr>ml_container =
           \<lparr>mlc_image_pull_policy = PullIfNotPresent, mlc_kernel_mappings = [],
            mlc_modprobe = \<lparr>mp_module_name = [], mp_firmware_path = []\<rparr>\<rparr>,
         ml_service_account_name = []\<rparr>,
      ms_selector = Map.empty\<rparr>"

definition mod_key :: "kmm_module \<Rightarrow> nsname" where
  "mod_key m = om_key (mod_meta m)"

end
