(* ===== verification/Controller.thy ===== *)
theory Controller
  imports Types
begin

text \<open>
  The top-level reconciler (\<open>controllers/deviceconfig_controller.go\<close>, not in
  the repository; modelled from spec sections 4.1, 4.2 and 7 and pinned down by
  \<open>src/controllers/deviceconfig_controller_test.go\<close>). The Go \<open>Reconciler\<close>
  holds its collaborators as interfaces: the client, the event recorder, the
  Module, NodeMetrics and NodeLabeler sub-reconcilers, the finalizer and
  condition updaters and the node-selector validator. The record
  \<open>'s reconciler\<close> holds one function per interface method the tick calls,
  over an arbitrary state \<open>'s\<close>, so the tick is defined once and proved about
  any collaborators: the mocks of the tests, and the concrete models of
  \<open>Cluster.thy\<close>.

  The order of the calls is stated with call logs: \<open>mock_reconciler\<close> is the
  gomock setup of the controller test, every method returning a fixed outcome
  and appending its call, with arguments and outcome, to a log. Since a tick
  calls each method at most once and sees nothing of a collaborator but its
  outcome (and the DeviceConfig returned by the finalizer updater), the mocks
  over all outcome tables cover every behaviour of the collaborators in one
  tick. The spec's sequence for a tick (sections 4.1 and 4.2) is the automaton
  \<open>proto_next\<close> over calls, and \<open>completes p cs\<close> says that \<open>cs\<close> drives it
  from phase \<open>p\<close> to \<open>Done\<close>.
\<close>

subsection \<open>Condition reasons and messages (internal/conditions)\<close>

definition reason_reconciled :: string where
  "reason_reconciled = ''Reconciled''"

definition reason_module_failed :: string where
  "reason_module_failed = ''ModuleFailed''"

definition reason_node_labeler_failed :: string where
  "reason_node_labeler_failed = ''NodeLabelerFailed''"

definition reason_node_metrics_failed :: string where
  "reason_node_metrics_failed = ''NodeMetricsFailed''"

definition reason_node_selector_conflict :: string where
  "reason_node_selector_conflict = ''NodeSelectorConflictErrored''"

definition conflict_event_message :: string where
  "conflict_event_message = ''Conflicting DeviceConfig NodeSelectors found''"

fun decimal :: "nat \<Rightarrow> string" where
  "decimal n =
     (if n < 10 then [char_of (48 + n)] else decimal (n div 10) @ [char_of (48 + n mod 10)])"

definition ready_message :: "device_config \<Rightarrow> string" where
  "ready_message dc = ''Reconciled generation '' @ decimal (om_generation (dc_meta dc))"

subsection \<open>Collaborators and result\<close>

record 's reconciler =
  rc_get :: "nsname \<Rightarrow> 's \<Rightarrow> (error + device_config) \<times> 's"
  rc_event :: "device_config \<Rightarrow> string \<Rightarrow> string \<Rightarrow> string \<Rightarrow> 's \<Rightarrow> 's"
  rc_check_conflicts :: "device_config \<Rightarrow> 's \<Rightarrow> error option \<times> 's"
  rc_contains_finalizer :: "device_config \<Rightarrow> 's \<Rightarrow> bool \<times> 's"
  rc_add_finalizer :: "device_config \<Rightarrow> 's \<Rightarrow> (error + device_config) \<times> 's"
  rc_remove_finalizer :: "device_config \<Rightarrow> 's \<Rightarrow> error option \<times> 's"
  rc_reconcile_module :: "device_config \<Rightarrow> 's \<Rightarrow> error option \<times> 's"
  rc_reconcile_node_labeler :: "device_config \<Rightarrow> 's \<Rightarrow> error option \<times> 's"
  rc_reconcile_node_metrics :: "device_config \<Rightarrow> 's \<Rightarrow> error option \<times> 's"
  rc_delete_module :: "device_config \<Rightarrow> 's \<Rightarrow> error option \<times> 's"
  rc_set_ready :: "device_config \<Rightarrow> string \<Rightarrow> string \<Rightarrow> 's \<Rightarrow> error option \<times> 's"
  rc_set_errored :: "device_config \<Rightarrow> string \<Rightarrow> string \<Rightarrow> 's \<Rightarrow> error option \<times> 's"

text \<open>\<open>ctrl.Result\<close>; the reconciler never asks for a requeue itself.\<close>

record ctrl_result =
  requeue :: bool

definition no_requeue :: ctrl_result where
  "no_requeue = \<lparr>requeue = False\<rparr>"

type_synonym 's tick = "(ctrl_result \<times> error option) \<times> 's"

subsection \<open>The tick\<close>

text \<open>
  The sub-reconcilers in their fixed order, each with the condition reason
  recorded when it fails. \<open>run_stages\<close> runs them until the first failure.
\<close>

definition stages :: "'s reconciler \<Rightarrow> (string \<times> (device_config \<Rightarrow> 's \<Rightarrow> error option \<times> 's)) list" where
  "stages r =
     [(reason_module_failed, rc_reconcile_module r),
      (reason_node_labeler_failed, rc_reconcile_node_labeler r),
      (reason_node_metrics_failed, rc_reconcile_node_metrics r)]"

fun run_stages ::
  "(string \<times> (device_config \<Rightarrow> 's \<Rightarrow> error option \<times> 's)) list \<Rightarrow> device_config \<Rightarrow> 's \<Rightarrow>
     (string \<times> error) option \<times> 's" where
  "run_stages [] dc s = (None, s)"
| "run_stages ((reason, f) # fs) dc s =
     (case f dc s of
        (Some e, s') \<Rightarrow> (Some (reason, e), s')
      | (None, s') \<Rightarrow> run_stages fs dc s')"

text \<open>
  After the stages, one condition write: Errored with the failing stage's
  reason, or Ready. A failed condition write is only logged; the tick returns
  the stage's error, or success.
\<close>

definition reconcile_stages :: "'s reconciler \<Rightarrow> device_config \<Rightarrow> 's \<Rightarrow> 's tick" where
  "reconcile_stages r dc s =
     (case run_stages (stages r) dc s of
        (Some (reason, e), s1) \<Rightarrow>
          (case rc_set_errored r dc reason (error_string e) s1 of
             (_, s2) \<Rightarrow> ((no_requeue, Some e), s2))
      | (None, s1) \<Rightarrow>
          (case rc_set_ready r dc reason_reconciled (ready_message dc) s1 of
             (_, s2) \<Rightarrow> ((no_requeue, None), s2)))"

text \<open>
  The normal path: conflicts first (a conflicting DeviceConfig gets a warning
  event and no error, and is never pinned by a finalizer), then the finalizer,
  then the stages.
\<close>

definition reconcile_normal :: "'s reconciler \<Rightarrow> device_config \<Rightarrow> 's \<Rightarrow> 's tick" where
  "reconcile_normal r dc s =
     (case rc_check_conflicts r dc s of
        (Some e, s1) \<Rightarrow>
          ((no_requeue, None),
           rc_event r dc ''Warning'' reason_node_selector_conflict conflict_event_message s1)
      | (None, s1) \<Rightarrow>
          (case rc_contains_finalizer r dc s1 of
             (True, s2) \<Rightarrow> reconcile_stages r dc s2
           | (False, s2) \<Rightarrow>
               (case rc_add_finalizer r dc s2 of
                  (Inl e, s3) \<Rightarrow> ((no_requeue, Some e), s3)
                | (Inr dc', s3) \<Rightarrow> reconcile_stages r dc' s3)))"

text \<open>The deletion path: release the finalizer only once the Module is gone.\<close>

definition delete_device_config :: "'s reconciler \<Rightarrow> device_config \<Rightarrow> 's \<Rightarrow> 's tick" where
  "delete_device_config r dc s =
     (case rc_contains_finalizer r dc s of
        (False, s1) \<Rightarrow> ((no_requeue, None), s1)
      | (True, s1) \<Rightarrow>
          (case rc_delete_module r dc s1 of
             (Some e, s2) \<Rightarrow>
               ((no_requeue, Some (errorf_w ''failed to delete DeviceConfig resources'' e)), s2)
           | (None, s2) \<Rightarrow>
               (case rc_remove_finalizer r dc s2 of
                  (Some e, s3) \<Rightarrow> ((no_requeue, Some e), s3)
                | (None, s3) \<Rightarrow> ((no_requeue, None), s3))))"

definition reconcile :: "'s reconciler \<Rightarrow> nsname \<Rightarrow> 's \<Rightarrow> 's tick" where
  "reconcile r req s =
     (case rc_get r req s of
        (Inl e, s1) \<Rightarrow>
          if is_not_found e then ((no_requeue, None), s1) else ((no_requeue, Some e), s1)
      | (Inr dc, s1) \<Rightarrow>
          if om_deletion_timestamp (dc_meta dc) \<noteq> None
          then delete_device_config r dc s1
          else reconcile_normal r dc s1)"

subsection \<open>Call logs\<close>

text \<open>One entry per collaborator call, with its arguments and its outcome.\<close>

datatype call =
    CallGet nsname "error + device_config"
  | CallEvent device_config string string string
  | CallCheckConflicts device_config "error option"
  | CallContainsFinalizer device_config bool
  | CallAddFinalizer device_config "error + device_config"
  | CallRemoveFinalizer device_config "error option"
  | CallReconcileModule device_config "error option"
  | CallReconcileNodeLabeler device_config "error option"
  | CallReconcileNodeMetrics device_config "error option"
  | CallDeleteModule device_config "error option"
  | CallSetReady device_config string "error option"
  | CallSetErrored device_config string "error option"

subsection \<open>Mocks\<close>

record mock_outcomes =
  mo_get :: "error + device_config"
  mo_check_conflicts :: "error option"
  mo_contains_finalizer :: bool
  mo_add_finalizer :: "error option"
  mo_remove_finalizer :: "error option"
  mo_reconcile_module :: "error option"
  mo_reconcile_node_labeler :: "error option"
  mo_reconcile_node_metrics :: "error option"
  mo_delete_module :: "error option"
  mo_set_ready :: "error option"
  mo_set_errored :: "error option"

definition mock_reconciler :: "mock_outcomes \<Rightarrow> call list reconciler" where
  "mock_reconciler mo =
     \<lparr>rc_get = (\<lambda>req l. (mo_get mo, l @ [CallGet req (mo_get mo)])),
      rc_event = (\<lambda>dc t rs m l. l @ [CallEvent dc t rs m]),
      rc_check_conflicts = (\<lambda>dc l. (mo_check_conflicts mo, l @ [CallCheckConflicts dc (mo_check_conflicts mo)])),
      rc_contains_finalizer = (\<lambda>dc l. (mo_contains_finalizer mo, l @ [CallContainsFinalizer dc (mo_contains_finalizer mo)])),
      rc_add_finalizer = (\<lambda>dc l. let r = (case mo_add_finalizer mo of Some e \<Rightarrow> Inl e | None \<Rightarrow> Inr dc)
                                  in (r, l @ [CallAddFinalizer dc r])),
      rc_remove_finalizer = (\<lambda>dc l. (mo_remove_finalizer mo, l @ [CallRemoveFinalizer dc (mo_remove_finalizer mo)])),
      rc_reconcile_module = (\<lambda>dc l. (mo_reconcile_module mo, l @ [CallReconcileModule dc (mo_reconcile_module mo)])),
      rc_reconcile_node_labeler =
        (\<lambda>dc l. (mo_reconcile_node_labeler mo, l @ [CallReconcileNodeLabeler dc (mo_reconcile_node_labeler mo)])),
      rc_reconcile_node_metrics =
        (\<lambda>dc l. (mo_reconcile_node_metrics mo, l @ [CallReconcileNodeMetrics dc (mo_reconcile_node_metrics mo)])),
      rc_delete_module = (\<lambda>dc l. (mo_delete_module mo, l @ [CallDeleteModule dc (mo_delete_module mo)])),
      rc_set_ready = (\<lambda>dc rs m l. (mo_set_ready mo, l @ [CallSetReady dc rs (mo_set_ready mo)])),
      rc_set_errored = (\<lambda>dc rs m l. (mo_set_errored mo, l @ [CallSetErrored dc rs (mo_set_errored mo)]))\<rparr>"

subsection \<open>The protocol of a tick\<close>

datatype phase =
    Start | Deleting | Releasing | ModuleGone | Validating | Conflicting | Admitted | Adding
  | Guarded | ModuleDone | LabelerDone | MetricsDone | Failing string | Done

fun proto_next :: "phase \<Rightarrow> call \<Rightarrow> phase option" where
  "proto_next Start c =
     (case c of
        CallGet req (Inl e) \<Rightarrow> Some Done
      | CallGet req (Inr dc) \<Rightarrow> Some (if om_deletion_timestamp (dc_meta dc) \<noteq> None then Deleting else Validating)
      | _ \<Rightarrow> None)"
| "proto_next Deleting c =
     (case c of CallContainsFinalizer dc b \<Rightarrow> Some (if b then Releasing else Done) | _ \<Rightarrow> None)"
| "proto_next Releasing c =
     (case c of CallDeleteModule dc r \<Rightarrow> Some (if r = None then ModuleGone else Done) | _ \<Rightarrow> None)"
| "proto_next ModuleGone c =
     (case c of CallRemoveFinalizer dc r \<Rightarrow> Some Done | _ \<Rightarrow> None)"
| "proto_next Validating c =
     (case c of CallCheckConflicts dc r \<Rightarrow> Some (if r = None then Admitted else Conflicting) | _ \<Rightarrow> None)"
| "proto_next Conflicting c =
     (case c of
        CallEvent dc t rs m \<Rightarrow>
          if t = ''Warning'' \<and> rs = reason_node_selector_conflict \<and> m = conflict_event_message
          then Some Done else None
      | _ \<Rightarrow> None)"
| "proto_next Admitted c =
     (case c of CallContainsFinalizer dc b \<Rightarrow> Some (if b then Guarded else Adding) | _ \<Rightarrow> None)"
| "proto_next Adding c =
     (case c of CallAddFinalizer dc (Inl e) \<Rightarrow> Some Done | CallAddFinalizer dc (Inr dc') \<Rightarrow> Some Guarded
      | _ \<Rightarrow> None)"
| "proto_next Guarded c =
     (case c of
        CallReconcileModule dc r \<Rightarrow> Some (if r = None then ModuleDone else Failing reason_module_failed)
      | _ \<Rightarrow> None)"
| "proto_next ModuleDone c =
     (case c of
        CallReconcileNodeLabeler dc r \<Rightarrow> Some (if r = None then LabelerDone else Failing reason_node_labeler_failed)
      | _ \<Rightarrow> None)"
| "proto_next LabelerDone c =
     (case c of
        CallReconcileNodeMetrics dc r \<Rightarrow> Some (if r = None then MetricsDone else Failing reason_node_metrics_failed)
      | _ \<Rightarrow> None)"
| "proto_next MetricsDone c =
     (case c of CallSetReady dc rs r \<Rightarrow> if rs = reason_reconciled then Some Done else None | _ \<Rightarrow> None)"
| "proto_next (Failing reason) c =
     (case c of CallSetErrored dc rs r \<Rightarrow> if rs = reason then Some Done else None | _ \<Rightarrow> None)"
| "proto_next Done c = None"

fun run_proto :: "phase \<Rightarrow> call list \<Rightarrow> phase option" where
  "run_proto p [] = Some p"
| "run_proto p (c # cs) = (case proto_next p c of None \<Rightarrow> None | Some q \<Rightarrow> run_proto q cs)"

definition completes :: "phase \<Rightarrow> call list \<Rightarrow> bool" where
  "completes p cs \<longleftrightarrow> run_proto p cs = Some Done"

fun is_condition_write :: "call \<Rightarrow> bool" where
  "is_condition_write (CallSetReady _ _ _) = True"
| "is_condition_write (CallSetErrored _ _ _) = True"
| "is_condition_write _ = False"

subsection \<open>Lemmas\<close>

lemma mock_fields [simp]:
  "rc_get (mock_reconciler mo) req l = (mo_get mo, l @ [CallGet req (mo_get mo)])"
  "rc_event (mock_reconciler mo) dc t rs m l = l @ [CallEvent dc t rs m]"
  "rc_check_conflicts (mock_reconciler mo) dc l =
     (mo_check_conflicts mo, l @ [CallCheckConflicts dc (mo_check_conflicts mo)])"
  "rc_contains_finalizer (mock_reconciler mo) dc l =
     (mo_contains_finalizer mo, l @ [CallContainsFinalizer dc (mo_contains_finalizer mo)])"
  "rc_add_finalizer (mock_reconciler mo) dc l =
     (case mo_add_finalizer mo of Some e \<Rightarrow> Inl e | None \<Rightarrow> Inr dc,
      l @ [CallAddFinalizer dc (case mo_add_finalizer mo of Some e \<Rightarrow> Inl e | None \<Rightarrow> Inr dc)])"
  "rc_remove_finalizer (mock_reconciler mo) dc l =
     (mo_remove_finalizer mo, l @ [CallRemoveFinalizer dc (mo_remove_finalizer mo)])"
  "rc_reconcile_module (mock_reconciler mo) dc l =
     (mo_reconcile_module mo, l @ [CallReconcileModule dc (mo_reconcile_module mo)])"
  "rc_reconcile_node_labeler (mock_reconciler mo) dc l =
     (mo_reconcile_node_labeler mo, l @ [CallReconcileNodeLabeler dc (mo_reconcile_node_labeler mo)])"
  "rc_reconcile_node_metrics (mock_reconciler mo) dc l =
     (mo_reconcile_node_metrics mo, l @ [CallReconcileNodeMetrics dc (mo_reconcile_node_metrics mo)])"
  "rc_delete_module (mock_reconciler mo) dc l =
     (mo_delete_module mo, l @ [CallDeleteModule dc (mo_delete_module mo)])"
  "rc_set_ready (mock_reconciler mo) dc rs m l = (mo_set_ready mo, l @ [CallSetReady dc rs (mo_set_ready mo)])"
  "rc_set_errored (mock_reconciler mo) dc rs m l =
     (mo_set_errored mo, l @ [CallSetErrored dc rs (mo_set_errored mo)])"
  by (simp_all add: mock_reconciler_def Let_def)

lemma run_proto_append:
  "run_proto p (xs @ ys) = (case run_proto p xs of None \<Rightarrow> None | Some q \<Rightarrow> run_proto q ys)"
  by (induction p xs rule: run_proto.induct) (auto split: option.splits)

lemma completes_append:
  "run_proto p xs = Some q \<Longrightarrow> completes p (xs @ ys) = completes q ys"
  by (simp add: completes_def run_proto_append)

lemma mock_stages:
  "\<exists>cs. snd (reconcile_stages (mock_reconciler mo) dc l) = l @ cs \<and> completes Guarded cs"
  by (simp add: reconcile_stages_def stages_def completes_def split: option.splits)

lemma mock_stages_from:
  assumes "run_proto p xs = Some Guarded"
  shows "\<exists>cs. snd (reconcile_stages (mock_reconciler mo) dc (l @ xs)) = l @ cs \<and> completes p cs"
proof -
  obtain cs where "snd (reconcile_stages (mock_reconciler mo) dc (l @ xs)) = (l @ xs) @ cs"
    and "completes Guarded cs"
    using mock_stages by blast
  with assms show ?thesis by (auto simp: completes_append)
qed

lemma mock_normal:
  "\<exists>cs. snd (reconcile_normal (mock_reconciler mo) dc l) = l @ cs \<and> completes Validating cs"
proof (cases "mo_check_conflicts mo")
  case (Some e)
  then show ?thesis by (simp add: reconcile_normal_def completes_def)
next
  case None
  show ?thesis
  proof (cases "mo_contains_finalizer mo")
    case True
    have "run_proto Validating [CallCheckConflicts dc None, CallContainsFinalizer dc True] = Some Guarded"
      by simp
    from mock_stages_from [OF this, of mo dc l] None True show ?thesis
      by (simp add: reconcile_normal_def)
  next
    case False
    show ?thesis
    proof (cases "mo_add_finalizer mo")
      case (Some e)
      with None False show ?thesis by (simp add: reconcile_normal_def completes_def)
    next
      case no_err: None
      have "run_proto Validating [CallCheckConflicts dc None, CallContainsFinalizer dc False,
              CallAddFinalizer dc (Inr dc)] = Some Guarded"
        by simp
      from mock_stages_from [OF this, of mo dc l] None False no_err show ?thesis
        by (simp add: reconcile_normal_def)
    qed
  qed
qed

lemma mock_delete:
  "\<exists>cs. snd (delete_device_config (mock_reconciler mo) dc l) = l @ cs \<and> completes Deleting cs"
  by (simp add: delete_device_config_def completes_def split: option.splits bool.splits)

lemma mock_tick_protocol:
  "completes Start (snd (reconcile (mock_reconciler mo) req []))"
proof (cases "mo_get mo")
  case (Inl e)
  then show ?thesis by (simp add: reconcile_def completes_def)
next
  case (Inr dc)
  show ?thesis
  proof (cases "om_deletion_timestamp (dc_meta dc) = None")
    case True
    from mock_normal [of mo dc "[CallGet req (Inr dc)]"] obtain cs where
      "snd (reconcile_normal (mock_reconciler mo) dc [CallGet req (Inr dc)]) = CallGet req (Inr dc) # cs"
      "completes Validating cs" by auto
    with Inr True show ?thesis by (simp add: reconcile_def completes_def)
  next
    case False
    from mock_delete [of mo dc "[CallGet req (Inr dc)]"] obtain cs where
      "snd (delete_device_config (mock_reconciler mo) dc [CallGet req (Inr dc)]) = CallGet req (Inr dc) # cs"
      "completes Deleting cs" by auto
    with Inr False show ?thesis by (simp add: reconcile_def completes_def)
  qed
qed

lemma run_proto_Done_Cons [simp]: "run_proto Done (c # cs) = None"
  by simp

lemma proto_next_condition_write:
  "proto_next p c = Some q \<Longrightarrow> is_condition_write c \<Longrightarrow> q = Done"
  by (cases p; cases c) (auto split: if_splits sum.splits)

lemma run_proto_condition_writes:
  "run_proto p cs = Some q \<Longrightarrow> length (filter is_condition_write cs) \<le> 1"
proof (induction cs arbitrary: p)
  case Nil
  then show ?case by simp
next
  case (Cons c cs)
  then obtain p' where step: "proto_next p c = Some p'" and rest: "run_proto p' cs = Some q"
    by (auto split: option.splits)
  show ?case
  proof (cases "is_condition_write c")
    case True
    with step have "p' = Done" by (rule proto_next_condition_write)
    with rest have "cs = []" by (cases cs) auto
    with True show ?thesis by simp
  next
    case False
    with Cons.IH [OF rest] show ?thesis by simp
  qed
qed

lemma run_proto_split:
  "run_proto p (xs @ ys) = Some q \<Longrightarrow> \<exists>m. run_proto p xs = Some m \<and> run_proto m ys = Some q"
  by (simp add: run_proto_append split: option.splits)

lemma run_proto_snoc:
  "run_proto p (xs @ [c]) = Some q \<Longrightarrow> \<exists>m. run_proto p xs = Some m \<and> proto_next m c = Some q"
  by (auto dest!: run_proto_split split: option.splits)

text \<open>Which call leads into a phase.\<close>

lemma proto_next_into_ModuleGone:
  "proto_next p c = Some ModuleGone \<Longrightarrow> \<exists>dc. p = Releasing \<and> c = CallDeleteModule dc None"
  by (cases p; cases c) (auto split: if_splits sum.splits)

lemma proto_next_into_ModuleDone:
  "proto_next p c = Some ModuleDone \<Longrightarrow> \<exists>dc. p = Guarded \<and> c = CallReconcileModule dc None"
  by (cases p; cases c) (auto split: if_splits sum.splits)

lemma proto_next_into_LabelerDone:
  "proto_next p c = Some LabelerDone \<Longrightarrow> \<exists>dc. p = ModuleDone \<and> c = CallReconcileNodeLabeler dc None"
  by (cases p; cases c) (auto split: if_splits sum.splits)

lemma proto_next_into_Adding:
  "proto_next p c = Some Adding \<Longrightarrow> \<exists>dc. p = Admitted \<and> c = CallContainsFinalizer dc False"
  by (cases p; cases c) (auto split: if_splits sum.splits)

lemma proto_next_into_Admitted:
  "proto_next p c = Some Admitted \<Longrightarrow> \<exists>dc. p = Validating \<and> c = CallCheckConflicts dc None"
  by (cases p; cases c) (auto split: if_splits sum.splits)

lemma proto_next_RemoveFinalizer:
  "proto_next p (CallRemoveFinalizer dc r) = Some q \<Longrightarrow> p = ModuleGone"
  by (cases p) auto

lemma proto_next_ReconcileNodeLabeler:
  "proto_next p (CallReconcileNodeLabeler dc r) = Some q \<Longrightarrow> p = ModuleDone"
  by (cases p) auto

lemma proto_next_ReconcileNodeMetrics:
  "proto_next p (CallReconcileNodeMetrics dc r) = Some q \<Longrightarrow> p = LabelerDone"
  by (cases p) auto

lemma proto_next_AddFinalizer:
  "proto_next p (CallAddFinalizer dc r) = Some q \<Longrightarrow> p = Adding"
  by (cases p) auto

lemma run_proto_entered:
  assumes "run_proto Start xs = Some m" and "m \<noteq> Start"
    and "\<And>p c. proto_next p c = Some m \<Longrightarrow> P c"
  shows "\<exists>xs' c. xs = xs' @ [c] \<and> P c"
proof (cases xs rule: rev_exhaust)
  case Nil
  with assms show ?thesis by simp
next
  case (snoc xs' c)
  with assms(1) obtain p where "proto_next p c = Some m" by (auto dest: run_proto_snoc)
  with snoc assms(3) show ?thesis by blast
qed

lemma run_proto_entered_from:
  assumes "run_proto Start xs = Some m" and "m \<noteq> Start"
  shows "\<exists>xs' c p. xs = xs' @ [c] \<and> run_proto Start xs' = Some p \<and> proto_next p c = Some m"
proof (cases xs rule: rev_exhaust)
  case Nil
  with assms show ?thesis by simp
next
  case (snoc xs' c)
  with assms(1) show ?thesis by (auto dest: run_proto_snoc)
qed

lemma mock_tick_split:
  assumes "snd (reconcile (mock_reconciler mo) req []) = xs @ c # ys"
  shows "\<exists>m q. run_proto Start xs = Some m \<and> proto_next m c = Some q"
proof -
  from mock_tick_protocol [of mo req] assms have "run_proto Start (xs @ c # ys) = Some Done"
    by (simp add: completes_def)
  then show ?thesis by (auto dest!: run_proto_split split: option.splits)
qed

text \<open>C22: Within one tick at most one condition write (Ready or Errored) happens (spec invariant I5).\<close>

theorem mock_tick_condition_writes:
  "length (filter is_condition_write (snd (reconcile (mock_reconciler mo) req []))) \<le> 1"
  using mock_tick_protocol [of mo req] run_proto_condition_writes unfolding completes_def by blast

text \<open>C19: A tick removes the finalizer only right after the Module sub-reconciler's DeleteModule succeeded (spec invariant I4, at the interface of the collaborators).\<close>

theorem mock_tick_release_after_delete:
  assumes "snd (reconcile (mock_reconciler mo) req []) = xs @ CallRemoveFinalizer dc r # ys"
  shows "\<exists>xs' dc'. xs = xs' @ [CallDeleteModule dc' None]"
proof -
  from mock_tick_split [OF assms] obtain m q where
    xs: "run_proto Start xs = Some m" and "proto_next m (CallRemoveFinalizer dc r) = Some q"
    by blast
  then have "m = ModuleGone" by (blast dest: proto_next_RemoveFinalizer)
  with xs show ?thesis
    by (auto dest!: run_proto_entered [where P = "\<lambda>c. \<exists>dc'. c = CallDeleteModule dc' None"]
             dest: proto_next_into_ModuleGone)
qed

text \<open>C21: In every tick the sub-reconcilers run in their fixed order: NodeMetrics is called only right after the Module and then the NodeLabeler sub-reconcilers have both succeeded.\<close>

theorem mock_tick_stage_order:
  assumes "snd (reconcile (mock_reconciler mo) req []) = xs @ CallReconcileNodeMetrics dc r # ys"
  shows "\<exists>xs' d1 d2. xs = xs' @ [CallReconcileModule d1 None, CallReconcileNodeLabeler d2 None]"
proof -
  from mock_tick_split [OF assms] obtain m q where
    xs: "run_proto Start xs = Some m" and "proto_next m (CallReconcileNodeMetrics dc r) = Some q"
    by blast
  then have "m = LabelerDone" by (blast dest: proto_next_ReconcileNodeMetrics)
  with run_proto_entered_from [OF xs] obtain xs1 c1 p1 where
    xs1: "xs = xs1 @ [c1]" "run_proto Start xs1 = Some p1" "proto_next p1 c1 = Some LabelerDone"
    by auto
  from proto_next_into_LabelerDone [OF xs1(3)] obtain d2 where
    "p1 = ModuleDone" "c1 = CallReconcileNodeLabeler d2 None" by blast
  with run_proto_entered_from [OF xs1(2)] obtain xs2 c2 p2 where
    xs2: "xs1 = xs2 @ [c2]" "proto_next p2 c2 = Some ModuleDone" by auto
  from proto_next_into_ModuleDone [OF xs2(2)] obtain d1 where "c2 = CallReconcileModule d1 None" by blast
  with xs1(1) xs2(1) \<open>c1 = CallReconcileNodeLabeler d2 None\<close> show ?thesis by auto
qed

text \<open>C20: A tick adds the finalizer only right after the node-selector validator admitted the DeviceConfig and the finalizer was found missing, so a conflicting DeviceConfig is never pinned by a finalizer.\<close>

theorem mock_tick_admission_before_finalizer:
  assumes "snd (reconcile (mock_reconciler mo) req []) = xs @ CallAddFinalizer dc r # ys"
  shows "\<exists>xs' d1 d2. xs = xs' @ [CallCheckConflicts d1 None, CallContainsFinalizer d2 False]"
proof -
  from mock_tick_split [OF assms] obtain m q where
    xs: "run_proto Start xs = Some m" and "proto_next m (CallAddFinalizer dc r) = Some q"
    by blast
  then have "m = Adding" by (blast dest: proto_next_AddFinalizer)
  with run_proto_entered_from [OF xs] obtain xs1 c1 p1 where
    xs1: "xs = xs1 @ [c1]" "run_proto Start xs1 = Some p1" "proto_next p1 c1 = Some Adding"
    by auto
  from proto_next_into_Adding [OF xs1(3)] obtain d2 where
    "p1 = Admitted" "c1 = CallContainsFinalizer d2 False" by blast
  with run_proto_entered_from [OF xs1(2)] obtain xs2 c2 p2 where
    xs2: "xs1 = xs2 @ [c2]" "proto_next p2 c2 = Some Admitted" by auto
  from proto_next_into_Admitted [OF xs2(2)] obtain d1 where "c2 = CallCheckConflicts d1 None" by blast
  with xs1(1) xs2(1) \<open>c1 = CallContainsFinalizer d2 False\<close> show ?thesis by auto
qed

subsection \<open>The shape of a successful tick\<close>

text \<open>
  Decomposition lemmas for the concrete collaborators of \<open>Cluster.thy\<close>: which
  calls a tick that returned no error has made, and with which outcomes.
\<close>

lemma reconcile_stages_ok:
  assumes "reconcile_stages r dc s = ((res, None), s')"
  shows "\<exists>s1 s2 s3 w. rc_reconcile_module r dc s = (None, s1) \<and> rc_reconcile_node_labeler r dc s1 = (None, s2) \<and>
           rc_reconcile_node_metrics r dc s2 = (None, s3) \<and>
           rc_set_ready r dc reason_reconciled (ready_message dc) s3 = (w, s')"
  using assms by (auto simp: reconcile_stages_def stages_def split: prod.splits option.splits)

lemma reconcile_stages_error:
  assumes "reconcile_stages r dc s = ((res, Some e), s')"
  shows "\<exists>reason s1 w. run_stages (stages r) dc s = (Some (reason, e), s1) \<and>
           rc_set_errored r dc reason (error_string e) s1 = (w, s')"
  using assms by (auto simp: reconcile_stages_def split: prod.splits option.splits)

lemma reconcile_normal_admitted:
  assumes "reconcile_normal r dc s = ((res, err), s')" and "rc_check_conflicts r dc s = (None, s1)"
  shows "(\<exists>s2. rc_contains_finalizer r dc s1 = (True, s2) \<and> reconcile_stages r dc s2 = ((res, err), s')) \<or>
         (\<exists>s2 s3 dc'. rc_contains_finalizer r dc s1 = (False, s2) \<and> rc_add_finalizer r dc s2 = (Inr dc', s3) \<and>
                     reconcile_stages r dc' s3 = ((res, err), s')) \<or>
         (\<exists>s2 e. rc_contains_finalizer r dc s1 = (False, s2) \<and> rc_add_finalizer r dc s2 = (Inl e, s') \<and>
                 err = Some e)"
  using assms by (auto simp: reconcile_normal_def split: prod.splits bool.splits sum.splits)

lemma reconcile_found:
  assumes "rc_get r req s = (Inr dc, s0)"
  shows "reconcile r req s =
           (if om_deletion_timestamp (dc_meta dc) \<noteq> None then delete_device_config r dc s0
            else reconcile_normal r dc s0)"
  using assms by (simp add: reconcile_def)

lemma delete_device_config_released:
  assumes "delete_device_config r dc s = (res, s')"
  shows "(\<exists>b. rc_contains_finalizer r dc s = (b, s') \<and> \<not> b) \<or>
         (\<exists>s1 s2. rc_contains_finalizer r dc s = (True, s1) \<and> rc_delete_module r dc s1 = (None, s2) \<and>
                  rc_remove_finalizer r dc s2 = (fst (rc_remove_finalizer r dc s2), s')) \<or>
         (\<exists>s1 e. rc_contains_finalizer r dc s = (True, s1) \<and> rc_delete_module r dc s1 = (Some e, s'))"
  using assms by (auto simp: delete_device_config_def split: prod.splits bool.splits option.splits)

subsection \<open>Properties of the state that every collaborator keeps\<close>

lemma run_stages_preserves:
  assumes "\<forall>(reason, f)\<in>set fs. \<forall>s. P s \<longrightarrow> P (snd (f dc s))" and "P s"
  shows "P (snd (run_stages fs dc s))"
  using assms
proof (induction fs arbitrary: s)
  case Nil
  then show ?case by simp
next
  case (Cons g fs)
  obtain reason f where g: "g = (reason, f)" by fastforce
  obtain res s' where step: "f dc s = (res, s')" by fastforce
  have "P (snd (f dc s))" using Cons.prems g by auto
  with step have "P s'" by simp
  with Cons g step show ?case by (cases res) auto
qed

lemma reconcile_stages_preserves:
  assumes "P s"
    and "\<And>s. P s \<Longrightarrow> P (snd (rc_reconcile_module r dc s))"
    and "\<And>s. P s \<Longrightarrow> P (snd (rc_reconcile_node_labeler r dc s))"
    and "\<And>s. P s \<Longrightarrow> P (snd (rc_reconcile_node_metrics r dc s))"
    and "\<And>rs m s. P s \<Longrightarrow> P (snd (rc_set_ready r dc rs m s))"
    and "\<And>rs m s. P s \<Longrightarrow> P (snd (rc_set_errored r dc rs m s))"
  shows "P (snd (reconcile_stages r dc s))"
proof -
  obtain res s1 where rs: "run_stages (stages r) dc s = (res, s1)" by fastforce
  have "\<forall>(reason, f)\<in>set (stages r). \<forall>s. P s \<longrightarrow> P (snd (f dc s))"
    using assms(2-4) by (simp add: stages_def)
  then have "P (snd (run_stages (stages r) dc s))"
    using assms(1) by (rule run_stages_preserves)
  with rs have p1: "P s1" by simp
  show ?thesis
  proof (cases res)
    case None
    with rs p1 assms(5) [of s1 reason_reconciled "ready_message dc"] show ?thesis
      by (simp add: reconcile_stages_def case_prod_unfold)
  next
    case (Some re)
    with rs p1 assms(6) [of s1 "fst re" "error_string (snd re)"] show ?thesis
      by (simp add: reconcile_stages_def case_prod_unfold)
  qed
qed

lemma reconcile_normal_preserves:
  assumes "P s"
    and "\<And>d t rs m s. P s \<Longrightarrow> P (rc_event r d t rs m s)"
    and "\<And>d s. P s \<Longrightarrow> P (snd (rc_check_conflicts r d s))"
    and "\<And>d s. P s \<Longrightarrow> P (snd (rc_contains_finalizer r d s))"
    and "\<And>d s. P s \<Longrightarrow> P (snd (rc_add_finalizer r d s))"
    and "\<And>d s. P s \<Longrightarrow> P (snd (rc_reconcile_module r d s))"
    and "\<And>d s. P s \<Longrightarrow> P (snd (rc_reconcile_node_labeler r d s))"
    and "\<And>d s. P s \<Longrightarrow> P (snd (rc_reconcile_node_metrics r d s))"
    and "\<And>d rs m s. P s \<Longrightarrow> P (snd (rc_set_ready r d rs m s))"
    and "\<And>d rs m s. P s \<Longrightarrow> P (snd (rc_set_errored r d rs m s))"
  shows "P (snd (reconcile_normal r dc s))"
proof -
  have stages: "P (snd (reconcile_stages r d s'))" if "P s'" for d s'
    using that by (rule reconcile_stages_preserves) (fact assms(6-10))+
  obtain c s1 where cc: "rc_check_conflicts r dc s = (c, s1)" by fastforce
  have p1: "P s1" using assms(3) [OF assms(1), of dc] cc by simp
  obtain b s2 where cf: "rc_contains_finalizer r dc s1 = (b, s2)" by fastforce
  have p2: "P s2" using assms(4) [OF p1, of dc] cf by simp
  obtain a s3 where af: "rc_add_finalizer r dc s2 = (a, s3)" by fastforce
  have p3: "P s3" using assms(5) [OF p2, of dc] af by simp
  show ?thesis
  proof (cases c)
    case (Some e)
    with cc have "snd (reconcile_normal r dc s) =
                    rc_event r dc ''Warning'' reason_node_selector_conflict conflict_event_message s1"
      by (simp add: reconcile_normal_def)
    with p1 assms(2) show ?thesis by simp
  next
    case None
    show ?thesis
    proof (cases b)
      case True
      with None cc cf have "reconcile_normal r dc s = reconcile_stages r dc s2"
        by (simp add: reconcile_normal_def)
      with p2 stages show ?thesis by simp
    next
      case False
      show ?thesis
      proof (cases a)
        case (Inl e)
        with None False cc cf af have "snd (reconcile_normal r dc s) = s3"
          by (simp add: reconcile_normal_def)
        with p3 show ?thesis by simp
      next
        case (Inr dc')
        with None False cc cf af have "reconcile_normal r dc s = reconcile_stages r dc' s3"
          by (simp add: reconcile_normal_def)
        with p3 stages show ?thesis by simp
      qed
    qed
  qed
qed

end
