(* ===== verification/ControllerTest.thy ===== *)
theory ControllerTest
  imports Controller
begin

text \<open>
  The fixtures of \<open>src/controllers/deviceconfig_controller_test.go\<close> (the
  functional options of \<open>makeTestDeviceConfig\<close>, the request) and its test
  cases. Each case wires gomock mocks with \<open>gomock.InOrder\<close> expectations and
  return values: here an outcome table for \<open>mock_reconciler\<close>, and the
  expectation is the exact call log of the tick, since gomock fails a test on a
  missing, an unexpected or a reordered call.
\<close>

definition test_device_config_name :: string where
  "test_device_config_name = ''test''"

definition named :: "string \<Rightarrow> device_config \<Rightarrow> device_config" where
  "named n c = c\<lparr>dc_meta := (dc_meta c)\<lparr>om_name := n\<rparr>\<rparr>"

definition deleted_at :: "nat \<Rightarrow> device_config \<Rightarrow> device_config" where
  "deleted_at now c = c\<lparr>dc_meta := (dc_meta c)\<lparr>om_deletion_timestamp := Some now\<rparr>\<rparr>"

definition node_selector_opt :: "str_map \<Rightarrow> device_config \<Rightarrow> device_config" where
  "node_selector_opt labels c = c\<lparr>dc_spec := (dc_spec c)\<lparr>node_selector := labels\<rparr>\<rparr>"

definition make_test_device_config :: "(device_config \<Rightarrow> device_config) list \<Rightarrow> device_config" where
  "make_test_device_config opts =
     foldl (\<lambda>c opt. opt c)
       \<lparr>dc_meta = new_object_meta test_device_config_name [],
        dc_spec = \<lparr>driver_image = [], driver_version = [], node_selector = Map.empty\<rparr>,
        dc_conditions = []\<rparr>
       opts"

definition test_request :: nsname where
  "test_request = ([], test_device_config_name)"

text \<open>The mocks of a case: every call succeeds on the fetched DeviceConfig unless the case says otherwise.\<close>

definition test_outcomes :: "device_config \<Rightarrow> mock_outcomes" where
  "test_outcomes dc =
     \<lparr>mo_get = Inr dc, mo_check_conflicts = None, mo_contains_finalizer = False,
      mo_add_finalizer = None, mo_remove_finalizer = None, mo_reconcile_module = None,
      mo_reconcile_node_labeler = None, mo_reconcile_node_metrics = None, mo_delete_module = None,
      mo_set_ready = None, mo_set_errored = None\<rparr>"

definition test_dc :: device_config where
  "test_dc = make_test_device_config []"

definition test_deleted_dc :: device_config where
  "test_deleted_dc = make_test_device_config [deleted_at 1]"

definition case_not_found :: mock_outcomes where
  "case_not_found = (test_outcomes test_dc)\<lparr>mo_get := Inl (ApiError NotFound)\<rparr>"

definition case_get_error :: mock_outcomes where
  "case_get_error = (test_outcomes test_dc)\<lparr>mo_get := Inl (ApiError (ServiceUnavailable ''Service unavailable''))\<rparr>"

definition case_create_all :: mock_outcomes where
  "case_create_all = test_outcomes test_dc"

definition case_module_error :: mock_outcomes where
  "case_module_error = (test_outcomes test_dc)\<lparr>mo_reconcile_module := Some (Plain ''some-error'')\<rparr>"

definition case_node_metrics_error :: mock_outcomes where
  "case_node_metrics_error = (test_outcomes test_dc)\<lparr>mo_reconcile_node_metrics := Some (Plain ''some-error'')\<rparr>"

definition case_add_finalizer_error :: mock_outcomes where
  "case_add_finalizer_error = (test_outcomes test_dc)\<lparr>mo_add_finalizer := Some (Plain ''some-error'')\<rparr>"

definition case_conflict :: mock_outcomes where
  "case_conflict = (test_outcomes test_dc)\<lparr>mo_check_conflicts := Some (Plain ''an error'')\<rparr>"

definition case_deletion_error :: mock_outcomes where
  "case_deletion_error =
     (test_outcomes test_deleted_dc)\<lparr>mo_contains_finalizer := True,
                                     mo_delete_module := Some (Plain ''something went wrong'')\<rparr>"

definition case_deletion_ok :: mock_outcomes where
  "case_deletion_ok = (test_outcomes test_deleted_dc)\<lparr>mo_contains_finalizer := True\<rparr>"

definition case_remove_finalizer_error :: mock_outcomes where
  "case_remove_finalizer_error =
     (test_outcomes test_deleted_dc)\<lparr>mo_contains_finalizer := True,
                                     mo_remove_finalizer := Some (Plain ''some error'')\<rparr>"

definition case_no_finalizer :: mock_outcomes where
  "case_no_finalizer = test_outcomes test_deleted_dc"

lemmas controller_test_defs = test_device_config_name_def named_def deleted_at_def node_selector_opt_def
  make_test_device_config_def test_request_def test_outcomes_def test_dc_def test_deleted_dc_def
  new_object_meta_def

lemmas tick_defs = reconcile_def reconcile_normal_def delete_device_config_def reconcile_stages_def
  stages_def

subsection \<open>The test cases\<close>

theorem controller_test_not_found:
  "reconcile (mock_reconciler case_not_found) test_request [] =
     ((no_requeue, None), [CallGet test_request (Inl (ApiError NotFound))])"
  by (simp add: tick_defs case_not_found_def controller_test_defs)

theorem controller_test_get_error:
  "reconcile (mock_reconciler case_get_error) test_request [] =
     ((no_requeue, Some (ApiError (ServiceUnavailable ''Service unavailable''))),
      [CallGet test_request (Inl (ApiError (ServiceUnavailable ''Service unavailable'')))])"
  by (simp add: tick_defs case_get_error_def controller_test_defs)

theorem controller_test_create_all:
  "reconcile (mock_reconciler case_create_all) test_request [] =
     ((no_requeue, None),
      [CallGet test_request (Inr test_dc), CallCheckConflicts test_dc None,
       CallContainsFinalizer test_dc False, CallAddFinalizer test_dc (Inr test_dc),
       CallReconcileModule test_dc None, CallReconcileNodeLabeler test_dc None,
       CallReconcileNodeMetrics test_dc None, CallSetReady test_dc ''Reconciled'' None])"
  by (simp add: tick_defs case_create_all_def controller_test_defs reason_reconciled_def)

theorem controller_test_module_error:
  "reconcile (mock_reconciler case_module_error) test_request [] =
     ((no_requeue, Some (Plain ''some-error'')),
      [CallGet test_request (Inr test_dc), CallCheckConflicts test_dc None,
       CallContainsFinalizer test_dc False, CallAddFinalizer test_dc (Inr test_dc),
       CallReconcileModule test_dc (Some (Plain ''some-error'')),
       CallSetErrored test_dc ''ModuleFailed'' None])"
  by (simp add: tick_defs case_module_error_def controller_test_defs reason_module_failed_def)

theorem controller_test_node_metrics_error:
  "reconcile (mock_reconciler case_node_metrics_error) test_request [] =
     ((no_requeue, Some (Plain ''some-error'')),
      [CallGet test_request (Inr test_dc), CallCheckConflicts test_dc None,
       CallContainsFinalizer test_dc False, CallAddFinalizer test_dc (Inr test_dc),
       CallReconcileModule test_dc None, CallReconcileNodeLabeler test_dc None,
       CallReconcileNodeMetrics test_dc (Some (Plain ''some-error'')),
       CallSetErrored test_dc ''NodeMetricsFailed'' None])"
  by (simp add: tick_defs case_node_metrics_error_def controller_test_defs reason_node_metrics_failed_def)

theorem controller_test_add_finalizer_error:
  "reconcile (mock_reconciler case_add_finalizer_error) test_request [] =
     ((no_requeue, Some (Plain ''some-error'')),
      [CallGet test_request (Inr test_dc), CallCheckConflicts test_dc None,
       CallContainsFinalizer test_dc False, CallAddFinalizer test_dc (Inl (Plain ''some-error''))])"
  by (simp add: tick_defs case_add_finalizer_error_def controller_test_defs)

theorem controller_test_conflict:
  "reconcile (mock_reconciler case_conflict) test_request [] =
     ((no_requeue, None),
      [CallGet test_request (Inr test_dc), CallCheckConflicts test_dc (Some (Plain ''an error'')),
       CallEvent test_dc ''Warning'' ''NodeSelectorConflictErrored'' ''Conflicting DeviceConfig NodeSelectors found''])"
  by (simp add: tick_defs case_conflict_def controller_test_defs reason_node_selector_conflict_def
                conflict_event_message_def)

theorem controller_test_deletion_error:
  "reconcile (mock_reconciler case_deletion_error) test_request [] =
     ((no_requeue, Some (errorf_w ''failed to delete DeviceConfig resources'' (Plain ''something went wrong''))),
      [CallGet test_request (Inr test_deleted_dc), CallContainsFinalizer test_deleted_dc True,
       CallDeleteModule test_deleted_dc (Some (Plain ''something went wrong''))]) \<and>
   sublist ''failed to delete DeviceConfig resources''
     (error_string (errorf_w ''failed to delete DeviceConfig resources'' (Plain ''something went wrong''))) \<and>
   sublist ''something went wrong''
     (error_string (errorf_w ''failed to delete DeviceConfig resources'' (Plain ''something went wrong'')))"
  using sublist_errorf_w_prefix [of "''failed to delete DeviceConfig resources''" "Plain ''something went wrong''"]
    sublist_errorf_w_inner [of "Plain ''something went wrong''" "''failed to delete DeviceConfig resources''"]
  by (simp add: tick_defs case_deletion_error_def controller_test_defs)

theorem controller_test_deletion_ok:
  "reconcile (mock_reconciler case_deletion_ok) test_request [] =
     ((no_requeue, None),
      [CallGet test_request (Inr test_deleted_dc), CallContainsFinalizer test_deleted_dc True,
       CallDeleteModule test_deleted_dc None, CallRemoveFinalizer test_deleted_dc None])"
  by (simp add: tick_defs case_deletion_ok_def controller_test_defs)

theorem controller_test_remove_finalizer_error:
  "reconcile (mock_reconciler case_remove_finalizer_error) test_request [] =
     ((no_requeue, Some (Plain ''some error'')),
      [CallGet test_request (Inr test_deleted_dc), CallContainsFinalizer test_deleted_dc True,
       CallDeleteModule test_deleted_dc None, CallRemoveFinalizer test_deleted_dc (Some (Plain ''some error''))])"
  by (simp add: tick_defs case_remove_finalizer_error_def controller_test_defs)

theorem controller_test_no_finalizer:
  "reconcile (mock_reconciler case_no_finalizer) test_request [] =
     ((no_requeue, None),
      [CallGet test_request (Inr test_deleted_dc), CallContainsFinalizer test_deleted_dc False])"
  by (simp add: tick_defs case_no_finalizer_def controller_test_defs)

subsection \<open>The ordering theorems on the test runs\<close>

theorem mock_tick_stage_order_witness:
  "\<exists>xs' d1 d2.
     [CallGet test_request (Inr test_dc), CallCheckConflicts test_dc None,
      CallContainsFinalizer test_dc False, CallAddFinalizer test_dc (Inr test_dc),
      CallReconcileModule test_dc None, CallReconcileNodeLabeler test_dc None] =
     xs' @ [CallReconcileModule d1 None, CallReconcileNodeLabeler d2 None]"
  using mock_tick_stage_order [of case_create_all test_request
          "[CallGet test_request (Inr test_dc), CallCheckConflicts test_dc None,
            CallContainsFinalizer test_dc False, CallAddFinalizer test_dc (Inr test_dc),
            CallReconcileModule test_dc None, CallReconcileNodeLabeler test_dc None]"
          test_dc None "[CallSetReady test_dc ''Reconciled'' None]"]
    controller_test_create_all
  by simp

theorem mock_tick_admission_before_finalizer_witness:
  "\<exists>xs' d1 d2.
     [CallGet test_request (Inr test_dc), CallCheckConflicts test_dc None, CallContainsFinalizer test_dc False] =
     xs' @ [CallCheckConflicts d1 None, CallContainsFinalizer d2 False]"
  using mock_tick_admission_before_finalizer [of case_create_all test_request
          "[CallGet test_request (Inr test_dc), CallCheckConflicts test_dc None, CallContainsFinalizer test_dc False]"
          test_dc "Inr test_dc"
          "[CallReconcileModule test_dc None, CallReconcileNodeLabeler test_dc None,
            CallReconcileNodeMetrics test_dc None, CallSetReady test_dc ''Reconciled'' None]"]
    controller_test_create_all
  by simp

theorem mock_tick_release_after_delete_witness:
  "\<exists>xs' dc'.
     [CallGet test_request (Inr test_deleted_dc), CallContainsFinalizer test_deleted_dc True,
      CallDeleteModule test_deleted_dc None] = xs' @ [CallDeleteModule dc' None]"
  using mock_tick_release_after_delete [of case_deletion_ok test_request
          "[CallGet test_request (Inr test_deleted_dc), CallContainsFinalizer test_deleted_dc True,
            CallDeleteModule test_deleted_dc None]" test_deleted_dc None "[]"]
    controller_test_deletion_ok
  by simp

end
