(* ===== verification/Store.thy ===== *)
theory Store
  imports Types
begin

text \<open>
  The object store seen through the controller-runtime client, which is the
  only shared state of the system (spec section 5). A \<open>cluster\<close> holds the
  DeviceConfigs (a list, since the validator lists them), the Modules by
  identity, the nodes, the recorded events, a clock for condition transition
  times, and a fault table: \<open>cl_faults v k\<close> is the API error that every call
  of verb \<open>v\<close> on kind \<open>k\<close> returns, which is how the tests' mocks inject
  failures. Each client call checks the fault table first. The client code is
  not in the repository; its behaviour is that of the API server: \<open>Get\<close> of an
  absent object is \<open>NotFound\<close>, \<open>Create\<close> of a present one \<open>AlreadyExists\<close>,
  \<open>Update\<close> replaces an object's metadata and spec but not its status,
  \<open>Status().Update\<close> replaces only the status, and an object with a deletion
  timestamp and no finalizer left is removed by the store.
  \<open>create_or_patch_module\<close> is controller-runtime's
  \<open>controllerutil.CreateOrPatch\<close> specialised to Modules.
\<close>

datatype kind = KindDeviceConfig | KindModule | KindNode

datatype verb = VGet | VList | VCreate | VUpdate | VStatusUpdate | VPatch | VDelete

record event =
  ev_object :: nsname
  ev_type :: string
  ev_reason :: string
  ev_message :: string

text \<open>
  An injected failure is a transient error of the API server or an arbitrary
  Go error (a mock's \<open>errors.New\<close>); absence of an object is never
  injected, it is the store's content that makes a call return \<open>NotFound\<close>.
\<close>

datatype store_fault = FaultUnavailable string | FaultConflict | FaultOther string

fun fault_error :: "store_fault \<Rightarrow> error" where
  "fault_error (FaultUnavailable s) = ApiError (ServiceUnavailable s)"
| "fault_error FaultConflict = ApiError Conflict"
| "fault_error (FaultOther s) = Plain s"

record cluster =
  cl_device_configs :: "device_config list"
  cl_modules :: "nsname \<rightharpoonup> kmm_module"
  cl_nodes :: "node list"
  cl_events :: "event list"
  cl_faults :: "verb \<Rightarrow> kind \<Rightarrow> store_fault option"
  cl_clock :: nat

definition fault :: "verb \<Rightarrow> kind \<Rightarrow> cluster \<Rightarrow> error option" where
  "fault v k cl = map_option fault_error (cl_faults cl v k)"

subsection \<open>Modules\<close>

definition client_get_module :: "nsname \<Rightarrow> cluster \<Rightarrow> error + kmm_module" where
  "client_get_module key cl =
     (case fault VGet KindModule cl of
        Some e \<Rightarrow> Inl e
      | None \<Rightarrow> (case cl_modules cl key of
                  None \<Rightarrow> Inl (ApiError NotFound)
                | Some m \<Rightarrow> Inr m))"

definition client_create_module :: "kmm_module \<Rightarrow> cluster \<Rightarrow> error option \<times> cluster" where
  "client_create_module m cl =
     (case fault VCreate KindModule cl of
        Some e \<Rightarrow> (Some e, cl)
      | None \<Rightarrow> (if mod_key m \<in> dom (cl_modules cl) then (Some (ApiError AlreadyExists), cl)
                 else (None, cl\<lparr>cl_modules := (cl_modules cl)(mod_key m \<mapsto> m)\<rparr>)))"

definition client_patch_module :: "kmm_module \<Rightarrow> cluster \<Rightarrow> error option \<times> cluster" where
  "client_patch_module m cl =
     (case fault VPatch KindModule cl of
        Some e \<Rightarrow> (Some e, cl)
      | None \<Rightarrow> (if mod_key m \<in> dom (cl_modules cl)
                 then (None, cl\<lparr>cl_modules := (cl_modules cl)(mod_key m \<mapsto> m)\<rparr>)
                 else (Some (ApiError NotFound), cl)))"

definition client_delete_module :: "nsname \<Rightarrow> cluster \<Rightarrow> error option \<times> cluster" where
  "client_delete_module key cl =
     (case fault VDelete KindModule cl of
        Some e \<Rightarrow> (Some e, cl)
      | None \<Rightarrow> (if key \<in> dom (cl_modules cl)
                 then (None, cl\<lparr>cl_modules := (cl_modules cl)(key := None)\<rparr>)
                 else (Some (ApiError NotFound), cl)))"

subsection \<open>DeviceConfigs and nodes\<close>

definition find_device_config :: "nsname \<Rightarrow> device_config list \<Rightarrow> device_config option" where
  "find_device_config key dcs = find (\<lambda>d. dc_key d = key) dcs"

definition client_get_device_config :: "nsname \<Rightarrow> cluster \<Rightarrow> error + device_config" where
  "client_get_device_config key cl =
     (case fault VGet KindDeviceConfig cl of
        Some e \<Rightarrow> Inl e
      | None \<Rightarrow> (case find_device_config key (cl_device_configs cl) of
                  None \<Rightarrow> Inl (ApiError NotFound)
                | Some d \<Rightarrow> Inr d))"

definition client_list_device_configs :: "cluster \<Rightarrow> error + device_config list" where
  "client_list_device_configs cl =
     (case fault VList KindDeviceConfig cl of
        Some e \<Rightarrow> Inl e
      | None \<Rightarrow> Inr (cl_device_configs cl))"

definition client_list_nodes :: "cluster \<Rightarrow> error + node list" where
  "client_list_nodes cl =
     (case fault VList KindNode cl of
        Some e \<Rightarrow> Inl e
      | None \<Rightarrow> Inr (cl_nodes cl))"

text \<open>
  The store keeps a DeviceConfig until it carries a deletion timestamp and no
  finalizer; then it removes it.
\<close>

definition gc_device_configs :: "device_config list \<Rightarrow> device_config list" where
  "gc_device_configs dcs =
     filter (\<lambda>d. om_deletion_timestamp (dc_meta d) = None \<or> om_finalizers (dc_meta d) \<noteq> []) dcs"

definition replace_device_config ::
  "(device_config \<Rightarrow> device_config) \<Rightarrow> nsname \<Rightarrow> device_config list \<Rightarrow> device_config list" where
  "replace_device_config f key dcs = map (\<lambda>d. if dc_key d = key then f d else d) dcs"

definition client_update_device_config :: "device_config \<Rightarrow> cluster \<Rightarrow> error option \<times> cluster" where
  "client_update_device_config dc cl =
     (case fault VUpdate KindDeviceConfig cl of
        Some e \<Rightarrow> (Some e, cl)
      | None \<Rightarrow>
          (case find_device_config (dc_key dc) (cl_device_configs cl) of
             None \<Rightarrow> (Some (ApiError NotFound), cl)
           | Some _ \<Rightarrow>
               (None, cl\<lparr>cl_device_configs :=
                  gc_device_configs
                    (replace_device_config (\<lambda>d. dc\<lparr>dc_conditions := dc_conditions d\<rparr>)
                       (dc_key dc) (cl_device_configs cl))\<rparr>)))"

definition client_status_update_device_config ::
  "device_config \<Rightarrow> cluster \<Rightarrow> error option \<times> cluster" where
  "client_status_update_device_config dc cl =
     (case fault VStatusUpdate KindDeviceConfig cl of
        Some e \<Rightarrow> (Some e, cl)
      | None \<Rightarrow>
          (case find_device_config (dc_key dc) (cl_device_configs cl) of
             None \<Rightarrow> (Some (ApiError NotFound), cl)
           | Some _ \<Rightarrow>
               (None, cl\<lparr>cl_device_configs :=
                  replace_device_config (\<lambda>d. d\<lparr>dc_conditions := dc_conditions dc\<rparr>)
                    (dc_key dc) (cl_device_configs cl)\<rparr>)))"

subsection \<open>CreateOrPatch\<close>

datatype operation_result = OperationResultNone | OperationResultCreated | OperationResultUpdated

text \<open>
  \<open>mutate\<close> runs the mutate function and refuses a change of the object's
  identity.
\<close>

definition mutate_module ::
  "(kmm_module \<Rightarrow> error + kmm_module) \<Rightarrow> nsname \<Rightarrow> kmm_module \<Rightarrow> error + kmm_module" where
  "mutate_module f key obj =
     (case f obj of
        Inl e \<Rightarrow> Inl e
      | Inr obj' \<Rightarrow>
          if mod_key obj' \<noteq> key
          then Inl (Plain ''MutateFn cannot mutate object name and/or object namespace'')
          else Inr obj')"

text \<open>
  \<open>CreateOrPatch(ctx, c, obj, f)\<close>: read the object at \<open>obj\<close>'s identity; if
  it is absent, mutate \<open>obj\<close> and create it; if present, mutate the stored copy
  and patch it only when the mutation changed it.
\<close>

definition create_or_patch_module ::
  "kmm_module \<Rightarrow> (kmm_module \<Rightarrow> error + kmm_module) \<Rightarrow> cluster \<Rightarrow> (error + operation_result) \<times> cluster" where
  "create_or_patch_module obj f cl =
     (let key = mod_key obj in
      case client_get_module key cl of
        Inl e \<Rightarrow>
          if \<not> is_not_found e then (Inl e, cl)
          else (case mutate_module f key obj of
                  Inl e' \<Rightarrow> (Inl e', cl)
                | Inr obj' \<Rightarrow>
                    (case client_create_module obj' cl of
                       (Some e', cl') \<Rightarrow> (Inl e', cl')
                     | (None, cl') \<Rightarrow> (Inr OperationResultCreated, cl')))
      | Inr existing \<Rightarrow>
          (case mutate_module f key existing of
             Inl e' \<Rightarrow> (Inl e', cl)
           | Inr obj' \<Rightarrow>
               if obj' = existing then (Inr OperationResultNone, cl)
               else (case client_patch_module obj' cl of
                       (Some e', cl') \<Rightarrow> (Inl e', cl')
                     | (None, cl') \<Rightarrow> (Inr OperationResultUpdated, cl'))))"

text \<open>The store indexes each Module under its own identity.\<close>

definition modules_wf :: "cluster \<Rightarrow> bool" where
  "modules_wf cl \<longleftrightarrow> (\<forall>k\<in>dom (cl_modules cl). mod_key (the (cl_modules cl k)) = k)"

declare client_get_module_def [client_simps] client_create_module_def [client_simps]
  client_patch_module_def [client_simps] client_delete_module_def [client_simps]
  client_get_device_config_def [client_simps] client_list_device_configs_def [client_simps]
  client_list_nodes_def [client_simps] client_update_device_config_def [client_simps]
  client_status_update_device_config_def [client_simps] fault_def [client_simps]

subsection \<open>Frame and outcome lemmas\<close>

lemma client_create_module_modules:
  "client_create_module m cl = (None, cl') \<Longrightarrow>
     cl' = cl\<lparr>cl_modules := (cl_modules cl)(mod_key m \<mapsto> m)\<rparr>"
  by (auto simp: client_simps split: option.splits if_splits)

lemma client_patch_module_modules:
  "client_patch_module m cl = (None, cl') \<Longrightarrow>
     cl' = cl\<lparr>cl_modules := (cl_modules cl)(mod_key m \<mapsto> m)\<rparr>"
  by (auto simp: client_simps split: option.splits if_splits)

lemma client_create_module_error_unchanged:
  "client_create_module m cl = (Some e, cl') \<Longrightarrow> cl' = cl"
  by (auto simp: client_simps split: option.splits if_splits)

lemma client_patch_module_error_unchanged:
  "client_patch_module m cl = (Some e, cl') \<Longrightarrow> cl' = cl"
  by (auto simp: client_simps split: option.splits if_splits)

lemma create_or_patch_module_absent:
  assumes "cl_faults cl VGet KindModule = None" and "cl_modules cl (mod_key obj) = None"
  shows "create_or_patch_module obj f cl =
           (case mutate_module f (mod_key obj) obj of
              Inl e' \<Rightarrow> (Inl e', cl)
            | Inr obj' \<Rightarrow>
                (case client_create_module obj' cl of
                   (Some e', cl') \<Rightarrow> (Inl e', cl')
                 | (None, cl') \<Rightarrow> (Inr OperationResultCreated, cl')))"
  using assms by (simp add: create_or_patch_module_def client_simps)

lemma create_or_patch_module_present:
  assumes "cl_faults cl VGet KindModule = None" and "cl_modules cl (mod_key obj) = Some ex"
  shows "create_or_patch_module obj f cl =
           (case mutate_module f (mod_key obj) ex of
              Inl e' \<Rightarrow> (Inl e', cl)
            | Inr obj' \<Rightarrow>
                if obj' = ex then (Inr OperationResultNone, cl)
                else (case client_patch_module obj' cl of
                        (Some e', cl') \<Rightarrow> (Inl e', cl')
                      | (None, cl') \<Rightarrow> (Inr OperationResultUpdated, cl')))"
  using assms by (simp add: create_or_patch_module_def client_simps)

lemma fault_error_not_found [simp]: "\<not> is_not_found (fault_error f)"
  by (cases f) auto

lemma create_or_patch_module_get_error:
  assumes "cl_faults cl VGet KindModule = Some f"
  shows "create_or_patch_module obj f' cl = (Inl (fault_error f), cl)"
  using assms by (simp add: create_or_patch_module_def client_simps)

lemma modules_wf_lookup: "modules_wf cl \<Longrightarrow> cl_modules cl k = Some m \<Longrightarrow> mod_key m = k"
  by (force simp: modules_wf_def)

lemma modules_wf_upd: "modules_wf cl \<Longrightarrow> modules_wf (cl\<lparr>cl_modules := (cl_modules cl)(mod_key m \<mapsto> m)\<rparr>)"
  by (simp add: modules_wf_def)

lemma client_create_module_effect:
  "client_create_module m cl = (res, cl') \<Longrightarrow>
     cl' = cl \<or> cl' = cl\<lparr>cl_modules := (cl_modules cl)(mod_key m \<mapsto> m)\<rparr>"
  by (auto simp: client_simps split: option.splits if_splits)

lemma client_patch_module_effect:
  "client_patch_module m cl = (res, cl') \<Longrightarrow>
     cl' = cl \<or> cl' = cl\<lparr>cl_modules := (cl_modules cl)(mod_key m \<mapsto> m)\<rparr>"
  by (auto simp: client_simps split: option.splits if_splits)

lemma modules_wf_del: "modules_wf cl \<Longrightarrow> modules_wf (cl\<lparr>cl_modules := (cl_modules cl)(k := None)\<rparr>)"
  by (force simp: modules_wf_def)

lemma find_device_config_SomeD:
  "find_device_config k dcs = Some d \<Longrightarrow> dc_key d = k \<and> d \<in> set dcs"
  by (induction dcs) (auto simp: find_device_config_def split: if_splits)

lemma find_device_config_exists:
  "d \<in> set dcs \<Longrightarrow> dc_key d = k \<Longrightarrow> \<exists>d'. find_device_config k dcs = Some d'"
  by (induction dcs) (auto simp: find_device_config_def)

end
