(* ===== verification/Module.thy ===== *)
theory Module
  imports Store
begin

text \<open>
  The Module sub-reconciler, \<open>src/internal/module/module.go\<close>, one definition
  per declaration in the order of the file: the constants, the reconciler
  struct and its constructor, \<open>GetModuleName\<close>, \<open>ReconcileModule\<close>,
  \<open>DeleteModule\<close>, \<open>SetDesiredModule\<close> and the three builders. The client a
  method uses is the \<open>cluster\<close> argument; the process-wide
  \<open>s.Settings\<close> is the \<open>settings\<close> argument. A Go \<open>*kmmv1beta1.Module\<close>
  that may be nil is a \<open>kmm_module option\<close>.
\<close>

subsection \<open>Constants (lines 37--47)\<close>

definition module_suffix :: string where
  "module_suffix = ''module''"

definition driver_service_account :: string where
  "driver_service_account = ''driver-habana''"

definition device_plugin_limits_cpu :: string where
  "device_plugin_limits_cpu = ''200m''"

definition device_plugin_limits_memory :: string where
  "device_plugin_limits_memory = ''100Mi''"

definition device_plugin_requests_cpu :: string where
  "device_plugin_requests_cpu = ''100m''"

definition device_plugin_requests_memory :: string where
  "device_plugin_requests_memory = ''50Mi''"

definition device_plugin_service_account :: string where
  "device_plugin_service_account = ''device-plugin''"

subsection \<open>The reconciler\<close>

text \<open>
  The interface \<open>Reconciler\<close> (lines 51--55) through which the controller calls
  this package; \<open>SetDesiredModule\<close> fills in the Module it is given, here
  it returns the filled-in Module.
\<close>

record module_iface =
  mi_reconcile_module :: "device_config \<Rightarrow> cluster \<Rightarrow> error option \<times> cluster"
  mi_set_desired_module :: "kmm_module option \<Rightarrow> device_config \<Rightarrow> error + kmm_module"
  mi_delete_module :: "device_config \<Rightarrow> cluster \<Rightarrow> error option \<times> cluster"

record module_reconciler =
  mr_scheme :: scheme

definition new_reconciler :: "scheme \<Rightarrow> module_reconciler" where
  "new_reconciler s = \<lparr>mr_scheme = s\<rparr>"

definition get_module_name :: "device_config \<Rightarrow> string" where
  "get_module_name cr = dc_name cr @ ''-'' @ module_suffix"

definition module_key :: "device_config \<Rightarrow> nsname" where
  "module_key cr = (dc_namespace cr, get_module_name cr)"

definition new_module :: "device_config \<Rightarrow> kmm_module" where
  "new_module cr =
     \<lparr>mod_meta = new_object_meta (get_module_name cr) (dc_namespace cr),
      mod_spec = empty_module_spec\<rparr>"

subsection \<open>Builders (lines 150--204)\<close>

text \<open>The Go raw string \<open>^.*\.el\d_?\d?\..*$\<close>, whose backslashes are \<open>CHR 0x5C\<close>.\<close>

definition kernel_regexp :: string where
  "kernel_regexp =
     ''^.*'' @ [CHR 0x5C] @ ''.el'' @ [CHR 0x5C] @ ''d_?'' @ [CHR 0x5C] @ ''d?'' @
     [CHR 0x5C] @ ''..*$''"

definition make_kernel_mappings :: "device_config \<Rightarrow> kernel_mapping list" where
  "make_kernel_mappings cr =
     [\<lparr>km_container_image =
         driver_image (dc_spec cr) @ '':'' @ driver_version (dc_spec cr) @ ''-${KERNEL_FULL_VERSION}'',
       km_regexp = kernel_regexp\<rparr>]"

definition make_module_loader :: "device_config \<Rightarrow> module_loader_spec" where
  "make_module_loader cr =
     \<lparr>ml_container =
        \<lparr>mlc_image_pull_policy = PullAlways,
         mlc_kernel_mappings = make_kernel_mappings cr,
         mlc_modprobe = \<lparr>mp_module_name = ''habanalabs'',
                         mp_firmware_path = ''/opt/lib/firmware/habanalabs''\<rparr>\<rparr>,
      ml_service_account_name = driver_service_account\<rparr>"

definition make_device_plugin :: "settings \<Rightarrow> device_config \<Rightarrow> string \<Rightarrow> device_plugin_spec" where
  "make_device_plugin st cr device_type =
     \<lparr>dp_container =
        \<lparr>dpc_args = [''--dev_type'', device_type],
         dpc_command = [''habanalabs-device-plugin''],
         dpc_image = device_plugin_image st,
         dpc_image_pull_policy = PullAlways,
         dpc_resources =
           \<lparr>rr_limits = [''cpu'' \<mapsto> device_plugin_limits_cpu, ''memory'' \<mapsto> device_plugin_limits_memory],
            rr_requests = [''cpu'' \<mapsto> device_plugin_requests_cpu, ''memory'' \<mapsto> device_plugin_requests_memory]\<rparr>\<rparr>,
      dp_service_account_name = device_plugin_service_account\<rparr>"

subsection \<open>SetDesiredModule (lines 126--148)\<close>

text \<open>The label \<open>fmt.Sprintf("habana.ai/hpu.%s.present", deviceType)\<close>.\<close>

definition present_label :: "string \<Rightarrow> string" where
  "present_label device_type = ''habana.ai/hpu.'' @ device_type @ ''.present''"

definition set_desired_module ::
  "settings \<Rightarrow> module_reconciler \<Rightarrow> kmm_module option \<Rightarrow> device_config \<Rightarrow> error + kmm_module" where
  "set_desired_module st r mo cr =
     (case mo of
        None \<Rightarrow> Inl (Plain ''module cannot be nil'')
      | Some m \<Rightarrow>
          (let device_type = ''gaudi'';
               device_plugin = make_device_plugin st cr device_type;
               module_loader = make_module_loader cr;
               selector = (get_node_selector cr)(present_label device_type \<mapsto> ''true'');
               m' = m\<lparr>mod_spec := \<lparr>ms_device_plugin = Some device_plugin,
                                     ms_module_loader = module_loader,
                                     ms_selector = selector\<rparr>\<rparr>
           in case set_controller_reference (dc_meta cr) device_config_kind (mod_meta m') (mr_scheme r) of
                Inl e \<Rightarrow> Inl e
              | Inr meta' \<Rightarrow> Inr (m'\<lparr>mod_meta := meta'\<rparr>)))"

subsection \<open>ReconcileModule (lines 73--108) and DeleteModule (lines 110--124)\<close>

text \<open>
  The first \<open>Get\<close> only decides whether an unexpected error is returned as it
  is and which object \<open>CreateOrPatch\<close> starts from; \<open>CreateOrPatch\<close> reads
  the object again. Its error is flattened with \<open>%v\<close>.
\<close>

definition reconcile_module ::
  "settings \<Rightarrow> module_reconciler \<Rightarrow> device_config \<Rightarrow> cluster \<Rightarrow> error option \<times> cluster" where
  "reconcile_module st r cr cl =
     (let got = client_get_module (module_key cr) cl in
      if (case got of Inl e \<Rightarrow> \<not> is_not_found e | Inr _ \<Rightarrow> False)
      then (Some (projl got), cl)
      else
        (let m = (case got of Inr existing \<Rightarrow> existing | Inl _ \<Rightarrow> new_module cr) in
         case create_or_patch_module m (\<lambda>obj. set_desired_module st r (Some obj) cr) cl of
           (Inl e, cl') \<Rightarrow> (Some (errorf_v ''could not create or patch Module'' e), cl')
         | (Inr res, cl') \<Rightarrow> (None, cl')))"

definition delete_module ::
  "module_reconciler \<Rightarrow> device_config \<Rightarrow> cluster \<Rightarrow> error option \<times> cluster" where
  "delete_module r cr cl =
     (let m = new_module cr in
      case client_delete_module (mod_key m) cl of
        (Some e, cl') \<Rightarrow>
          if \<not> is_not_found e
          then (Some (errorf_w (''failed to delete Module '' @ om_name (mod_meta m)) e), cl')
          else (None, cl')
      | (None, cl') \<Rightarrow> (None, cl'))"

text \<open>\<open>*moduleReconciler\<close> implements \<open>Reconciler\<close> with its three methods.\<close>

definition module_reconciler_iface :: "settings \<Rightarrow> module_reconciler \<Rightarrow> module_iface" where
  "module_reconciler_iface st r =
     \<lparr>mi_reconcile_module = reconcile_module st r,
      mi_set_desired_module = (\<lambda>mo cr. set_desired_module st r mo cr),
      mi_delete_module = delete_module r\<rparr>"

declare make_kernel_mappings_def [builder_defs] make_module_loader_def [builder_defs]
  make_device_plugin_def [builder_defs] present_label_def [builder_defs]

subsection \<open>Lemmas\<close>

lemma set_desired_module_Inr_iff:
  "set_desired_module st r (Some m) cr = Inr m' \<longleftrightarrow>
     can_set_controller (dc_meta cr) device_config_kind (mod_meta m) (mr_scheme r) \<and>
     m' = m\<lparr>mod_spec := \<lparr>ms_device_plugin = Some (make_device_plugin st cr ''gaudi''),
                         ms_module_loader = make_module_loader cr,
                         ms_selector = (get_node_selector cr)(present_label ''gaudi'' \<mapsto> ''true'')\<rparr>,
            mod_meta := (mod_meta m)\<lparr>om_owner_references :=
               upsert_owner_ref (controller_ref (the (map_of (mr_scheme r) device_config_kind))
                                   device_config_kind (dc_meta cr))
                 (om_owner_references (mod_meta m))\<rparr>\<rparr>"
proof (cases "can_set_controller (dc_meta cr) device_config_kind (mod_meta m) (mr_scheme r)")
  case True
  then show ?thesis
    by (auto simp: set_desired_module_def set_controller_reference_can Let_def)
next
  case False
  then have "\<not> (\<exists>x. set_controller_reference (dc_meta cr) device_config_kind (mod_meta m) (mr_scheme r) = Inr x)"
    by (simp add: set_controller_reference_iff)
  with False show ?thesis
    by (auto simp: set_desired_module_def Let_def split: sum.splits)
qed

lemma set_desired_module_selector_owner:
  assumes "set_desired_module st r (Some m) cr = Inr m'"
  shows "ms_selector (mod_spec m') = (node_selector (dc_spec cr))(''habana.ai/hpu.gaudi.present'' \<mapsto> ''true'') \<and>
         (\<exists>av. controller_ref av device_config_kind (dc_meta cr) \<in> set (om_owner_references (mod_meta m')))"
  using assms
  by (auto simp: set_desired_module_Inr_iff present_label_def get_node_selector_def)
    (blast intro: upsert_owner_ref_member)

text \<open>C9: SetDesiredModule succeeds exactly when it is given a Module (not nil) that the DeviceConfig may become the controller of; otherwise it returns an error.\<close>

theorem set_desired_module_total:
  "(\<exists>m'. set_desired_module st r mo cr = Inr m') \<longleftrightarrow>
     (\<exists>m. mo = Some m \<and> can_set_controller (dc_meta cr) device_config_kind (mod_meta m) (mr_scheme r))"
proof (cases mo)
  case None
  then show ?thesis by (simp add: set_desired_module_def)
next
  case (Some m)
  then show ?thesis by (simp add: set_desired_module_Inr_iff)
qed

text \<open>C8: A Module that SetDesiredModule produces has the selector, the kernel mapping image and the device-plugin image the code builds, keeps the identity of the Module it was given, and is controlled by the DeviceConfig.\<close>

theorem set_desired_module_spec:
  assumes "set_desired_module st r (Some m) cr = Inr m'"
  shows "ms_selector (mod_spec m') = (node_selector (dc_spec cr))(''habana.ai/hpu.gaudi.present'' \<mapsto> ''true'') \<and>
         mlc_kernel_mappings (ml_container (ms_module_loader (mod_spec m'))) =
           [\<lparr>km_container_image = driver_image (dc_spec cr) @ '':'' @ driver_version (dc_spec cr) @
                                  ''-${KERNEL_FULL_VERSION}'',
             km_regexp = kernel_regexp\<rparr>] \<and>
         map_option (dpc_image \<circ> dp_container) (ms_device_plugin (mod_spec m')) = Some (device_plugin_image st) \<and>
         mod_key m' = mod_key m \<and>
         (\<exists>av. controller_ref av device_config_kind (dc_meta cr) \<in> set (om_owner_references (mod_meta m')))"
  using set_desired_module_selector_owner [OF assms] assms
  by (auto simp: set_desired_module_Inr_iff builder_defs mod_key_def om_key_def)

lemma set_desired_module_idem:
  assumes "set_desired_module st r (Some m) cr = Inr m'"
  shows "set_desired_module st r (Some m') cr = Inr m'"
proof -
  from assms have can: "can_set_controller (dc_meta cr) device_config_kind (mod_meta m) (mr_scheme r)"
    by (simp add: set_desired_module_Inr_iff)
  then obtain av where av: "map_of (mr_scheme r) device_config_kind = Some av"
    by (auto simp: can_set_controller_def split: option.splits)
  from can av have "can_set_controller (dc_meta cr) device_config_kind (mod_meta m') (mr_scheme r)"
    using assms by (auto simp: set_desired_module_Inr_iff intro: can_set_controller_upsert)
  with assms av show ?thesis
    by (auto simp: set_desired_module_Inr_iff upsert_owner_ref_idem)
qed

lemma mod_key_new_module [simp]: "mod_key (new_module cr) = module_key cr"
  by (simp add: new_module_def mod_key_def module_key_def)

lemma set_desired_module_key:
  "set_desired_module st r (Some m) cr = Inr m' \<Longrightarrow> mod_key m' = mod_key m"
  by (auto simp: set_desired_module_Inr_iff mod_key_def om_key_def)

lemma mutate_set_desired_module:
  "mutate_module (\<lambda>obj. set_desired_module st r (Some obj) cr) (mod_key m) m =
     set_desired_module st r (Some m) cr"
  by (auto simp: mutate_module_def dest: set_desired_module_key split: sum.splits)

lemma reconcile_module_get_error:
  "cl_faults cl VGet KindModule = Some f \<Longrightarrow> reconcile_module st r cr cl = (Some (fault_error f), cl)"
  by (simp add: reconcile_module_def client_simps)

lemma reconcile_module_absent:
  assumes "cl_faults cl VGet KindModule = None" and "cl_modules cl (module_key cr) = None"
  shows "reconcile_module st r cr cl =
           (case set_desired_module st r (Some (new_module cr)) cr of
              Inl e \<Rightarrow> (Some (errorf_v ''could not create or patch Module'' e), cl)
            | Inr m' \<Rightarrow>
                (case client_create_module m' cl of
                   (Some e, cl') \<Rightarrow> (Some (errorf_v ''could not create or patch Module'' e), cl')
                 | (None, cl') \<Rightarrow> (None, cl')))"
proof -
  have "create_or_patch_module (new_module cr) (\<lambda>obj. set_desired_module st r (Some obj) cr) cl =
          (case set_desired_module st r (Some (new_module cr)) cr of
              Inl e' \<Rightarrow> (Inl e', cl)
            | Inr obj' \<Rightarrow>
                (case client_create_module obj' cl of
                   (Some e', cl') \<Rightarrow> (Inl e', cl')
                 | (None, cl') \<Rightarrow> (Inr OperationResultCreated, cl')))"
    using assms create_or_patch_module_absent [of cl "new_module cr"]
          mutate_set_desired_module [of st r cr "new_module cr"] by simp
  with assms show ?thesis
    by (auto simp: reconcile_module_def client_simps split: sum.splits option.splits prod.splits)
qed

lemma reconcile_module_present:
  assumes "cl_faults cl VGet KindModule = None" and "cl_modules cl (module_key cr) = Some ex"
    and "modules_wf cl"
  shows "reconcile_module st r cr cl =
           (case set_desired_module st r (Some ex) cr of
              Inl e \<Rightarrow> (Some (errorf_v ''could not create or patch Module'' e), cl)
            | Inr m' \<Rightarrow>
                if m' = ex then (None, cl)
                else (case client_patch_module m' cl of
                        (Some e, cl') \<Rightarrow> (Some (errorf_v ''could not create or patch Module'' e), cl')
                      | (None, cl') \<Rightarrow> (None, cl')))"
proof -
  have key: "mod_key ex = module_key cr"
    using assms modules_wf_lookup by blast
  have "create_or_patch_module ex (\<lambda>obj. set_desired_module st r (Some obj) cr) cl =
          (case set_desired_module st r (Some ex) cr of
              Inl e' \<Rightarrow> (Inl e', cl)
            | Inr obj' \<Rightarrow>
                if obj' = ex then (Inr OperationResultNone, cl)
                else (case client_patch_module obj' cl of
                        (Some e', cl') \<Rightarrow> (Inl e', cl')
                      | (None, cl') \<Rightarrow> (Inr OperationResultUpdated, cl')))"
    using assms key create_or_patch_module_present [of cl ex]
          mutate_set_desired_module [of st r cr ex] by simp
  with assms show ?thesis
    by (auto simp: reconcile_module_def client_simps split: sum.splits option.splits prod.splits)
qed

lemma reconcile_module_ok_fixpoint:
  assumes "reconcile_module st r cr cl = (None, cl')" and "modules_wf cl"
  shows "cl_faults cl VGet KindModule = None \<and>
         (\<exists>m. set_desired_module st r (Some m) cr = Inr m \<and> mod_key m = module_key cr \<and>
              cl' = cl\<lparr>cl_modules := (cl_modules cl)(module_key cr \<mapsto> m)\<rparr>)"
proof (cases "cl_faults cl VGet KindModule")
  case (Some f)
  with assms show ?thesis by (simp add: reconcile_module_get_error)
next
  case None
  show ?thesis
  proof (cases "cl_modules cl (module_key cr)")
    case None
    with \<open>cl_faults cl VGet KindModule = None\<close> assms obtain m' where
      sd: "set_desired_module st r (Some (new_module cr)) cr = Inr m'" and
      cr: "client_create_module m' cl = (None, cl')"
      by (auto simp: reconcile_module_absent split: sum.splits option.splits prod.splits)
    from sd have key: "mod_key m' = module_key cr" by (simp add: set_desired_module_key)
    from cr have "cl' = cl\<lparr>cl_modules := (cl_modules cl)(mod_key m' \<mapsto> m')\<rparr>"
      by (rule client_create_module_modules)
    with key set_desired_module_idem [OF sd] \<open>cl_faults cl VGet KindModule = None\<close> show ?thesis
      by auto
  next
    case (Some ex)
    with \<open>cl_faults cl VGet KindModule = None\<close> assms obtain m' where
      sd: "set_desired_module st r (Some ex) cr = Inr m'" and
      rest: "(m' = ex \<and> cl' = cl) \<or> client_patch_module m' cl = (None, cl')"
      by (auto simp: reconcile_module_present split: sum.splits option.splits prod.splits if_splits)
    have key: "mod_key m' = module_key cr"
      using sd set_desired_module_key Some assms(2) modules_wf_lookup by metis
    from rest show ?thesis
    proof
      assume "m' = ex \<and> cl' = cl"
      with sd key Some \<open>cl_faults cl VGet KindModule = None\<close> show ?thesis
        by (auto intro!: exI [of _ ex] simp: fun_upd_idem)
    next
      assume "client_patch_module m' cl = (None, cl')"
      then have "cl' = cl\<lparr>cl_modules := (cl_modules cl)(mod_key m' \<mapsto> m')\<rparr>"
        by (rule client_patch_module_modules)
      with key set_desired_module_idem [OF sd] \<open>cl_faults cl VGet KindModule = None\<close> show ?thesis
        by auto
    qed
  qed
qed

text \<open>C2: ReconcileModule is idempotent: run again on the state a successful run produced, it succeeds and changes nothing.\<close>

theorem reconcile_module_idempotent:
  assumes "reconcile_module st r cr cl = (None, cl')" and "modules_wf cl"
  shows "reconcile_module st r cr cl' = (None, cl')"
proof -
  from reconcile_module_ok_fixpoint [OF assms] obtain m where
    get: "cl_faults cl VGet KindModule = None" and
    fx: "set_desired_module st r (Some m) cr = Inr m" and
    key: "mod_key m = module_key cr" and
    cl': "cl' = cl\<lparr>cl_modules := (cl_modules cl)(module_key cr \<mapsto> m)\<rparr>"
    by blast
  have wf: "modules_wf cl'" using cl' key assms(2) modules_wf_upd by metis
  have "cl_modules cl' (module_key cr) = Some m" and "cl_faults cl' VGet KindModule = None"
    using cl' get by simp_all
  with wf fx show ?thesis by (simp add: reconcile_module_present)
qed

text \<open>C1: After a successful ReconcileModule the Module exists under the DeviceConfig's module identity, its selector is the DeviceConfig's node selector with the device-presence label set to true, and it carries a controller owner reference to the DeviceConfig.\<close>

theorem reconcile_module_ensures:
  assumes "reconcile_module st r cr cl = (None, cl')" and "modules_wf cl"
  shows "\<exists>m. cl_modules cl' (module_key cr) = Some m \<and>
             ms_selector (mod_spec m) = (node_selector (dc_spec cr))(''habana.ai/hpu.gaudi.present'' \<mapsto> ''true'') \<and>
             (\<exists>av. controller_ref av device_config_kind (dc_meta cr) \<in> set (om_owner_references (mod_meta m)))"
proof -
  from reconcile_module_ok_fixpoint [OF assms] obtain m where
    fx: "set_desired_module st r (Some m) cr = Inr m" and
    cl': "cl' = cl\<lparr>cl_modules := (cl_modules cl)(module_key cr \<mapsto> m)\<rparr>"
    by blast
  from set_desired_module_selector_owner [OF fx] cl' show ?thesis by auto
qed

text \<open>C7: DeleteModule either removes the Module (treating an absent Module as success), or returns the store error wrapped as "failed to delete Module <name>" and writes nothing.\<close>

theorem delete_module_outcome:
  "case delete_module r cr cl of
     (None, cl') \<Rightarrow> cl' = cl\<lparr>cl_modules := (cl_modules cl)(module_key cr := None)\<rparr>
   | (Some e, cl') \<Rightarrow>
       cl' = cl \<and>
       (\<exists>f. cl_faults cl VDelete KindModule = Some f \<and>
            e = errorf_w (''failed to delete Module '' @ get_module_name cr) (fault_error f))"
  by (auto simp: delete_module_def client_simps new_module_def mod_key_def module_key_def Let_def om_key_def
                 new_object_meta_def dom_def fun_upd_idem
           split: option.splits)

lemma reconcile_module_effect:
  assumes "reconcile_module st r cr cl = (res, cl')" and "modules_wf cl"
  shows "cl' = cl \<or>
         (\<exists>m. mod_key m = module_key cr \<and> cl' = cl\<lparr>cl_modules := (cl_modules cl)(module_key cr \<mapsto> m)\<rparr>)"
proof (cases "cl_faults cl VGet KindModule")
  case (Some f)
  with assms show ?thesis by (simp add: reconcile_module_get_error)
next
  case get: None
  show ?thesis
  proof (cases "cl_modules cl (module_key cr)")
    case None
    show ?thesis
    proof (cases "set_desired_module st r (Some (new_module cr)) cr")
      case (Inl e)
      with None get assms show ?thesis by (simp add: reconcile_module_absent)
    next
      case (Inr m')
      then have key: "mod_key m' = module_key cr" by (simp add: set_desired_module_key)
      obtain r0 cl0 where cc: "client_create_module m' cl = (r0, cl0)" by fastforce
      with Inr None get assms have "cl' = cl0"
        by (auto simp: reconcile_module_absent split: option.splits)
      with client_create_module_effect [OF cc] key show ?thesis by auto
    qed
  next
    case (Some ex)
    show ?thesis
    proof (cases "set_desired_module st r (Some ex) cr")
      case (Inl e)
      with Some get assms show ?thesis by (simp add: reconcile_module_present)
    next
      case (Inr m')
      have key: "mod_key m' = module_key cr"
        using Inr set_desired_module_key Some assms(2) modules_wf_lookup by metis
      obtain r0 cl0 where cc: "client_patch_module m' cl = (r0, cl0)" by fastforce
      with Inr Some get assms have "cl' = cl \<or> cl' = cl0"
        by (auto simp: reconcile_module_present split: option.splits if_splits)
      with client_patch_module_effect [OF cc] key show ?thesis by auto
    qed
  qed
qed

lemma reconcile_module_modules_wf:
  assumes "reconcile_module st r cr cl = (res, cl')" and "modules_wf cl"
  shows "modules_wf cl'"
  using reconcile_module_effect [OF assms] assms(2) modules_wf_upd by metis

lemma delete_module_modules_wf:
  "delete_module r cr cl = (res, cl') \<Longrightarrow> modules_wf cl \<Longrightarrow> modules_wf cl'"
  by (auto simp: delete_module_def client_simps Let_def split: option.splits if_splits intro: modules_wf_del)

text \<open>
  Module.go reads a DeviceConfig only through its name, namespace, uid and
  spec: its finalizers, generation and conditions do not matter.
\<close>

lemma set_desired_module_cong:
  assumes "dc_spec a = dc_spec b" and "om_name (dc_meta a) = om_name (dc_meta b)"
    and "om_namespace (dc_meta a) = om_namespace (dc_meta b)" and "om_uid (dc_meta a) = om_uid (dc_meta b)"
  shows "set_desired_module st r mo a = set_desired_module st r mo b"
proof -
  have cr: "controller_ref av k (dc_meta a) = controller_ref av k (dc_meta b)" for av k
    using assms by (simp add: controller_ref_def)
  have vo: "validate_owner (dc_meta a) = validate_owner (dc_meta b)"
    using assms by (simp add: fun_eq_iff validate_owner_def)
  have sc: "set_controller_reference (dc_meta a) = set_controller_reference (dc_meta b)"
    unfolding set_controller_reference_def Let_def cr vo by (rule refl)
  have ml: "make_module_loader a = make_module_loader b" and gs: "get_node_selector a = get_node_selector b"
    using assms by (simp_all add: builder_defs get_node_selector_def)
  have dp: "make_device_plugin st a = make_device_plugin st b"
    by (simp add: make_device_plugin_def fun_eq_iff)
  show ?thesis
    by (cases mo) (simp_all add: set_desired_module_def Let_def sc ml gs dp)
qed

lemma module_key_cong:
  "om_name (dc_meta a) = om_name (dc_meta b) \<Longrightarrow> om_namespace (dc_meta a) = om_namespace (dc_meta b) \<Longrightarrow>
     module_key a = module_key b"
  by (simp add: module_key_def get_module_name_def dc_name_def dc_namespace_def)

lemma reconcile_module_cong:
  assumes "dc_spec a = dc_spec b" and "om_name (dc_meta a) = om_name (dc_meta b)"
    and "om_namespace (dc_meta a) = om_namespace (dc_meta b)" and "om_uid (dc_meta a) = om_uid (dc_meta b)"
  shows "reconcile_module st r a = reconcile_module st r b"
proof -
  have mk: "module_key a = module_key b" using assms(2,3) by (rule module_key_cong)
  have nm: "new_module a = new_module b"
    using assms by (simp add: new_module_def get_module_name_def dc_name_def dc_namespace_def)
  have sd: "set_desired_module st r (Some obj) a = set_desired_module st r (Some obj) b" for obj
    using set_desired_module_cong [OF assms] by simp
  show ?thesis
    unfolding reconcile_module_def mk nm sd ..
qed

lemma delete_module_ok:
  "delete_module r cr cl = (None, cl') \<Longrightarrow> cl' = cl\<lparr>cl_modules := (cl_modules cl)(module_key cr := None)\<rparr>"
  by (auto simp: delete_module_def client_simps new_module_def mod_key_def module_key_def Let_def om_key_def
                 new_object_meta_def dom_def fun_upd_idem split: option.splits if_splits)

lemma delete_module_error:
  "delete_module r cr cl = (Some e, cl') \<Longrightarrow> cl' = cl"
  by (auto simp: delete_module_def client_simps Let_def split: option.splits if_splits)

lemma module_key_dc_key: "dc_key a = dc_key b \<Longrightarrow> module_key a = module_key b"
  by (simp add: module_key_def get_module_name_def dc_name_def dc_namespace_def dc_key_def om_key_def)

lemma module_key_eq_iff: "module_key a = module_key b \<longleftrightarrow> dc_key a = dc_key b"
  by (auto simp: module_key_def get_module_name_def dc_name_def dc_namespace_def dc_key_def om_key_def)

text \<open>C3: SetDesiredModule makes the DeviceConfig the one controller of the Module it returns: the first controller reference of the Module is the DeviceConfig's (spec invariant I1).\<close>

theorem set_desired_module_controller:
  assumes "set_desired_module st r (Some m) cr = Inr m'"
  shows "\<exists>av. get_controller_of (mod_meta m') = Some (controller_ref av device_config_kind (dc_meta cr))"
proof -
  from assms have can: "can_set_controller (dc_meta cr) device_config_kind (mod_meta m) (mr_scheme r)"
    and m': "mod_meta m' = (mod_meta m)\<lparr>om_owner_references :=
               upsert_owner_ref (controller_ref (the (map_of (mr_scheme r) device_config_kind))
                                   device_config_kind (dc_meta cr)) (om_owner_references (mod_meta m))\<rparr>"
    by (auto simp: set_desired_module_Inr_iff)
  from can obtain av where av: "map_of (mr_scheme r) device_config_kind = Some av"
    by (auto simp: can_set_controller_def split: option.splits)
  with can have "\<forall>ex. find or_controller (om_owner_references (mod_meta m)) = Some ex \<longrightarrow>
                   refer_same_object ex (controller_ref av device_config_kind (dc_meta cr))"
    by (auto simp: can_set_controller_def get_controller_of_def)
  then have "find or_controller (upsert_owner_ref (controller_ref av device_config_kind (dc_meta cr))
               (om_owner_references (mod_meta m))) = Some (controller_ref av device_config_kind (dc_meta cr))"
    by (intro find_controller_upsert_eq) (simp add: controller_ref_def)
  with m' av show ?thesis by (auto simp: get_controller_of_def)
qed

text \<open>C4: ReconcileModule never takes over a Module that another object controls: when the stored Module's controller is not the DeviceConfig, it fails and writes nothing.\<close>

theorem reconcile_module_foreign_controller:
  assumes "cl_faults cl VGet KindModule = None" and "cl_modules cl (module_key cr) = Some ex"
    and "modules_wf cl" and "map_of (mr_scheme r) device_config_kind = Some av"
    and "get_controller_of (mod_meta ex) = Some ctl"
    and "\<not> refer_same_object ctl (controller_ref av device_config_kind (dc_meta cr))"
  shows "\<exists>e. reconcile_module st r cr cl = (Some e, cl)"
proof -
  have "\<not> can_set_controller (dc_meta cr) device_config_kind (mod_meta ex) (mr_scheme r)"
    using assms(4-6) by (simp add: can_set_controller_def)
  then obtain e where "set_desired_module st r (Some ex) cr = Inl e"
    by (cases "set_desired_module st r (Some ex) cr") (auto simp: set_desired_module_Inr_iff)
  with reconcile_module_present [OF assms(1-3)] show ?thesis by simp
qed

text \<open>C5: When ReconcileModule fails it writes nothing, and its error is either the error of the first read of the Module, returned as it is, or the error of CreateOrPatch flattened into the message "could not create or patch Module: ...".\<close>

theorem reconcile_module_error:
  assumes "reconcile_module st r cr cl = (Some e, cl')" and "modules_wf cl"
  shows "cl' = cl \<and>
         ((\<exists>f. cl_faults cl VGet KindModule = Some f \<and> e = fault_error f) \<or>
          (\<exists>e'. e = errorf_v ''could not create or patch Module'' e'))"
proof (cases "cl_faults cl VGet KindModule")
  case (Some f)
  with assms show ?thesis by (simp add: reconcile_module_get_error)
next
  case get: None
  show ?thesis
  proof (cases "cl_modules cl (module_key cr)")
    case None
    with get assms(1) show ?thesis
      by (auto simp: reconcile_module_absent split: sum.splits option.splits prod.splits
               dest: client_create_module_error_unchanged)
  next
    case (Some ex)
    with get assms show ?thesis
      by (auto simp: reconcile_module_present split: sum.splits option.splits prod.splits if_splits
               dest: client_patch_module_error_unchanged)
  qed
qed

text \<open>C6: ReconcileModule writes only Modules, and of them only the DeviceConfig's own.\<close>

theorem reconcile_module_frame:
  assumes "reconcile_module st r cr cl = (res, cl')" and "modules_wf cl"
  shows "cl' = cl\<lparr>cl_modules := cl_modules cl'\<rparr> \<and>
         (\<forall>k. k \<noteq> module_key cr \<longrightarrow> cl_modules cl' k = cl_modules cl k)"
  using reconcile_module_effect [OF assms] by auto

text \<open>C10: GetModuleName is injective: two DeviceConfigs get the same Module name exactly when they have the same name.\<close>

theorem get_module_name_inj: "get_module_name a = get_module_name b \<longleftrightarrow> dc_name a = dc_name b"
  by (simp add: get_module_name_def)

end
