(* ===== verification/ModuleSpec.thy ===== *)
theory ModuleSpec
  imports Module
begin

text \<open>
  The contract of the Module sub-reconciler on the abstract state that matters
  to it, the Modules of the store by identity, and the refinement lemmas
  showing that \<open>module.go\<close> implements it when the store answers. The
  contract of \<open>ReconcileModule\<close>: the Module at the DeviceConfig's identity
  becomes what \<open>SetDesiredModule\<close> makes of the stored copy (or of a fresh
  Module when there is none), and no other Module changes; if
  \<open>SetDesiredModule\<close> refuses, nothing changes and its error is reported.
  The theory also holds what a re-run of ReconcileModule or DeleteModule
  does, and what SetDesiredModule keeps of a Module's owner references.
\<close>

type_synonym module_store = "nsname \<rightharpoonup> kmm_module"

definition ensure_module ::
  "settings \<Rightarrow> module_reconciler \<Rightarrow> device_config \<Rightarrow> module_store \<Rightarrow> error option \<times> module_store" where
  "ensure_module st r cr ms =
     (let base = (case ms (module_key cr) of Some ex \<Rightarrow> ex | None \<Rightarrow> new_module cr) in
      case set_desired_module st r (Some base) cr of
        Inl e \<Rightarrow> (Some (errorf_v ''could not create or patch Module'' e), ms)
      | Inr m' \<Rightarrow> (None, ms(module_key cr \<mapsto> m')))"

text \<open>The store answers every Module call that \<open>ReconcileModule\<close> makes.\<close>

definition module_calls_answered :: "cluster \<Rightarrow> bool" where
  "module_calls_answered cl \<longleftrightarrow>
     cl_faults cl VGet KindModule = None \<and> cl_faults cl VCreate KindModule = None \<and>
     cl_faults cl VPatch KindModule = None"

subsection \<open>Re-runs\<close>

text \<open>ReconcileModule reads only the Modules and the fault table of the store.\<close>

lemma reconcile_module_error_unchanged:
  assumes "reconcile_module st r cr cl = (Some e, cl')" and "modules_wf cl"
  shows "cl' = cl"
proof (cases "cl_faults cl VGet KindModule")
  case (Some f)
  with assms show ?thesis by (simp add: reconcile_module_get_error)
next
  case get: None
  show ?thesis
  proof (cases "cl_modules cl (module_key cr)")
    case None
    with get assms(1) show ?thesis
      by (auto simp: reconcile_module_absent split: sum.splits option.splits prod.splits
               dest: client_create_module_error_unchanged)
  next
    case (Some ex)
    with get assms show ?thesis
      by (auto simp: reconcile_module_present split: sum.splits option.splits prod.splits if_splits
               dest: client_patch_module_error_unchanged)
  qed
qed

lemma reconcile_module_rerun:
  assumes "reconcile_module st r cr cl = (res, cl')" and "modules_wf cl"
  shows "reconcile_module st r cr cl' = (res, cl')"
proof (cases res)
  case None
  from reconcile_module_ok_fixpoint [OF assms [unfolded None]] obtain m where
    get: "cl_faults cl VGet KindModule = None" and
    fx: "set_desired_module st r (Some m) cr = Inr m" and
    key: "mod_key m = module_key cr" and
    cl': "cl' = cl\<lparr>cl_modules := (cl_modules cl)(module_key cr \<mapsto> m)\<rparr>"
    by blast
  have wf: "modules_wf cl'" using cl' key assms(2) modules_wf_upd by metis
  have "cl_modules cl' (module_key cr) = Some m" and "cl_faults cl' VGet KindModule = None"
    using cl' get by simp_all
  with wf fx None show ?thesis by (simp add: reconcile_module_present)
next
  case (Some e)
  with reconcile_module_error_unchanged assms show ?thesis by metis
qed

lemma reconcile_module_local:
  assumes "cl_modules a = cl_modules b" and "cl_faults a = cl_faults b"
  shows "reconcile_module st r cr b =
           (fst (reconcile_module st r cr a), b\<lparr>cl_modules := cl_modules (snd (reconcile_module st r cr a))\<rparr>)"
  using assms
  by (auto simp: reconcile_module_def create_or_patch_module_def client_simps Let_def
           split: option.splits sum.splits prod.splits if_splits)

lemma reconcile_module_settled:
  assumes "reconcile_module st r cr a = (res, a')" and "modules_wf a"
    and "cl_modules b = cl_modules a'" and "cl_faults b = cl_faults a"
  shows "reconcile_module st r cr b = (res, b)"
proof -
  have "cl_faults a' = cl_faults a" using reconcile_module_effect [OF assms(1,2)] by auto
  with assms(3,4) have "reconcile_module st r cr b =
      (fst (reconcile_module st r cr a'), b\<lparr>cl_modules := cl_modules (snd (reconcile_module st r cr a'))\<rparr>)"
    by (intro reconcile_module_local) simp_all
  with reconcile_module_rerun [OF assms(1,2)] assms(3) show ?thesis by simp
qed

subsection \<open>Refinement\<close>

text \<open>C12: Refinement of the contract: when the store answers, ReconcileModule's result and the Modules it leaves are those of the abstract operation ensure_module on the Modules of the store, and nothing else of the store changes.\<close>

theorem reconcile_module_refines:
  assumes "module_calls_answered cl" and "modules_wf cl"
  shows "reconcile_module st r cr cl =
           (fst (ensure_module st r cr (cl_modules cl)),
            cl\<lparr>cl_modules := snd (ensure_module st r cr (cl_modules cl))\<rparr>)"
proof (cases "cl_modules cl (module_key cr)")
  case None
  from assms(1) have get: "cl_faults cl VGet KindModule = None" and cr: "cl_faults cl VCreate KindModule = None"
    by (simp_all add: module_calls_answered_def)
  show ?thesis
  proof (cases "set_desired_module st r (Some (new_module cr)) cr")
    case (Inl e)
    with None get show ?thesis by (simp add: reconcile_module_absent ensure_module_def)
  next
    case (Inr m')
    then have "mod_key m' = module_key cr" by (simp add: set_desired_module_key)
    with Inr None get cr show ?thesis
      by (simp add: reconcile_module_absent ensure_module_def client_simps domIff)
  qed
next
  case (Some ex)
  from assms(1) have get: "cl_faults cl VGet KindModule = None" and pa: "cl_faults cl VPatch KindModule = None"
    by (simp_all add: module_calls_answered_def)
  have key: "mod_key ex = module_key cr" using assms(2) Some by (rule modules_wf_lookup)
  show ?thesis
  proof (cases "set_desired_module st r (Some ex) cr")
    case (Inl e)
    with Some get assms(2) show ?thesis by (simp add: reconcile_module_present ensure_module_def)
  next
    case (Inr m')
    then have "mod_key m' = module_key cr" using key by (simp add: set_desired_module_key)
    with Inr Some get pa assms(2) show ?thesis
      by (auto simp: reconcile_module_present ensure_module_def client_simps fun_upd_idem)
  qed
qed

subsection \<open>DeleteModule re-run and owner references\<close>

text \<open>C13: DeleteModule is idempotent: run again on the store a successful DeleteModule left, it succeeds and changes nothing, because the Delete of the now absent Module answers NotFound, which DeleteModule treats as success.\<close>

theorem delete_module_idempotent:
  assumes "delete_module r cr cl = (None, cl')"
  shows "delete_module r cr cl' = (None, cl')"
proof -
  have "cl_faults cl VDelete KindModule = None"
    using assms by (auto simp: delete_module_def client_simps Let_def split: option.splits if_splits)
  moreover have "cl' = cl\<lparr>cl_modules := (cl_modules cl)(module_key cr := None)\<rparr>"
    using assms by (rule delete_module_ok)
  ultimately show ?thesis
    by (simp add: delete_module_def client_simps Let_def)
qed

text \<open>C14: SetDesiredModule keeps every owner reference of the Module that does not refer to the DeviceConfig: ctrl.SetControllerReference inserts or replaces only the DeviceConfig's own reference.\<close>

theorem set_desired_module_keeps_owners:
  assumes "set_desired_module st r (Some m) cr = Inr m'"
    and "x \<in> set (om_owner_references (mod_meta m))"
    and "\<not> refer_same_object x (controller_ref (the (map_of (mr_scheme r) device_config_kind)) device_config_kind (dc_meta cr))"
  shows "x \<in> set (om_owner_references (mod_meta m'))"
  using assms by (auto simp: set_desired_module_Inr_iff intro: upsert_owner_ref_others)

end
