(* ===== verification/ModuleTest.thy ===== *)
theory ModuleTest
  imports ModuleSpec
begin

text \<open>
  The fixtures of \<open>src/internal/module/module_test.go\<close> and its test cases
  run against the model of \<open>module.go\<close>. A gomock client that returns a given
  error for a call is a cluster whose fault table returns that error for the
  verb; a client whose \<open>Get\<close> returns \<open>NotFound\<close> is a cluster without the
  Module. The test file is older than \<open>module.go\<close> in places (it still
  expects a \<open>DriverContainer\<close>, top-level \<open>KernelMappings\<close> and
  \<open>AdditionalVolumes\<close>): the expectations that \<open>module.go\<close> can meet are
  proved below, the others are recorded as findings of the development.
\<close>

definition test_scheme :: scheme where
  "test_scheme = [(device_config_kind, ''hlai.habana.ai/v1alpha1''), (''Module'', ''kmm.sigs.x-k8s.io/v1beta1'')]"

definition test_settings :: settings where
  "test_settings = \<lparr>device_plugin_image = []\<rparr>"

definition module_test_dc :: device_config where
  "module_test_dc =
     \<lparr>dc_meta = new_object_meta ''a-device-config'' ''a-namespace'',
      dc_spec = \<lparr>driver_image = [], driver_version = [], node_selector = Map.empty\<rparr>,
      dc_conditions = []\<rparr>"

definition module_test_reconciler :: module_reconciler where
  "module_test_reconciler = new_reconciler test_scheme"

definition module_test_dc_with_spec :: device_config where
  "module_test_dc_with_spec =
     module_test_dc\<lparr>dc_spec := \<lparr>driver_image = ''driver'', driver_version = ''test'',
                                 node_selector = [''label'' \<mapsto> ''test'']\<rparr>\<rparr>"

definition module_test_module :: kmm_module where
  "module_test_module = \<lparr>mod_meta = new_object_meta ''a-name'' ''a-namespace'', mod_spec = empty_module_spec\<rparr>"

definition no_faults :: "verb \<Rightarrow> kind \<Rightarrow> store_fault option" where
  "no_faults v k = None"

definition empty_cluster :: cluster where
  "empty_cluster =
     \<lparr>cl_device_configs = [], cl_modules = Map.empty, cl_nodes = [], cl_events = [],
      cl_faults = no_faults, cl_clock = 0\<rparr>"

definition failing :: "verb \<Rightarrow> kind \<Rightarrow> store_fault \<Rightarrow> cluster \<Rightarrow> cluster" where
  "failing v k f cl = cl\<lparr>cl_faults := (cl_faults cl)(v := (cl_faults cl v)(k := Some f))\<rparr>"

definition module_test_with_module :: cluster where
  "module_test_with_module =
     empty_cluster\<lparr>cl_modules := [module_key module_test_dc \<mapsto> new_module module_test_dc]\<rparr>"

definition foreign_owner :: owner_reference where
  "foreign_owner =
     \<lparr>or_api_version = ''apps/v1'', or_kind = ''Deployment'', or_name = ''other'', or_uid = ''other-uid'',
      or_controller = True, or_block_owner_deletion = True\<rparr>"

definition foreign_cluster :: cluster where
  "foreign_cluster =
     empty_cluster\<lparr>cl_modules := [module_key module_test_dc \<mapsto>
        (new_module module_test_dc)\<lparr>mod_meta := (mod_meta (new_module module_test_dc))\<lparr>om_owner_references := [foreign_owner]\<rparr>\<rparr>]\<rparr>"

text \<open>A Module that another object owns without controlling it.\<close>

definition bystander_owner :: owner_reference where
  "bystander_owner =
     \<lparr>or_api_version = ''apps/v1'', or_kind = ''ReplicaSet'', or_name = ''bystander'', or_uid = ''bystander-uid'',
      or_controller = False, or_block_owner_deletion = False\<rparr>"

definition shared_module :: kmm_module where
  "shared_module = module_test_module\<lparr>mod_meta := (mod_meta module_test_module)\<lparr>om_owner_references := [bystander_owner]\<rparr>\<rparr>"

subsection \<open>Evaluation rules for the fixtures\<close>

lemmas module_test_defs = test_scheme_def test_settings_def module_test_dc_def module_test_reconciler_def
  module_test_dc_with_spec_def module_test_module_def empty_cluster_def no_faults_def failing_def
  module_test_with_module_def new_reconciler_def new_object_meta_def foreign_owner_def foreign_cluster_def
  bystander_owner_def shared_module_def

lemmas module_eval = set_desired_module_def reconcile_module_def delete_module_def
  create_or_patch_module_def mutate_module_def set_controller_reference_def validate_owner_def
  gvk_for_object_def get_controller_of_def controller_ref_def module_key_def get_module_name_def
  new_module_def mod_key_def om_key_def dc_name_def dc_namespace_def module_suffix_def
  device_config_kind_def get_node_selector_def Let_def

subsection \<open>The test cases, and the Module theorems on concrete inputs\<close>

lemma modules_wf_empty_cluster: "modules_wf empty_cluster"
  by (simp add: modules_wf_def empty_cluster_def)

lemma module_test_reconcile_creates:
  "reconcile_module test_settings module_test_reconciler module_test_dc empty_cluster =
     (None, empty_cluster\<lparr>cl_modules := [module_key module_test_dc \<mapsto>
        projr (set_desired_module test_settings module_test_reconciler (Some (new_module module_test_dc)) module_test_dc)]\<rparr>)"
  by (simp add: module_eval module_test_defs client_simps)

theorem module_test_reconcile_create_error:
  "reconcile_module test_settings module_test_reconciler module_test_dc
     (failing VCreate KindModule (FaultOther ''some-error'') empty_cluster) =
   (Some (Plain ''could not create or patch Module: some-error''),
    failing VCreate KindModule (FaultOther ''some-error'') empty_cluster)"
  by (simp add: module_eval module_test_defs client_simps errorf_v_def)

theorem reconcile_module_get_error_witness:
  "reconcile_module test_settings module_test_reconciler module_test_dc
     (failing VGet KindModule (FaultOther ''some-other-that-not-found-error'') empty_cluster) =
   (Some (Plain ''some-other-that-not-found-error''),
    failing VGet KindModule (FaultOther ''some-other-that-not-found-error'') empty_cluster)"
proof -
  have "cl_faults (failing VGet KindModule (FaultOther ''some-other-that-not-found-error'') empty_cluster)
          VGet KindModule = Some (FaultOther ''some-other-that-not-found-error'')"
    by (simp add: module_test_defs)
  from reconcile_module_get_error [OF this] show ?thesis by simp
qed


lemma module_test_set_desired_ok:
  "set_desired_module test_settings module_test_reconciler (Some module_test_module) module_test_dc_with_spec =
     Inr (projr (set_desired_module test_settings module_test_reconciler (Some module_test_module)
                   module_test_dc_with_spec))"
  by (simp add: module_eval module_test_defs)

theorem set_desired_module_spec_witness:
  "\<exists>m'. set_desired_module test_settings module_test_reconciler (Some module_test_module)
           module_test_dc_with_spec = Inr m' \<and>
        ms_selector (mod_spec m') = [''label'' \<mapsto> ''test'', ''habana.ai/hpu.gaudi.present'' \<mapsto> ''true''] \<and>
        mlc_kernel_mappings (ml_container (ms_module_loader (mod_spec m'))) =
          [\<lparr>km_container_image = ''driver:test-${KERNEL_FULL_VERSION}'', km_regexp = kernel_regexp\<rparr>]"
  using module_test_set_desired_ok set_desired_module_spec [OF module_test_set_desired_ok]
  by (auto simp: module_test_defs)

theorem set_desired_module_idem_witness:
  "\<exists>m'. set_desired_module test_settings module_test_reconciler (Some module_test_module)
           module_test_dc_with_spec = Inr m' \<and>
        set_desired_module test_settings module_test_reconciler (Some m') module_test_dc_with_spec = Inr m'"
  using module_test_set_desired_ok set_desired_module_idem [OF module_test_set_desired_ok] by blast

theorem reconcile_module_idempotent_witness:
  "\<exists>cl'. reconcile_module test_settings module_test_reconciler module_test_dc empty_cluster = (None, cl') \<and>
         modules_wf empty_cluster \<and>
         reconcile_module test_settings module_test_reconciler module_test_dc cl' = (None, cl')"
  using module_test_reconcile_creates modules_wf_empty_cluster
    reconcile_module_idempotent [OF module_test_reconcile_creates modules_wf_empty_cluster]
  by blast

theorem reconcile_module_ensures_witness:
  "\<exists>cl' m. reconcile_module test_settings module_test_reconciler module_test_dc empty_cluster = (None, cl') \<and>
         modules_wf empty_cluster \<and>
         cl_modules cl' (''a-namespace'', ''a-device-config-module'') = Some m \<and>
         ms_selector (mod_spec m) = [''habana.ai/hpu.gaudi.present'' \<mapsto> ''true'']"
proof -
  from reconcile_module_ensures [OF module_test_reconcile_creates modules_wf_empty_cluster]
  obtain m where
    "cl_modules (empty_cluster\<lparr>cl_modules := [module_key module_test_dc \<mapsto>
        projr (set_desired_module test_settings module_test_reconciler (Some (new_module module_test_dc))
                 module_test_dc)]\<rparr>) (module_key module_test_dc) = Some m"
    "ms_selector (mod_spec m) = (node_selector (dc_spec module_test_dc))(''habana.ai/hpu.gaudi.present'' \<mapsto> ''true'')"
    by blast
  with module_test_reconcile_creates modules_wf_empty_cluster show ?thesis
    by (auto simp: module_test_defs module_key_def get_module_name_def dc_name_def dc_namespace_def
                   module_suffix_def)
qed

theorem module_test_set_desired_nil:
  "\<exists>e. set_desired_module test_settings module_test_reconciler None module_test_dc = Inl e \<and>
       sublist ''module cannot be nil'' (error_string e)"
  by (simp add: set_desired_module_def)

theorem module_test_delete_ok:
  "delete_module module_test_reconciler module_test_dc module_test_with_module = (None, empty_cluster)"
  by (simp add: module_eval module_test_defs client_simps)

theorem module_test_delete_not_found:
  "delete_module module_test_reconciler module_test_dc empty_cluster = (None, empty_cluster)"
  by (simp add: module_eval module_test_defs client_simps)

theorem module_test_delete_error:
  "delete_module module_test_reconciler module_test_dc
     (failing VDelete KindModule (FaultOther ''some-error'') empty_cluster) =
   (Some (errorf_w ''failed to delete Module a-device-config-module'' (Plain ''some-error'')),
    failing VDelete KindModule (FaultOther ''some-error'') empty_cluster)"
  by (simp add: module_eval module_test_defs client_simps)

theorem module_test_foreign_owner:
  "reconcile_module test_settings module_test_reconciler module_test_dc foreign_cluster =
     (Some (Plain (''could not create or patch Module: Object a-namespace/a-device-config-module '' @
                   ''is already owned by another Deployment controller other'')), foreign_cluster)"
  by (simp add: module_eval module_test_defs client_simps refer_same_object_def api_group_def errorf_v_def)

theorem reconcile_module_foreign_controller_witness:
  "get_controller_of (mod_meta (the (cl_modules foreign_cluster (module_key module_test_dc)))) = Some foreign_owner \<and>
   \<not> refer_same_object foreign_owner (controller_ref ''hlai.habana.ai/v1alpha1'' device_config_kind (dc_meta module_test_dc)) \<and>
   (\<exists>e. reconcile_module test_settings module_test_reconciler module_test_dc foreign_cluster = (Some e, foreign_cluster))"
  using reconcile_module_foreign_controller [of foreign_cluster module_test_dc
          "the (cl_modules foreign_cluster (module_key module_test_dc))" module_test_reconciler
          "''hlai.habana.ai/v1alpha1''" foreign_owner test_settings]
  by (simp add: module_test_defs module_eval client_simps modules_wf_def refer_same_object_def api_group_def)

theorem set_desired_module_controller_witness:
  "\<exists>av. get_controller_of (mod_meta (projr (set_desired_module test_settings module_test_reconciler
          (Some module_test_module) module_test_dc_with_spec))) =
        Some (controller_ref av device_config_kind (dc_meta module_test_dc_with_spec))"
  using set_desired_module_controller [OF module_test_set_desired_ok] .

theorem reconcile_module_error_witness:
  "reconcile_module test_settings module_test_reconciler module_test_dc
     (failing VCreate KindModule (FaultOther ''some-error'') empty_cluster) =
   (Some (Plain ''could not create or patch Module: some-error''),
    failing VCreate KindModule (FaultOther ''some-error'') empty_cluster) \<and>
   (\<exists>e'. Plain ''could not create or patch Module: some-error'' = errorf_v ''could not create or patch Module'' e')"
  using reconcile_module_error [OF module_test_reconcile_create_error] module_test_reconcile_create_error
  by (simp add: module_test_defs modules_wf_def)

theorem reconcile_module_frame_witness:
  "snd (reconcile_module test_settings module_test_reconciler module_test_dc empty_cluster) =
     empty_cluster\<lparr>cl_modules := cl_modules (snd (reconcile_module test_settings module_test_reconciler
                                                   module_test_dc empty_cluster))\<rparr> \<and>
   cl_modules (snd (reconcile_module test_settings module_test_reconciler module_test_dc empty_cluster))
     (''a-namespace'', ''other-module'') = cl_modules empty_cluster (''a-namespace'', ''other-module'')"
proof -
  have "(''a-namespace'', ''other-module'') \<noteq> module_key module_test_dc"
    by (simp add: module_key_def get_module_name_def module_test_defs dc_name_def dc_namespace_def)
  with reconcile_module_frame [OF module_test_reconcile_creates modules_wf_empty_cluster] show ?thesis
    by (simp add: module_test_reconcile_creates)
qed

theorem reconcile_module_refines_witness:
  "module_calls_answered empty_cluster \<and> modules_wf empty_cluster \<and>
   reconcile_module test_settings module_test_reconciler module_test_dc empty_cluster =
     (fst (ensure_module test_settings module_test_reconciler module_test_dc (cl_modules empty_cluster)),
      empty_cluster\<lparr>cl_modules := snd (ensure_module test_settings module_test_reconciler module_test_dc
                                          (cl_modules empty_cluster))\<rparr>)"
  using reconcile_module_refines [of empty_cluster test_settings module_test_reconciler module_test_dc]
  by (simp add: module_calls_answered_def modules_wf_def empty_cluster_def no_faults_def)

theorem delete_module_idempotent_witness:
  "delete_module module_test_reconciler module_test_dc module_test_with_module =
     (None, module_test_with_module\<lparr>cl_modules := Map.empty\<rparr>) \<and>
   delete_module module_test_reconciler module_test_dc (module_test_with_module\<lparr>cl_modules := Map.empty\<rparr>) =
     (None, module_test_with_module\<lparr>cl_modules := Map.empty\<rparr>)"
proof -
  have first: "delete_module module_test_reconciler module_test_dc module_test_with_module =
                 (None, module_test_with_module\<lparr>cl_modules := Map.empty\<rparr>)"
    by (simp add: module_eval module_test_defs client_simps fun_upd_idem)
  with delete_module_idempotent [OF first] show ?thesis by simp
qed

theorem set_desired_module_keeps_owners_witness:
  "set_desired_module test_settings module_test_reconciler (Some shared_module) module_test_dc_with_spec =
     Inr (projr (set_desired_module test_settings module_test_reconciler (Some shared_module) module_test_dc_with_spec)) \<and>
   bystander_owner \<in> set (om_owner_references (mod_meta
     (projr (set_desired_module test_settings module_test_reconciler (Some shared_module) module_test_dc_with_spec))))"
  using set_desired_module_keeps_owners [of test_settings module_test_reconciler shared_module module_test_dc_with_spec
          "projr (set_desired_module test_settings module_test_reconciler (Some shared_module) module_test_dc_with_spec)"
          bystander_owner]
  by (simp add: module_eval module_test_defs refer_same_object_def api_group_def)

end
