(* ===== verification/NodeSelector.thy ===== *)
theory NodeSelector
  imports Store
begin

text \<open>
  The node-selector validator (\<open>controllers/nodeselector.go\<close>, not in the
  repository; spec section 4.4 and invariant I2, exercised by
  \<open>src/controllers/nodeselector_test.go\<close>). A selector matches a node when
  every one of its key/value requirements is among the node's labels (the
  spec's glossary), i.e. when the selector is below the labels as a map.
  \<open>getDeviceConfigSelectedNodes\<close> lists the nodes the selector matches;
  \<open>CheckDeviceConfigForConflictingNodeSelector\<close> lists the DeviceConfigs and,
  for every one other than the candidate, gathers the names of the nodes both
  select and asks \<open>containsDuplicates\<close> whether a node is selected twice.
  \<open>containsDuplicates\<close> is the loop over the names with a \<open>visited\<close> map.
\<close>

definition selector_matches :: "str_map \<Rightarrow> str_map \<Rightarrow> bool" where
  "selector_matches sel labels \<longleftrightarrow> sel \<subseteq>\<^sub>m labels"

definition get_device_config_selected_nodes :: "device_config \<Rightarrow> cluster \<Rightarrow> error + node list" where
  "get_device_config_selected_nodes dc cl =
     (case client_list_nodes cl of
        Inl e \<Rightarrow> Inl e
      | Inr ns \<Rightarrow> Inr (filter (\<lambda>n. selector_matches (node_selector (dc_spec dc)) (node_labels n)) ns))"

fun contains_duplicates_from :: "(string \<rightharpoonup> bool) \<Rightarrow> string list \<Rightarrow> bool" where
  "contains_duplicates_from visited [] = False"
| "contains_duplicates_from visited (x # xs) =
     (if visited x = Some True then True else contains_duplicates_from (visited(x \<mapsto> True)) xs)"

definition contains_duplicates :: "string list \<Rightarrow> bool" where
  "contains_duplicates xs = contains_duplicates_from Map.empty xs"

definition conflict_error :: "device_config \<Rightarrow> error" where
  "conflict_error other = Plain (''conflicting nodeSelector with DeviceConfig '' @ dc_name other)"

fun check_against :: "node list \<Rightarrow> device_config list \<Rightarrow> cluster \<Rightarrow> error option" where
  "check_against mine [] cl = None"
| "check_against mine (d # ds) cl =
     (case get_device_config_selected_nodes d cl of
        Inl e \<Rightarrow> Some e
      | Inr theirs \<Rightarrow>
          if contains_duplicates (map node_name mine @ map node_name theirs)
          then Some (conflict_error d)
          else check_against mine ds cl)"

definition check_device_config_for_conflicting_node_selector ::
  "device_config \<Rightarrow> cluster \<Rightarrow> error option" where
  "check_device_config_for_conflicting_node_selector dc cl =
     (case client_list_device_configs cl of
        Inl e \<Rightarrow> Some e
      | Inr dcs \<Rightarrow>
          (case get_device_config_selected_nodes dc cl of
             Inl e \<Rightarrow> Some e
           | Inr mine \<Rightarrow> check_against mine (filter (\<lambda>d. dc_key d \<noteq> dc_key dc) dcs) cl))"

text \<open>The pairwise relation the check decides: the two DeviceConfigs select a common node.\<close>

definition selected_names :: "device_config \<Rightarrow> node list \<Rightarrow> string list" where
  "selected_names dc ns =
     map node_name (filter (\<lambda>n. selector_matches (node_selector (dc_spec dc)) (node_labels n)) ns)"

definition conflicts :: "node list \<Rightarrow> device_config \<Rightarrow> device_config \<Rightarrow> bool" where
  "conflicts ns a b \<longleftrightarrow> contains_duplicates (selected_names a ns @ selected_names b ns)"

subsection \<open>Lemmas\<close>

lemma contains_duplicates_from_iff:
  "contains_duplicates_from v xs \<longleftrightarrow> \<not> distinct xs \<or> (\<exists>x\<in>set xs. v x = Some True)"
proof (induction xs arbitrary: v)
  case Nil
  show ?case by simp
next
  case (Cons x xs)
  show ?case
  proof (cases "v x = Some True")
    case True
    then show ?thesis by simp
  next
    case False
    then have "contains_duplicates_from v (x # xs) = contains_duplicates_from (v(x \<mapsto> True)) xs"
      by simp
    also have "\<dots> \<longleftrightarrow> \<not> distinct xs \<or> (\<exists>y\<in>set xs. (v(x \<mapsto> True)) y = Some True)"
      by (rule Cons.IH)
    also have "\<dots> \<longleftrightarrow> \<not> distinct (x # xs) \<or> (\<exists>y\<in>set (x # xs). v y = Some True)"
      using False by (auto split: if_splits)
    finally show ?thesis .
  qed
qed

text \<open>containsDuplicates, the loop over the names with a visited map, decides exactly whether the list has a repeated element (it equals the negation of the library's distinct).\<close>

theorem contains_duplicates_distinct:
  "contains_duplicates xs \<longleftrightarrow> \<not> distinct xs"
  by (simp add: contains_duplicates_def contains_duplicates_from_iff)

text \<open>Conflict detection is symmetric (spec property P5): whether two DeviceConfigs conflict does not depend on which one is the candidate.\<close>

theorem conflicts_sym: "conflicts ns a b = conflicts ns b a"
  by (auto simp: conflicts_def contains_duplicates_def contains_duplicates_from_iff)

lemma distinct_selected_names:
  "distinct (map node_name ns) \<Longrightarrow> distinct (selected_names dc ns)"
  by (simp add: selected_names_def distinct_map_filter)

lemma selected_names_common:
  assumes "distinct (map node_name ns)"
  shows "set (selected_names a ns) \<inter> set (selected_names b ns) \<noteq> {} \<longleftrightarrow>
         (\<exists>n\<in>set ns. selector_matches (node_selector (dc_spec a)) (node_labels n) \<and>
                     selector_matches (node_selector (dc_spec b)) (node_labels n))"
proof -
  have inj: "inj_on node_name (set ns)" using assms by (simp add: distinct_map)
  show ?thesis
  proof
    assume "set (selected_names a ns) \<inter> set (selected_names b ns) \<noteq> {}"
    then obtain n1 n2 where "n1 \<in> set ns" "n2 \<in> set ns" "node_name n1 = node_name n2"
      "selector_matches (node_selector (dc_spec a)) (node_labels n1)"
      "selector_matches (node_selector (dc_spec b)) (node_labels n2)"
      by (auto simp: selected_names_def)
    with inj show "\<exists>n\<in>set ns. selector_matches (node_selector (dc_spec a)) (node_labels n) \<and>
                     selector_matches (node_selector (dc_spec b)) (node_labels n)"
      by (metis inj_onD)
  qed (auto simp: selected_names_def)
qed

theorem conflicts_iff_common_node:
  assumes "distinct (map node_name ns)"
  shows "conflicts ns a b \<longleftrightarrow>
         (\<exists>n\<in>set ns. selector_matches (node_selector (dc_spec a)) (node_labels n) \<and>
                     selector_matches (node_selector (dc_spec b)) (node_labels n))"
  using assms selected_names_common [OF assms, of a b]
  by (simp add: conflicts_def contains_duplicates_def contains_duplicates_from_iff distinct_selected_names)

lemma selected_nodes_ok:
  "cl_faults cl VList KindNode = None \<Longrightarrow>
     get_device_config_selected_nodes dc cl =
       Inr (filter (\<lambda>n. selector_matches (node_selector (dc_spec dc)) (node_labels n)) (cl_nodes cl))"
  by (simp add: get_device_config_selected_nodes_def client_simps)

lemma check_against_None:
  assumes "cl_faults cl VList KindNode = None"
  shows "check_against mine ds cl = None \<longleftrightarrow>
         (\<forall>d\<in>set ds. \<not> contains_duplicates (map node_name mine @ selected_names d (cl_nodes cl)))"
  using assms by (induction ds) (auto simp: selected_nodes_ok selected_names_def)

text \<open>When the store answers the two lists, the validator admits a DeviceConfig exactly when it conflicts with no other stored DeviceConfig, so an admitted DeviceConfig shares no node with any other (spec invariant I2).\<close>

theorem check_conflicting_node_selector_iff:
  assumes "cl_faults cl VList KindNode = None" and "cl_faults cl VList KindDeviceConfig = None"
  shows "check_device_config_for_conflicting_node_selector dc cl = None \<longleftrightarrow>
         (\<forall>d\<in>set (cl_device_configs cl). dc_key d \<noteq> dc_key dc \<longrightarrow> \<not> conflicts (cl_nodes cl) dc d)"
  using assms
  by (auto simp: check_device_config_for_conflicting_node_selector_def client_simps selected_nodes_ok
                 check_against_None conflicts_def selected_names_def)

end
