(* ===== verification/NodeSelectorTest.thy ===== *)
theory NodeSelectorTest
  imports ModuleTest ControllerTest NodeSelector
begin

text \<open>
  The fixtures and cases of \<open>src/controllers/nodeselector_test.go\<close>: one node
  labelled \<open>matching=label\<close>, the DeviceConfig \<open>test\<close> selecting it, and a
  second DeviceConfig that either selects it too or has no selector. The fake
  client \<open>WithObjects(...)\<close> is a cluster holding those objects.

  Under the spec's selector semantics (every requirement must hold, so an empty
  selector matches every node), the case "with a valid nodeSelector" does not
  hold: a DeviceConfig without a selector selects the test node as well, and
  the validator reports a conflict where the test expects none. The theorem
  \<open>nodeselector_test_valid_case_conflicts\<close> shows this; it is recorded as a
  divergence between the spec and the test.
\<close>

definition test_node_name :: string where
  "test_node_name = ''test-node''"

definition labelled :: "str_map \<Rightarrow> node \<Rightarrow> node" where
  "labelled labels n = n\<lparr>node_labels := labels\<rparr>"

definition make_test_node :: "(node \<Rightarrow> node) list \<Rightarrow> node" where
  "make_test_node opts = foldl (\<lambda>n opt. opt n) \<lparr>node_name = test_node_name, node_labels = Map.empty\<rparr> opts"

definition ns_test_node :: node where
  "ns_test_node = make_test_node [labelled [''matching'' \<mapsto> ''label'']]"

definition ns_test_dc :: device_config where
  "ns_test_dc = make_test_device_config [node_selector_opt (node_labels ns_test_node)]"

definition conflicting_dc :: device_config where
  "conflicting_dc = make_test_device_config [named ''conflictingDC'', node_selector_opt (node_labels ns_test_node)]"

definition nonconflicting_dc :: device_config where
  "nonconflicting_dc = make_test_device_config [named ''nonconflictingDC'']"

definition fake_cluster :: "node list \<Rightarrow> device_config list \<Rightarrow> cluster" where
  "fake_cluster ns dcs = empty_cluster\<lparr>cl_nodes := ns, cl_device_configs := dcs\<rparr>"

lemmas nodeselector_test_defs = test_node_name_def labelled_def make_test_node_def ns_test_node_def
  ns_test_dc_def conflicting_dc_def nonconflicting_dc_def fake_cluster_def empty_cluster_def no_faults_def
  controller_test_defs

lemmas validator_eval = check_device_config_for_conflicting_node_selector_def
  get_device_config_selected_nodes_def selector_matches_def contains_duplicates_def client_simps
  dc_key_def om_key_def conflict_error_def dc_name_def

subsection \<open>The test cases\<close>

theorem nodeselector_test_conflicting:
  "check_device_config_for_conflicting_node_selector conflicting_dc
     (fake_cluster [ns_test_node] [ns_test_dc, conflicting_dc]) = Some (Plain ''conflicting nodeSelector with DeviceConfig test'')"
  by (simp add: validator_eval nodeselector_test_defs map_le_def)

text \<open>Under the spec's selector semantics the validator rejects the DeviceConfig of the test case "with a valid nodeSelector": a DeviceConfig without a nodeSelector selects the test node as well and conflicts with the DeviceConfig test.\<close>

theorem nodeselector_test_valid_case_conflicts:
  "check_device_config_for_conflicting_node_selector nonconflicting_dc
     (fake_cluster [ns_test_node] [ns_test_dc, nonconflicting_dc]) = Some (Plain ''conflicting nodeSelector with DeviceConfig test'')"
  by (simp add: validator_eval nodeselector_test_defs map_le_def)

theorem nodeselector_test_selected_nodes:
  "get_device_config_selected_nodes ns_test_dc (fake_cluster [ns_test_node] [ns_test_dc]) = Inr [ns_test_node]"
  by (simp add: validator_eval nodeselector_test_defs map_le_def)

theorem contains_duplicates_test:
  "\<not> contains_duplicates [] \<and> \<not> contains_duplicates [''apple'', ''orange''] \<and>
   contains_duplicates [''apple'', ''apple'']"
  by (simp add: contains_duplicates_def)

theorem check_conflicting_node_selector_iff_witness:
  "cl_faults (fake_cluster [ns_test_node] [ns_test_dc, conflicting_dc]) VList KindNode = None \<and>
   cl_faults (fake_cluster [ns_test_node] [ns_test_dc, conflicting_dc]) VList KindDeviceConfig = None \<and>
   (\<exists>d\<in>set [ns_test_dc, conflicting_dc]. dc_key d \<noteq> dc_key conflicting_dc \<and>
      conflicts [ns_test_node] conflicting_dc d)"
  using check_conflicting_node_selector_iff [of "fake_cluster [ns_test_node] [ns_test_dc, conflicting_dc]"
          conflicting_dc] nodeselector_test_conflicting
  by (simp add: fake_cluster_def empty_cluster_def no_faults_def)

end
