(* ===== verification/Finalizers.thy ===== *)
theory Finalizers
  imports Store
begin

text \<open>
  The finalizer updater (\<open>internal/finalizers\<close>, not in the repository; spec
  section 4.8): \<open>ContainsDeletionFinalizer\<close>, \<open>AddDeletionFinalizer\<close> and
  \<open>RemoveDeletionFinalizer\<close>. Adding and removing use controller-runtime's
  \<open>controllerutil.AddFinalizer\<close> (append when absent) and
  \<open>RemoveFinalizer\<close> (drop every occurrence), then write the DeviceConfig
  with the client's \<open>Update\<close>. The finalizer's string is not in the sources;
  any fixed string serves. Retrying on write conflicts is left to the store
  layer, as the spec says, and not modelled.
\<close>

definition deletion_finalizer :: string where
  "deletion_finalizer = ''hlai.habana.ai/deletion''"

definition contains_deletion_finalizer :: "device_config \<Rightarrow> bool" where
  "contains_deletion_finalizer dc \<longleftrightarrow> deletion_finalizer \<in> set (om_finalizers (dc_meta dc))"

definition add_finalizer_to :: "string \<Rightarrow> device_config \<Rightarrow> device_config" where
  "add_finalizer_to f dc =
     (if f \<in> set (om_finalizers (dc_meta dc)) then dc
      else dc\<lparr>dc_meta := (dc_meta dc)\<lparr>om_finalizers := om_finalizers (dc_meta dc) @ [f]\<rparr>\<rparr>)"

definition remove_finalizer_from :: "string \<Rightarrow> device_config \<Rightarrow> device_config" where
  "remove_finalizer_from f dc =
     dc\<lparr>dc_meta := (dc_meta dc)\<lparr>om_finalizers := filter (\<lambda>x. x \<noteq> f) (om_finalizers (dc_meta dc))\<rparr>\<rparr>"

definition add_deletion_finalizer :: "device_config \<Rightarrow> cluster \<Rightarrow> (error + device_config) \<times> cluster" where
  "add_deletion_finalizer dc cl =
     (let dc' = add_finalizer_to deletion_finalizer dc in
      case client_update_device_config dc' cl of
        (Some e, cl') \<Rightarrow> (Inl e, cl')
      | (None, cl') \<Rightarrow> (Inr dc', cl'))"

definition remove_deletion_finalizer :: "device_config \<Rightarrow> cluster \<Rightarrow> error option \<times> cluster" where
  "remove_deletion_finalizer dc cl =
     client_update_device_config (remove_finalizer_from deletion_finalizer dc) cl"

text \<open>Invariant I3: the controller's finalizer appears at most once.\<close>

definition finalizer_once :: "device_config \<Rightarrow> bool" where
  "finalizer_once dc \<longleftrightarrow> count_list (om_finalizers (dc_meta dc)) deletion_finalizer \<le> 1"

subsection \<open>Lemmas\<close>

lemma contains_add_finalizer_to [simp]:
  "contains_deletion_finalizer (add_finalizer_to deletion_finalizer dc)"
  by (simp add: contains_deletion_finalizer_def add_finalizer_to_def)

lemma contains_remove_finalizer_from [simp]:
  "\<not> contains_deletion_finalizer (remove_finalizer_from deletion_finalizer dc)"
  by (simp add: contains_deletion_finalizer_def remove_finalizer_from_def)

lemma add_finalizer_to_key [simp]: "dc_key (add_finalizer_to f dc) = dc_key dc"
  by (simp add: add_finalizer_to_def dc_key_def om_key_def)

lemma remove_finalizer_from_key [simp]: "dc_key (remove_finalizer_from f dc) = dc_key dc"
  by (simp add: remove_finalizer_from_def dc_key_def om_key_def)

lemma add_finalizer_to_idem:
  "add_finalizer_to f (add_finalizer_to f dc) = add_finalizer_to f dc"
  by (simp add: add_finalizer_to_def)

lemma add_finalizer_to_present:
  "f \<in> set (om_finalizers (dc_meta dc)) \<Longrightarrow> add_finalizer_to f dc = dc"
  by (simp add: add_finalizer_to_def)

text \<open>Adding the controller's finalizer keeps it at most once in the finalizer list (spec invariant I3).\<close>

theorem finalizer_once_add:
  "finalizer_once dc \<Longrightarrow> finalizer_once (add_finalizer_to deletion_finalizer dc)"
  by (auto simp: finalizer_once_def add_finalizer_to_def count_list_0_iff)

lemma finalizer_once_remove:
  "finalizer_once (remove_finalizer_from deletion_finalizer dc)"
  by (simp add: finalizer_once_def remove_finalizer_from_def)

lemma other_finalizers_add:
  "g \<noteq> f \<Longrightarrow> count_list (om_finalizers (dc_meta (add_finalizer_to f dc))) g =
                count_list (om_finalizers (dc_meta dc)) g"
  by (simp add: add_finalizer_to_def)

lemma other_finalizers_remove:
  "g \<noteq> f \<Longrightarrow> count_list (om_finalizers (dc_meta (remove_finalizer_from f dc))) g =
                count_list (om_finalizers (dc_meta dc)) g"
  by (simp add: remove_finalizer_from_def count_list_filter_other)

end
