(* ===== verification/Conditions.thy ===== *)
theory Conditions
  imports Store
begin

text \<open>
  The conditions updater (\<open>internal/conditions\<close>, not in the repository; spec
  section 4.7). The conditions slice is keyed by type and maintained with
  apimachinery's \<open>meta.SetStatusCondition\<close>: the first condition of the
  type is updated in place (its transition time changes only when its status
  does), or the new condition is appended with the current time.
  \<open>SetConditionsReady\<close> sets the Ready condition true and
  \<open>SetConditionsErrored\<close> the Errored condition true; as spec 4.7 says,
  each writes only its own condition type and preserves all other conditions,
  then writes the status with \<open>Status().Update\<close>. The clock is the
  cluster's.
\<close>

definition condition_ready :: string where
  "condition_ready = ''Ready''"

definition condition_errored :: string where
  "condition_errored = ''Errored''"

fun set_status_condition :: "nat \<Rightarrow> condition \<Rightarrow> condition list \<Rightarrow> condition list" where
  "set_status_condition now c [] = [c\<lparr>cond_last_transition_time := now\<rparr>]"
| "set_status_condition now c (x # xs) =
     (if cond_type x = cond_type c
      then (x\<lparr>cond_status := cond_status c,
              cond_last_transition_time :=
                (if cond_status x \<noteq> cond_status c then now else cond_last_transition_time x),
              cond_reason := cond_reason c,
              cond_message := cond_message c,
              cond_observed_generation := cond_observed_generation c\<rparr>) # xs
      else x # set_status_condition now c xs)"

fun find_status_condition :: "condition list \<Rightarrow> string \<Rightarrow> condition option" where
  "find_status_condition [] t = None"
| "find_status_condition (x # xs) t = (if cond_type x = t then Some x else find_status_condition xs t)"

definition new_condition :: "string \<Rightarrow> condition_status \<Rightarrow> string \<Rightarrow> string \<Rightarrow> nat \<Rightarrow> condition" where
  "new_condition t st reason msg gen =
     \<lparr>cond_type = t, cond_status = st, cond_reason = reason, cond_message = msg,
      cond_observed_generation = gen, cond_last_transition_time = 0\<rparr>"

definition set_conditions ::
  "string \<Rightarrow> condition_status \<Rightarrow> device_config \<Rightarrow> string \<Rightarrow> string \<Rightarrow> cluster \<Rightarrow>
     error option \<times> cluster" where
  "set_conditions t status dc reason msg cl =
     (let cs = set_status_condition (cl_clock cl)
                 (new_condition t status reason msg (om_generation (dc_meta dc))) (dc_conditions dc)
      in client_status_update_device_config (dc\<lparr>dc_conditions := cs\<rparr>) cl)"

definition set_conditions_ready :: "device_config \<Rightarrow> string \<Rightarrow> string \<Rightarrow> cluster \<Rightarrow> error option \<times> cluster" where
  "set_conditions_ready = set_conditions condition_ready ConditionTrue"

definition set_conditions_errored :: "device_config \<Rightarrow> string \<Rightarrow> string \<Rightarrow> cluster \<Rightarrow> error option \<times> cluster" where
  "set_conditions_errored = set_conditions condition_errored ConditionTrue"

definition types_unique :: "condition list \<Rightarrow> bool" where
  "types_unique cs \<longleftrightarrow> distinct (map cond_type cs)"

subsection \<open>Lemmas\<close>

lemma cond_type_set_status_condition:
  "map cond_type (set_status_condition now c cs) =
     (if cond_type c \<in> set (map cond_type cs) then map cond_type cs else map cond_type cs @ [cond_type c])"
  by (induction cs) auto

text \<open>Setting a status condition keeps the conditions keyed by type: if no two conditions shared a type before, none do after.\<close>

theorem set_status_condition_types_unique:
  "types_unique cs \<Longrightarrow> types_unique (set_status_condition now c cs)"
  by (simp add: types_unique_def cond_type_set_status_condition)

text \<open>After setting a condition, looking its type up gives the new condition, whose transition time is the current time when the type was absent or its status changed, and the old transition time otherwise.\<close>

theorem find_set_status_condition:
  "find_status_condition (set_status_condition now c cs) (cond_type c) =
     Some (case find_status_condition cs (cond_type c) of
             None \<Rightarrow> c\<lparr>cond_last_transition_time := now\<rparr>
           | Some x \<Rightarrow> c\<lparr>cond_last_transition_time :=
                          (if cond_status x \<noteq> cond_status c then now else cond_last_transition_time x)\<rparr>)"
  by (induction cs) auto

theorem find_set_status_condition_other:
  "t \<noteq> cond_type c \<Longrightarrow>
     find_status_condition (set_status_condition now c cs) t = find_status_condition cs t"
  by (induction cs) auto

end
