(* ===== verification/Cluster.thy ===== *)
theory Cluster
  imports Module Controller Finalizers Conditions NodeSelector
begin

text \<open>
  The controller as it runs against the object store: the generic tick of
  \<open>Controller.thy\<close> with its collaborators instantiated by the concrete
  models, \<open>reconcile_module\<close> and \<open>delete_module\<close> of \<open>module.go\<close>, the
  finalizer and condition updaters, the node-selector validator and the event
  recorder. The NodeLabeler and NodeMetrics sub-reconcilers are not in the
  repository; they are parameters, of which the end-to-end theorems only
  assume that they write neither Modules nor DeviceConfigs (they label nodes
  and manage their own children).
\<close>

definition record_event :: "device_config \<Rightarrow> string \<Rightarrow> string \<Rightarrow> string \<Rightarrow> cluster \<Rightarrow> cluster" where
  "record_event dc t reason msg cl =
     cl\<lparr>cl_events := cl_events cl @ [\<lparr>ev_object = dc_key dc, ev_type = t, ev_reason = reason, ev_message = msg\<rparr>]\<rparr>"

type_synonym sub_reconciler = "device_config \<Rightarrow> cluster \<Rightarrow> error option \<times> cluster"

definition cluster_reconciler ::
  "settings \<Rightarrow> module_reconciler \<Rightarrow> sub_reconciler \<Rightarrow> sub_reconciler \<Rightarrow> cluster reconciler" where
  "cluster_reconciler st mr lab met =
     \<lparr>rc_get = (\<lambda>req cl. (client_get_device_config req cl, cl)),
      rc_event = record_event,
      rc_check_conflicts = (\<lambda>dc cl. (check_device_config_for_conflicting_node_selector dc cl, cl)),
      rc_contains_finalizer = (\<lambda>dc cl. (contains_deletion_finalizer dc, cl)),
      rc_add_finalizer = add_deletion_finalizer,
      rc_remove_finalizer = remove_deletion_finalizer,
      rc_reconcile_module = mi_reconcile_module (module_reconciler_iface st mr),
      rc_reconcile_node_labeler = lab,
      rc_reconcile_node_metrics = met,
      rc_delete_module = mi_delete_module (module_reconciler_iface st mr),
      rc_set_ready = set_conditions_ready,
      rc_set_errored = set_conditions_errored\<rparr>"

definition cluster_tick ::
  "settings \<Rightarrow> module_reconciler \<Rightarrow> sub_reconciler \<Rightarrow> sub_reconciler \<Rightarrow> nsname \<Rightarrow> cluster \<Rightarrow> cluster tick" where
  "cluster_tick st mr lab met req cl = reconcile (cluster_reconciler st mr lab met) req cl"

text \<open>A sub-reconciler that writes neither Modules nor DeviceConfigs and injects no faults.\<close>

definition keeps_objects :: "sub_reconciler \<Rightarrow> bool" where
  "keeps_objects f \<longleftrightarrow>
     (\<forall>dc cl. cl_modules (snd (f dc cl)) = cl_modules cl \<and>
              cl_device_configs (snd (f dc cl)) = cl_device_configs cl \<and>
              cl_faults (snd (f dc cl)) = cl_faults cl)"

text \<open>A write that touches only DeviceConfigs and events.\<close>

definition dc_write :: "cluster \<Rightarrow> cluster \<Rightarrow> bool" where
  "dc_write cl cl' \<longleftrightarrow> cl_modules cl' = cl_modules cl \<and> cl_faults cl' = cl_faults cl"

text \<open>The DeviceConfig stored under \<open>req\<close> carries the controller's finalizer.\<close>

definition holds_finalizer :: "nsname \<Rightarrow> cluster \<Rightarrow> bool" where
  "holds_finalizer req cl \<longleftrightarrow>
     (\<exists>d\<in>set (cl_device_configs cl). dc_key d = req \<and> contains_deletion_finalizer d)"

subsection \<open>Lemmas\<close>

lemma cluster_reconciler_fields [simp]:
  "rc_get (cluster_reconciler st mr lab met) = (\<lambda>req cl. (client_get_device_config req cl, cl))"
  "rc_event (cluster_reconciler st mr lab met) = record_event"
  "rc_check_conflicts (cluster_reconciler st mr lab met) =
     (\<lambda>dc cl. (check_device_config_for_conflicting_node_selector dc cl, cl))"
  "rc_contains_finalizer (cluster_reconciler st mr lab met) = (\<lambda>dc cl. (contains_deletion_finalizer dc, cl))"
  "rc_add_finalizer (cluster_reconciler st mr lab met) = add_deletion_finalizer"
  "rc_remove_finalizer (cluster_reconciler st mr lab met) = remove_deletion_finalizer"
  "rc_reconcile_module (cluster_reconciler st mr lab met) = reconcile_module st mr"
  "rc_reconcile_node_labeler (cluster_reconciler st mr lab met) = lab"
  "rc_reconcile_node_metrics (cluster_reconciler st mr lab met) = met"
  "rc_delete_module (cluster_reconciler st mr lab met) = delete_module mr"
  "rc_set_ready (cluster_reconciler st mr lab met) = set_conditions_ready"
  "rc_set_errored (cluster_reconciler st mr lab met) = set_conditions_errored"
  by (simp_all add: cluster_reconciler_def module_reconciler_iface_def)

lemma dc_write_refl [simp]: "dc_write cl cl"
  by (simp add: dc_write_def)

lemma dc_write_trans [trans]: "dc_write a b \<Longrightarrow> dc_write b c \<Longrightarrow> dc_write a c"
  by (simp add: dc_write_def)

lemma dc_write_modules_wf: "dc_write cl cl' \<Longrightarrow> modules_wf cl \<Longrightarrow> modules_wf cl'"
  by (simp add: dc_write_def modules_wf_def)

lemma update_device_config_dc_write [intro]: "dc_write cl (snd (client_update_device_config dc cl))"
  by (auto simp: dc_write_def client_simps split: option.splits)

lemma status_update_device_config_dc_write [intro]:
  "dc_write cl (snd (client_status_update_device_config dc cl))"
  by (auto simp: dc_write_def client_simps split: option.splits)

lemma set_conditions_dc_write [intro]: "set_conditions a b dc rs m cl = (w, cl') \<Longrightarrow> dc_write cl cl'"
  by (metis set_conditions_def status_update_device_config_dc_write snd_conv)

lemma add_deletion_finalizer_dc_write:
  "add_deletion_finalizer dc cl = (res, cl') \<Longrightarrow> dc_write cl cl'"
  using update_device_config_dc_write [of cl "add_finalizer_to deletion_finalizer dc"]
  by (auto simp: add_deletion_finalizer_def Let_def split: option.splits prod.splits)

lemma add_deletion_finalizer_Inr:
  "add_deletion_finalizer dc cl = (Inr dc', cl') \<Longrightarrow> dc' = add_finalizer_to deletion_finalizer dc"
  by (auto simp: add_deletion_finalizer_def Let_def split: option.splits prod.splits)

lemma keeps_objects_dc_write: "keeps_objects f \<Longrightarrow> f dc cl = (r, cl') \<Longrightarrow> dc_write cl cl'"
  by (metis dc_write_def keeps_objects_def snd_conv)

lemma add_finalizer_to_identity [simp]:
  "dc_spec (add_finalizer_to f dc) = dc_spec dc"
  "om_name (dc_meta (add_finalizer_to f dc)) = om_name (dc_meta dc)"
  "om_namespace (dc_meta (add_finalizer_to f dc)) = om_namespace (dc_meta dc)"
  "om_uid (dc_meta (add_finalizer_to f dc)) = om_uid (dc_meta dc)"
  by (simp_all add: add_finalizer_to_def)

lemma set_desired_module_add_finalizer [simp]:
  "set_desired_module st r mo (add_finalizer_to f dc) = set_desired_module st r mo dc"
  by (rule set_desired_module_cong) simp_all

lemma module_key_add_finalizer [simp]: "module_key (add_finalizer_to f dc) = module_key dc"
  by (rule module_key_cong) simp_all

lemma tick_get_found:
  assumes "cluster_tick st mr lab met req cl = ((res, None), cl')"
    and "find_device_config req (cl_device_configs cl) = Some dc"
  shows "rc_get (cluster_reconciler st mr lab met) req cl = (Inr dc, cl)"
  using assms by (auto simp: cluster_tick_def reconcile_def client_simps split: option.splits)

lemma cluster_stages_module:
  assumes "reconcile_stages (cluster_reconciler st mr lab met) d s = ((res, None), s')"
    and "keeps_objects lab" and "keeps_objects met" and "modules_wf s"
  shows "\<exists>m. set_desired_module st mr (Some m) d = Inr m \<and> cl_modules s' (module_key d) = Some m"
proof -
  obtain s1 s2 s3 w where rm: "reconcile_module st mr d s = (None, s1)" and l: "lab d s1 = (None, s2)"
    and mt: "met d s2 = (None, s3)"
    and sr: "set_conditions_ready d reason_reconciled (ready_message d) s3 = (w, s')"
    using reconcile_stages_ok [OF assms(1)] by auto
  from reconcile_module_ok_fixpoint [OF rm assms(4)] obtain m where
    fx: "set_desired_module st mr (Some m) d = Inr m" and s1: "cl_modules s1 (module_key d) = Some m"
    by auto
  have "dc_write s1 s2" using keeps_objects_dc_write [OF assms(2) l] .
  also have "dc_write s2 s3" using keeps_objects_dc_write [OF assms(3) mt] .
  also have "dc_write s3 s'" using sr by (auto simp: set_conditions_ready_def)
  finally show ?thesis using fx s1 by (auto simp: dc_write_def)
qed

lemma normal_tick_stages:
  assumes "reconcile_normal (cluster_reconciler st mr lab met) dc cl = ((res, None), cl')"
    and "check_device_config_for_conflicting_node_selector dc cl = None"
  shows "\<exists>d s2. reconcile_stages (cluster_reconciler st mr lab met) d s2 = ((res, None), cl') \<and>
                dc_write cl s2 \<and> (d = dc \<or> d = add_finalizer_to deletion_finalizer dc)"
proof -
  from reconcile_normal_admitted [OF assms(1)] assms(2) consider
    "reconcile_stages (cluster_reconciler st mr lab met) dc cl = ((res, None), cl')"
  | dc' s3 where "add_deletion_finalizer dc cl = (Inr dc', s3)"
      "reconcile_stages (cluster_reconciler st mr lab met) dc' s3 = ((res, None), cl')"
    by auto
  then show ?thesis
  proof cases
    case 1
    then show ?thesis using dc_write_refl by blast
  next
    case (2 dc' s3)
    then show ?thesis using add_deletion_finalizer_Inr add_deletion_finalizer_dc_write by blast
  qed
qed

text \<open>C16: After a tick that returns no error on a DeviceConfig without deletion timestamp that the validator admits, the Module exists with the DeviceConfig's node selector plus the presence label and a controller reference to the DeviceConfig (spec property P3), whatever the NodeLabeler and NodeMetrics sub-reconcilers do besides writing Modules and DeviceConfigs.\<close>

theorem tick_module_exists:
  assumes tick: "cluster_tick st mr lab met req cl = ((res, None), cl')"
    and found: "find_device_config req (cl_device_configs cl) = Some dc"
    and live: "om_deletion_timestamp (dc_meta dc) = None"
    and admitted: "check_device_config_for_conflicting_node_selector dc cl = None"
    and "keeps_objects lab" and "keeps_objects met" and "modules_wf cl"
  shows "\<exists>m. cl_modules cl' (module_key dc) = Some m \<and>
             ms_selector (mod_spec m) = (node_selector (dc_spec dc))(''habana.ai/hpu.gaudi.present'' \<mapsto> ''true'') \<and>
             (\<exists>av. controller_ref av device_config_kind (dc_meta dc) \<in> set (om_owner_references (mod_meta m)))"
proof -
  have "reconcile_normal (cluster_reconciler st mr lab met) dc cl = ((res, None), cl')"
    using tick_get_found [OF tick found] tick live by (simp add: cluster_tick_def reconcile_found)
  from normal_tick_stages [OF this admitted] obtain d s2 where
    stages: "reconcile_stages (cluster_reconciler st mr lab met) d s2 = ((res, None), cl')" and
    w: "dc_write cl s2" and d: "d = dc \<or> d = add_finalizer_to deletion_finalizer dc"
    by blast
  from cluster_stages_module [OF stages assms(5,6) dc_write_modules_wf [OF w assms(7)]] d obtain m where
    "set_desired_module st mr (Some m) dc = Inr m" and "cl_modules cl' (module_key dc) = Some m"
    by auto
  with set_desired_module_selector_owner show ?thesis by blast
qed

lemma holds_finalizer_update:
  assumes "dc_key dc = req \<longrightarrow> contains_deletion_finalizer dc" and "holds_finalizer req cl"
  shows "holds_finalizer req (snd (client_update_device_config dc cl))"
proof -
  obtain d where d: "d \<in> set (cl_device_configs cl)" "dc_key d = req" "contains_deletion_finalizer d"
    using assms(2) by (auto simp: holds_finalizer_def)
  define d' where "d' = (if dc_key d = dc_key dc then dc\<lparr>dc_conditions := dc_conditions d\<rparr> else d)"
  have "d' \<in> set (replace_device_config (\<lambda>x. dc\<lparr>dc_conditions := dc_conditions x\<rparr>) (dc_key dc)
                   (cl_device_configs cl))"
    using d(1) by (auto simp: replace_device_config_def d'_def)
  moreover have key: "dc_key d' = req" and fin: "contains_deletion_finalizer d'"
    using d assms(1) by (auto simp: d'_def dc_key_def contains_deletion_finalizer_def)
  moreover have "om_finalizers (dc_meta d') \<noteq> []"
    using fin by (auto simp: contains_deletion_finalizer_def)
  ultimately show ?thesis using assms(2)
    by (auto simp: client_simps holds_finalizer_def gc_device_configs_def split: option.splits)
qed

lemma holds_finalizer_status_update:
  assumes "holds_finalizer req cl"
  shows "holds_finalizer req (snd (client_status_update_device_config dc cl))"
proof -
  obtain d where d: "d \<in> set (cl_device_configs cl)" "dc_key d = req" "contains_deletion_finalizer d"
    using assms by (auto simp: holds_finalizer_def)
  define d' where "d' = (if dc_key d = dc_key dc then d\<lparr>dc_conditions := dc_conditions dc\<rparr> else d)"
  have "d' \<in> set (replace_device_config (\<lambda>x. x\<lparr>dc_conditions := dc_conditions dc\<rparr>) (dc_key dc)
                   (cl_device_configs cl))"
    using d(1) by (auto simp: replace_device_config_def d'_def)
  moreover have "dc_key d' = req" and "contains_deletion_finalizer d'"
    using d by (auto simp: d'_def dc_key_def contains_deletion_finalizer_def)
  ultimately show ?thesis using assms
    by (auto simp: client_simps holds_finalizer_def split: option.splits)
qed

lemma set_conditions_holds_finalizer:
  "holds_finalizer req cl \<Longrightarrow> holds_finalizer req (snd (set_conditions a b dc rs m cl))"
  by (simp add: set_conditions_def Let_def holds_finalizer_status_update)

lemma reconcile_module_keeps_dcs:
  assumes "modules_wf cl"
  shows "cl_device_configs (snd (reconcile_module st r cr cl)) = cl_device_configs cl"
proof -
  obtain res cl' where rm: "reconcile_module st r cr cl = (res, cl')" by fastforce
  from reconcile_module_effect [OF rm assms] rm show ?thesis by auto
qed

text \<open>
  On the normal path every write keeps the finalizer of the DeviceConfig under
  \<open>req\<close> (if it has one) and the store's indexing of Modules.
\<close>

lemma normal_tick_holds_finalizer:
  assumes "holds_finalizer req cl" and "modules_wf cl" and "keeps_objects lab" and "keeps_objects met"
  shows "holds_finalizer req (snd (reconcile_normal (cluster_reconciler st mr lab met) dc cl))"
proof -
  let ?P = "\<lambda>s. holds_finalizer req s \<and> modules_wf s"
  have keep: "?P s'" if "?P s" "cl_device_configs s' = cl_device_configs s" "cl_modules s' = cl_modules s"
    for s s'
    using that by (simp add: holds_finalizer_def modules_wf_def)
  have "?P (snd (reconcile_normal (cluster_reconciler st mr lab met) dc cl))"
  proof (rule reconcile_normal_preserves)
    show "?P cl" using assms(1,2) by simp
  next
    fix d t rs m s assume "?P s"
    then show "?P (rc_event (cluster_reconciler st mr lab met) d t rs m s)"
      by (rule keep) (simp_all add: record_event_def)
  next
    fix d s assume p: "?P s"
    then show "?P (snd (rc_check_conflicts (cluster_reconciler st mr lab met) d s))"
      and "?P (snd (rc_contains_finalizer (cluster_reconciler st mr lab met) d s))" by simp_all
    obtain a s' where af: "add_deletion_finalizer d s = (a, s')" by fastforce
    have "s' = snd (client_update_device_config (add_finalizer_to deletion_finalizer d) s)"
      using af by (auto simp: add_deletion_finalizer_def Let_def split: option.splits prod.splits)
    then have "holds_finalizer req s'"
      using p holds_finalizer_update [of "add_finalizer_to deletion_finalizer d" req s] by simp
    moreover have "modules_wf s'"
      using p add_deletion_finalizer_dc_write [OF af] dc_write_modules_wf by blast
    ultimately show "?P (snd (rc_add_finalizer (cluster_reconciler st mr lab met) d s))"
      using af by simp
    obtain res s'' where rm: "reconcile_module st mr d s = (res, s'')" by fastforce
    have "cl_device_configs s'' = cl_device_configs s"
      using reconcile_module_keeps_dcs [of s st mr d] p rm by simp
    moreover have "modules_wf s''" using reconcile_module_modules_wf [OF rm] p by simp
    ultimately show "?P (snd (rc_reconcile_module (cluster_reconciler st mr lab met) d s))"
      using p rm by (simp add: holds_finalizer_def)
    show "?P (snd (rc_reconcile_node_labeler (cluster_reconciler st mr lab met) d s))"
      and "?P (snd (rc_reconcile_node_metrics (cluster_reconciler st mr lab met) d s))"
      using keep [OF p] assms(3,4) by (simp_all add: keeps_objects_def)
  next
    fix d rs m s assume p: "?P s"
    have "dc_write s (snd (set_conditions a b d rs m s))" for a b
      by (rule set_conditions_dc_write [of a b d rs m s "fst (set_conditions a b d rs m s)"]) simp
    with p show "?P (snd (rc_set_ready (cluster_reconciler st mr lab met) d rs m s))"
      and "?P (snd (rc_set_errored (cluster_reconciler st mr lab met) d rs m s))"
      by (auto simp: set_conditions_ready_def set_conditions_errored_def set_conditions_holds_finalizer
               dest: dc_write_modules_wf)
  qed
  then show ?thesis by simp
qed

lemma remove_deletion_finalizer_dc_write:
  "remove_deletion_finalizer dc cl = (res, cl') \<Longrightarrow> dc_write cl cl'"
  by (metis remove_deletion_finalizer_def update_device_config_dc_write snd_conv)

lemma tick_get_fault:
  assumes "cl_faults cl VGet KindDeviceConfig = Some f"
  shows "cluster_tick st mr lab met req cl = ((no_requeue, Some (fault_error f)), cl)"
  using assms by (simp add: cluster_tick_def reconcile_def client_simps)

lemma tick_get_ok:
  assumes "cl_faults cl VGet KindDeviceConfig = None"
    and "find_device_config req (cl_device_configs cl) = Some dc"
  shows "rc_get (cluster_reconciler st mr lab met) req cl = (Inr dc, cl)"
  using assms by (simp add: client_simps)

text \<open>The deletion path of one tick removes the finalizer only after the Module is gone.\<close>

lemma delete_tick_barrier:
  assumes "delete_device_config (cluster_reconciler st mr lab met) dc cl = (out, cl')"
    and "contains_deletion_finalizer dc" and "cl' \<noteq> cl"
  shows "cl_modules cl' (module_key dc) = None"
proof -
  from delete_device_config_released [OF assms(1)] assms(2,3) obtain s2 r where
    dm: "delete_module mr dc cl = (None, s2)" and rf: "remove_deletion_finalizer dc s2 = (r, cl')"
    by (auto dest: delete_module_error)
  from delete_module_ok [OF dm] have "cl_modules s2 (module_key dc) = None" by simp
  with remove_deletion_finalizer_dc_write [OF rf] show ?thesis by (simp add: dc_write_def)
qed

text \<open>C17: Deletion barrier for one tick (spec invariant I4, P2): if a tick takes the controller's finalizer away from the DeviceConfig under the request, the Module of that DeviceConfig is gone from the store after the tick.\<close>

theorem tick_deletion_barrier:
  assumes tick: "cluster_tick st mr lab met req cl = (out, cl')"
    and held: "holds_finalizer req cl" and released: "\<not> holds_finalizer req cl'"
    and "keeps_objects lab" and "keeps_objects met" and "modules_wf cl"
  shows "\<forall>d\<in>set (cl_device_configs cl). dc_key d = req \<longrightarrow> cl_modules cl' (module_key d) = None"
proof -
  obtain d0 where d0: "d0 \<in> set (cl_device_configs cl)" "dc_key d0 = req" "contains_deletion_finalizer d0"
    using held by (auto simp: holds_finalizer_def)
  then obtain dc where found: "find_device_config req (cl_device_configs cl) = Some dc"
    using find_device_config_exists by blast
  then have key: "dc_key dc = req" and mem: "dc \<in> set (cl_device_configs cl)"
    by (simp_all add: find_device_config_SomeD)
  have changed: "cl' \<noteq> cl" using held released by auto
  have get: "cl_faults cl VGet KindDeviceConfig = None"
  proof (rule ccontr)
    assume "cl_faults cl VGet KindDeviceConfig \<noteq> None"
    with tick tick_get_fault have "cl' = cl" by fastforce
    with changed show False ..
  qed
  have dc_fin: "contains_deletion_finalizer dc"
  proof (rule ccontr)
    assume nf: "\<not> contains_deletion_finalizer dc"
    have "om_deletion_timestamp (dc_meta dc) \<noteq> None"
    proof
      assume "om_deletion_timestamp (dc_meta dc) = None"
      with tick tick_get_ok [OF get found] have "cl' = snd (reconcile_normal (cluster_reconciler st mr lab met) dc cl)"
        by (simp add: cluster_tick_def reconcile_found)
      with normal_tick_holds_finalizer [OF held assms(6,4,5)] released show False by simp
    qed
    with tick tick_get_ok [OF get found] nf have "cl' = cl"
      by (simp add: cluster_tick_def reconcile_found delete_device_config_def)
    with changed show False ..
  qed
  have "cl_modules cl' (module_key dc) = None"
  proof (cases "om_deletion_timestamp (dc_meta dc) = None")
    case True
    with tick tick_get_ok [OF get found] have "cl' = snd (reconcile_normal (cluster_reconciler st mr lab met) dc cl)"
      by (simp add: cluster_tick_def reconcile_found)
    with normal_tick_holds_finalizer [OF held assms(6,4,5)] released show ?thesis by simp
  next
    case False
    with tick tick_get_ok [OF get found] have "delete_device_config (cluster_reconciler st mr lab met) dc cl = (out, cl')"
      by (simp add: cluster_tick_def reconcile_found)
    from delete_tick_barrier [OF this dc_fin changed] show ?thesis .
  qed
  with key show ?thesis by (auto dest: module_key_dc_key)
qed

end
