(* ===== verification/Reachable.thy ===== *)
theory Reachable
  imports Cluster
begin

text \<open>
  The controller among its users: the states the object store reaches from a
  store without Modules, by controller ticks on any request (with any faults
  injected) interleaved in any order with what users and the environment do:
  create a DeviceConfig, change its spec, delete it (the API server sets the
  deletion timestamp while finalizers remain and removes it otherwise), and
  change nodes, faults and the clock. The invariant \<open>module_owned\<close>: every
  Module in the store has a stored DeviceConfig with its identity that holds
  the controller's finalizer. Its corollary is the deletion barrier of the
  spec (I4) over whole runs: a DeviceConfig whose Module exists survives a
  user's delete.
\<close>

definition module_owned :: "cluster \<Rightarrow> bool" where
  "module_owned cl \<longleftrightarrow>
     (\<forall>k\<in>dom (cl_modules cl). \<exists>d\<in>set (cl_device_configs cl). module_key d = k \<and> contains_deletion_finalizer d)"

subsection \<open>What users and the environment do\<close>

text \<open>\<open>Create\<close> of a DeviceConfig: refused when one with its identity exists; the
  API server ignores a deletion timestamp on create.\<close>

definition user_create :: "device_config \<Rightarrow> cluster \<Rightarrow> cluster" where
  "user_create d cl =
     (if find_device_config (dc_key d) (cl_device_configs cl) = None
      then cl\<lparr>cl_device_configs :=
                cl_device_configs cl @ [d\<lparr>dc_meta := (dc_meta d)\<lparr>om_deletion_timestamp := None\<rparr>\<rparr>]\<rparr>
      else cl)"

definition user_update_spec :: "nsname \<Rightarrow> device_config_spec \<Rightarrow> cluster \<Rightarrow> cluster" where
  "user_update_spec k sp cl =
     cl\<lparr>cl_device_configs := replace_device_config (\<lambda>d. d\<lparr>dc_spec := sp\<rparr>) k (cl_device_configs cl)\<rparr>"

definition mark_deleted :: "nat \<Rightarrow> device_config \<Rightarrow> device_config" where
  "mark_deleted now d =
     (if om_deletion_timestamp (dc_meta d) = None
      then d\<lparr>dc_meta := (dc_meta d)\<lparr>om_deletion_timestamp := Some now\<rparr>\<rparr> else d)"

definition user_delete :: "nsname \<Rightarrow> cluster \<Rightarrow> cluster" where
  "user_delete k cl =
     cl\<lparr>cl_device_configs :=
          gc_device_configs (replace_device_config (mark_deleted (cl_clock cl)) k (cl_device_configs cl))\<rparr>"

definition env_change :: "node list \<Rightarrow> (verb \<Rightarrow> kind \<Rightarrow> store_fault option) \<Rightarrow> nat \<Rightarrow> cluster \<Rightarrow> cluster" where
  "env_change ns fs now cl = cl\<lparr>cl_nodes := ns, cl_faults := fs, cl_clock := now\<rparr>"

inductive reachable ::
  "settings \<Rightarrow> module_reconciler \<Rightarrow> sub_reconciler \<Rightarrow> sub_reconciler \<Rightarrow> cluster \<Rightarrow> bool"
  for st mr lab met where
  init: "cl_modules cl = Map.empty \<Longrightarrow> reachable st mr lab met cl"
| tick: "reachable st mr lab met cl \<Longrightarrow> reachable st mr lab met (snd (cluster_tick st mr lab met req cl))"
| create: "reachable st mr lab met cl \<Longrightarrow> reachable st mr lab met (user_create d cl)"
| update: "reachable st mr lab met cl \<Longrightarrow> reachable st mr lab met (user_update_spec k sp cl)"
| delete: "reachable st mr lab met cl \<Longrightarrow> reachable st mr lab met (user_delete k cl)"
| env: "reachable st mr lab met cl \<Longrightarrow> reachable st mr lab met (env_change ns fs now cl)"

subsection \<open>Lemmas\<close>

text \<open>
  A step that keeps the Modules and, for every finalizer-holding DeviceConfig,
  one with its identity that holds the finalizer, keeps \<open>module_owned\<close>.
\<close>

lemma module_owned_transfer:
  assumes "module_owned cl" and "cl_modules cl' = cl_modules cl"
    and "\<And>w. w \<in> set (cl_device_configs cl) \<Longrightarrow> contains_deletion_finalizer w \<Longrightarrow>
               module_key w \<in> dom (cl_modules cl) \<Longrightarrow> holds_finalizer (dc_key w) cl'"
  shows "module_owned cl'"
  unfolding module_owned_def
proof
  fix k assume "k \<in> dom (cl_modules cl')"
  with assms(1,2) obtain w where w: "w \<in> set (cl_device_configs cl)" "module_key w = k"
    "contains_deletion_finalizer w"
    by (auto simp: module_owned_def)
  with assms(2,3) \<open>k \<in> dom (cl_modules cl')\<close> obtain w' where
    "w' \<in> set (cl_device_configs cl')" "dc_key w' = dc_key w" "contains_deletion_finalizer w'"
    by (fastforce simp: holds_finalizer_def)
  with w show "\<exists>d\<in>set (cl_device_configs cl'). module_key d = k \<and> contains_deletion_finalizer d"
    by (metis module_key_dc_key)
qed

lemma holds_finalizer_self:
  "w \<in> set (cl_device_configs cl) \<Longrightarrow> contains_deletion_finalizer w \<Longrightarrow> holds_finalizer (dc_key w) cl"
  by (auto simp: holds_finalizer_def)

lemma module_owned_same_dcs:
  "module_owned cl \<Longrightarrow> cl_modules cl' = cl_modules cl \<Longrightarrow> cl_device_configs cl' = cl_device_configs cl \<Longrightarrow>
     module_owned cl'"
  by (simp add: module_owned_def)

lemma module_owned_user_create: "module_owned cl \<Longrightarrow> module_owned (user_create d cl)"
  by (fastforce simp: user_create_def module_owned_def)

lemma module_owned_user_update_spec: "module_owned cl \<Longrightarrow> module_owned (user_update_spec k sp cl)"
proof (rule module_owned_transfer)
  fix w assume w: "w \<in> set (cl_device_configs cl)" "contains_deletion_finalizer w"
  let ?w' = "if dc_key w = k then w\<lparr>dc_spec := sp\<rparr> else w"
  have "?w' \<in> set (replace_device_config (\<lambda>d. d\<lparr>dc_spec := sp\<rparr>) k (cl_device_configs cl))"
    using w(1) by (auto simp: replace_device_config_def)
  moreover have "dc_key ?w' = dc_key w" and "contains_deletion_finalizer ?w'"
    using w(2) by (auto simp: dc_key_def contains_deletion_finalizer_def)
  ultimately show "holds_finalizer (dc_key w) (user_update_spec k sp cl)"
    by (force simp: user_update_spec_def holds_finalizer_def)
qed (simp_all add: user_update_spec_def)

lemma module_owned_user_delete: "module_owned cl \<Longrightarrow> module_owned (user_delete k cl)"
proof (rule module_owned_transfer)
  fix w assume w: "w \<in> set (cl_device_configs cl)" "contains_deletion_finalizer w"
  let ?w' = "if dc_key w = k then mark_deleted (cl_clock cl) w else w"
  have "?w' \<in> set (replace_device_config (mark_deleted (cl_clock cl)) k (cl_device_configs cl))"
    using w(1) by (auto simp: replace_device_config_def)
  moreover have "dc_key ?w' = dc_key w" and "contains_deletion_finalizer ?w'"
    using w(2) by (auto simp: mark_deleted_def dc_key_def om_key_def contains_deletion_finalizer_def)
  ultimately show "holds_finalizer (dc_key w) (user_delete k cl)"
    by (force simp: user_delete_def holds_finalizer_def gc_device_configs_def contains_deletion_finalizer_def)
qed (simp_all add: user_delete_def)

lemma module_owned_env_change: "module_owned cl \<Longrightarrow> module_owned (env_change ns fs now cl)"
  by (simp add: module_owned_def env_change_def)

lemma module_owned_update_holding:
  assumes "contains_deletion_finalizer dc" and "module_owned cl"
  shows "module_owned (snd (client_update_device_config dc cl))"
proof (rule module_owned_transfer [OF assms(2)])
  show "cl_modules (snd (client_update_device_config dc cl)) = cl_modules cl"
    using update_device_config_dc_write by (simp add: dc_write_def)
next
  fix w assume "w \<in> set (cl_device_configs cl)" "contains_deletion_finalizer w"
  then show "holds_finalizer (dc_key w) (snd (client_update_device_config dc cl))"
    using assms(1) by (intro holds_finalizer_update holds_finalizer_self) simp_all
qed

lemma module_owned_update_released:
  assumes "cl_modules cl (module_key dc) = None" and "module_owned cl"
  shows "module_owned (snd (client_update_device_config dc cl))"
proof (rule module_owned_transfer [OF assms(2)])
  show "cl_modules (snd (client_update_device_config dc cl)) = cl_modules cl"
    using update_device_config_dc_write by (simp add: dc_write_def)
next
  fix w assume w: "w \<in> set (cl_device_configs cl)" "contains_deletion_finalizer w"
    and "module_key w \<in> dom (cl_modules cl)"
  with assms(1) have "dc_key dc \<noteq> dc_key w" by (auto dest: module_key_dc_key)
  with w show "holds_finalizer (dc_key w) (snd (client_update_device_config dc cl))"
    by (intro holds_finalizer_update holds_finalizer_self) simp_all
qed

lemma module_owned_status_update:
  assumes "module_owned cl"
  shows "module_owned (snd (client_status_update_device_config dc cl))"
proof (rule module_owned_transfer [OF assms])
  show "cl_modules (snd (client_status_update_device_config dc cl)) = cl_modules cl"
    using status_update_device_config_dc_write by (simp add: dc_write_def)
qed (intro holds_finalizer_status_update holds_finalizer_self, simp_all)

lemma module_owned_set_module:
  assumes "module_owned cl" and "holds_finalizer (dc_key d) cl"
  shows "module_owned (cl\<lparr>cl_modules := (cl_modules cl)(module_key d \<mapsto> m)\<rparr>)"
  using assms by (fastforce simp: module_owned_def holds_finalizer_def dest: module_key_dc_key)

lemma module_owned_del_module:
  "module_owned cl \<Longrightarrow> module_owned (cl\<lparr>cl_modules := (cl_modules cl)(k := None)\<rparr>)"
  by (simp add: module_owned_def)

lemma module_owned_set_conditions:
  "module_owned cl \<Longrightarrow> module_owned (snd (set_conditions a b dc rs m cl))"
  by (simp add: set_conditions_def Let_def module_owned_status_update)

lemma modules_wf_set_conditions:
  "modules_wf cl \<Longrightarrow> modules_wf (snd (set_conditions a b dc rs m cl))"
  using set_conditions_dc_write [of a b dc rs m cl "fst (set_conditions a b dc rs m cl)"
                                   "snd (set_conditions a b dc rs m cl)"]
  by (simp add: dc_write_modules_wf)

lemma stages_module_owned:
  assumes "module_owned s" and "modules_wf s" and "holds_finalizer (dc_key d) s"
    and lab: "keeps_objects lab" and met: "keeps_objects met"
  shows "module_owned (snd (reconcile_stages (cluster_reconciler st mr lab met) d s)) \<and>
         modules_wf (snd (reconcile_stages (cluster_reconciler st mr lab met) d s))"
proof -
  let ?P = "\<lambda>s. (module_owned s \<and> modules_wf s) \<and> holds_finalizer (dc_key d) s"
  have keep: "?P s'" if "?P s" "cl_device_configs s' = cl_device_configs s" "cl_modules s' = cl_modules s"
    for s s'
    using that by (simp add: holds_finalizer_def modules_wf_def module_owned_def)
  have "?P (snd (reconcile_stages (cluster_reconciler st mr lab met) d s))"
  proof (rule reconcile_stages_preserves)
    show "?P s" using assms(1-3) by simp
  next
    fix s assume p: "?P s"
    obtain res s' where rm: "reconcile_module st mr d s = (res, s')" by fastforce
    from reconcile_module_effect [OF rm] p have "s' = s \<or>
        (\<exists>m. s' = s\<lparr>cl_modules := (cl_modules s)(module_key d \<mapsto> m)\<rparr>)" by blast
    then have "module_owned s' \<and> holds_finalizer (dc_key d) s'"
      using p module_owned_set_module [of s d] by (auto simp: holds_finalizer_def)
    moreover have "modules_wf s'" using reconcile_module_modules_wf [OF rm] p by simp
    ultimately show "?P (snd (rc_reconcile_module (cluster_reconciler st mr lab met) d s))"
      using rm by simp
    show "?P (snd (rc_reconcile_node_labeler (cluster_reconciler st mr lab met) d s))"
      and "?P (snd (rc_reconcile_node_metrics (cluster_reconciler st mr lab met) d s))"
      using keep [OF p] lab met by (simp_all add: keeps_objects_def)
  next
    fix rs m s assume p: "?P s"
    then show "?P (snd (rc_set_ready (cluster_reconciler st mr lab met) d rs m s))"
      and "?P (snd (rc_set_errored (cluster_reconciler st mr lab met) d rs m s))"
      by (simp_all add: set_conditions_ready_def set_conditions_errored_def module_owned_set_conditions
                        modules_wf_set_conditions set_conditions_holds_finalizer)
  qed
  then show ?thesis by simp
qed

lemma update_holds_finalizer:
  assumes "client_update_device_config d cl = (None, cl')" and "contains_deletion_finalizer d"
  shows "holds_finalizer (dc_key d) cl'"
proof -
  from assms(1) obtain x where x: "find_device_config (dc_key d) (cl_device_configs cl) = Some x"
    and cl': "cl' = cl\<lparr>cl_device_configs := gc_device_configs (replace_device_config
                 (\<lambda>y. d\<lparr>dc_conditions := dc_conditions y\<rparr>) (dc_key d) (cl_device_configs cl))\<rparr>"
    by (auto simp: client_simps split: option.splits)
  from find_device_config_SomeD [OF x] have "x \<in> set (cl_device_configs cl)" and "dc_key x = dc_key d"
    by simp_all
  then have "d\<lparr>dc_conditions := dc_conditions x\<rparr> \<in>
      set (replace_device_config (\<lambda>y. d\<lparr>dc_conditions := dc_conditions y\<rparr>) (dc_key d) (cl_device_configs cl))"
    by (force simp: replace_device_config_def)
  with assms(2) cl' show ?thesis
    by (auto simp: holds_finalizer_def gc_device_configs_def dc_key_def contains_deletion_finalizer_def)
qed

lemma add_deletion_finalizer_Inr_update:
  "add_deletion_finalizer dc cl = (Inr dc', cl') \<Longrightarrow> client_update_device_config dc' cl = (None, cl')"
  by (auto simp: add_deletion_finalizer_def Let_def split: option.splits prod.splits)

lemma add_deletion_finalizer_module_owned:
  assumes "add_deletion_finalizer dc cl = (a, cl')" and "module_owned cl" and "modules_wf cl"
  shows "module_owned cl' \<and> modules_wf cl'"
proof -
  have "cl' = snd (client_update_device_config (add_finalizer_to deletion_finalizer dc) cl)"
    using assms(1) by (auto simp: add_deletion_finalizer_def Let_def split: option.splits prod.splits)
  then have "module_owned cl'" using module_owned_update_holding [OF _ assms(2)] by simp
  moreover have "modules_wf cl'"
    using add_deletion_finalizer_dc_write [OF assms(1)] assms(3) by (rule dc_write_modules_wf)
  ultimately show ?thesis ..
qed

lemma normal_module_owned:
  assumes "module_owned cl" and "modules_wf cl" and "dc \<in> set (cl_device_configs cl)"
    and lab: "keeps_objects lab" and met: "keeps_objects met"
  shows "module_owned (snd (reconcile_normal (cluster_reconciler st mr lab met) dc cl)) \<and>
         modules_wf (snd (reconcile_normal (cluster_reconciler st mr lab met) dc cl))"
proof (cases "check_device_config_for_conflicting_node_selector dc cl")
  case (Some e)
  then show ?thesis using assms(1,2)
    by (simp add: reconcile_normal_def record_event_def module_owned_def modules_wf_def)
next
  case None
  show ?thesis
  proof (cases "contains_deletion_finalizer dc")
    case True
    with None have "reconcile_normal (cluster_reconciler st mr lab met) dc cl =
                      reconcile_stages (cluster_reconciler st mr lab met) dc cl"
      by (simp add: reconcile_normal_def)
    with stages_module_owned [OF assms(1,2) holds_finalizer_self [OF assms(3) True] lab met] show ?thesis
      by simp
  next
    case False
    obtain a s3 where af: "add_deletion_finalizer dc cl = (a, s3)" by fastforce
    from add_deletion_finalizer_module_owned [OF af assms(1,2)] have inv: "module_owned s3" "modules_wf s3"
      by simp_all
    show ?thesis
    proof (cases a)
      case (Inl e)
      with None False af inv show ?thesis by (simp add: reconcile_normal_def)
    next
      case (Inr dc')
      with af have "dc' = add_finalizer_to deletion_finalizer dc" by (simp add: add_deletion_finalizer_Inr)
      with af Inr have "holds_finalizer (dc_key dc') s3"
        using add_deletion_finalizer_Inr_update update_holds_finalizer by fastforce
      with stages_module_owned [OF inv _ lab met] None False af Inr show ?thesis
        by (simp add: reconcile_normal_def)
    qed
  qed
qed

lemma delete_module_owned:
  assumes "module_owned cl" and "modules_wf cl"
  shows "module_owned (snd (delete_device_config (cluster_reconciler st mr lab met) dc cl)) \<and>
         modules_wf (snd (delete_device_config (cluster_reconciler st mr lab met) dc cl))"
proof (cases "contains_deletion_finalizer dc")
  case False
  with assms show ?thesis by (simp add: delete_device_config_def)
next
  case True
  obtain r s2 where dm: "delete_module mr dc cl = (r, s2)" by fastforce
  show ?thesis
  proof (cases r)
    case (Some e)
    with dm have "s2 = cl" by (simp add: delete_module_error)
    with Some dm True assms show ?thesis by (simp add: delete_device_config_def)
  next
    case None
    with dm have s2: "s2 = cl\<lparr>cl_modules := (cl_modules cl)(module_key dc := None)\<rparr>"
      by (simp add: delete_module_ok)
    then have inv2: "module_owned s2" "modules_wf s2"
      using assms by (simp_all add: module_owned_del_module modules_wf_del)
    have gone: "cl_modules s2 (module_key (remove_finalizer_from deletion_finalizer dc)) = None"
      using s2 module_key_dc_key [OF remove_finalizer_from_key] by simp
    have "module_owned (snd (remove_deletion_finalizer dc s2))"
      unfolding remove_deletion_finalizer_def by (rule module_owned_update_released [OF gone inv2(1)])
    moreover have "modules_wf (snd (remove_deletion_finalizer dc s2))"
      using remove_deletion_finalizer_dc_write [OF prod.collapse [symmetric]] inv2(2)
      by (rule dc_write_modules_wf)
    ultimately show ?thesis using True None dm
      by (simp add: delete_device_config_def case_prod_unfold split: option.splits)
  qed
qed

lemma tick_module_owned:
  assumes "module_owned cl" and "modules_wf cl" and "keeps_objects lab" and "keeps_objects met"
  shows "module_owned (snd (cluster_tick st mr lab met req cl)) \<and> modules_wf (snd (cluster_tick st mr lab met req cl))"
proof (cases "client_get_device_config req cl")
  case (Inl e)
  with assms(1,2) show ?thesis by (simp add: cluster_tick_def reconcile_def)
next
  case (Inr dc)
  then have "dc \<in> set (cl_device_configs cl)"
    by (auto simp: client_simps split: option.splits dest: find_device_config_SomeD)
  with Inr normal_module_owned [OF assms(1,2) _ assms(3,4)] delete_module_owned [OF assms(1,2)] show ?thesis
    by (simp add: cluster_tick_def reconcile_def)
qed

lemma reachable_invariant:
  assumes "reachable st mr lab met cl" and "keeps_objects lab" and "keeps_objects met"
  shows "module_owned cl \<and> modules_wf cl"
  using assms(1)
proof (induction rule: reachable.induct)
  case (init cl)
  then show ?case by (simp add: module_owned_def modules_wf_def)
next
  case (tick cl req)
  then show ?case using tick_module_owned assms(2,3) by blast
next
  case (create cl d)
  then show ?case by (simp add: module_owned_user_create) (simp add: user_create_def modules_wf_def)
next
  case (update cl k sp)
  then show ?case by (simp add: module_owned_user_update_spec) (simp add: user_update_spec_def modules_wf_def)
next
  case (delete cl k)
  then show ?case by (simp add: module_owned_user_delete) (simp add: user_delete_def modules_wf_def)
next
  case (env cl ns fs now)
  then show ?case by (simp add: module_owned_env_change) (simp add: env_change_def modules_wf_def)
qed

text \<open>C15: In every state reached by controller ticks interleaved with users' creates, spec updates and deletes and with changes of nodes, faults and clock, every Module in the store has a stored DeviceConfig of its identity that holds the controller's finalizer, and Modules are stored under their own identity.\<close>

theorem reachable_module_owned:
  assumes "reachable st mr lab met cl" and "keeps_objects lab" and "keeps_objects met"
  shows "\<forall>k\<in>dom (cl_modules cl). \<exists>d\<in>set (cl_device_configs cl). module_key d = k \<and> contains_deletion_finalizer d"
  using reachable_invariant [OF assms] by (simp add: module_owned_def)

end
