(* ===== verification/TickProps.thy ===== *)
theory TickProps
  imports Reachable ModuleSpec
begin

text \<open>
  Properties of two consecutive ticks on the same request (spec P1). The
  first tick may add the finalizer and write conditions, which changes the
  stored DeviceConfig; what \<open>module.go\<close> reads of it, its identity and spec,
  and its deletion timestamp do not change, and the second tick reads a
  DeviceConfig that agrees with the first on them.
\<close>

definition same_identity :: "device_config \<Rightarrow> device_config \<Rightarrow> bool" where
  "same_identity a b \<longleftrightarrow>
     dc_spec a = dc_spec b \<and> om_name (dc_meta a) = om_name (dc_meta b) \<and>
     om_namespace (dc_meta a) = om_namespace (dc_meta b) \<and> om_uid (dc_meta a) = om_uid (dc_meta b) \<and>
     om_deletion_timestamp (dc_meta a) = om_deletion_timestamp (dc_meta b)"

text \<open>The DeviceConfig a Get of \<open>req\<close> returns agrees with \<open>dc\<close>.\<close>

definition reads_as :: "nsname \<Rightarrow> device_config \<Rightarrow> cluster \<Rightarrow> bool" where
  "reads_as req dc cl \<longleftrightarrow>
     (\<exists>d. find_device_config req (cl_device_configs cl) = Some d \<and> same_identity d dc)"

text \<open>The DeviceConfig under \<open>req\<close>, if there is one, agrees with \<open>dc\<close>.\<close>

definition reads_at_most :: "nsname \<Rightarrow> device_config \<Rightarrow> cluster \<Rightarrow> bool" where
  "reads_at_most req dc cl =
     (case find_device_config req (cl_device_configs cl) of None \<Rightarrow> True | Some d \<Rightarrow> same_identity d dc)"

subsection \<open>Lemmas\<close>

lemma same_identity_refl [simp]: "same_identity d d"
  by (simp add: same_identity_def)

lemma same_identity_add_finalizer [simp]: "same_identity (add_finalizer_to f dc) dc"
  by (simp add: same_identity_def add_finalizer_to_def)

lemma module_key_same_identity: "same_identity a b \<Longrightarrow> module_key a = module_key b"
  by (rule module_key_cong) (simp_all add: same_identity_def)

lemma find_replace_device_config:
  assumes "\<And>d. dc_key d = k' \<Longrightarrow> dc_key (f d) = dc_key d"
  shows "find_device_config k (replace_device_config f k' xs) =
           map_option (\<lambda>d. if dc_key d = k' then f d else d) (find_device_config k xs)"
  using assms by (induction xs) (auto simp: find_device_config_def replace_device_config_def)

lemma find_gc_device_configs:
  "find_device_config k xs = Some d \<Longrightarrow> om_deletion_timestamp (dc_meta d) = None \<Longrightarrow>
     find_device_config k (gc_device_configs xs) = Some d"
  by (induction xs) (auto simp: find_device_config_def gc_device_configs_def split: if_splits)

lemma reads_as_update:
  assumes "reads_as req dc cl" and "same_identity x dc" and "om_deletion_timestamp (dc_meta dc) = None"
  shows "reads_as req dc (snd (client_update_device_config x cl))"
proof -
  obtain d where d: "find_device_config req (cl_device_configs cl) = Some d" "same_identity d dc"
    using assms(1) by (auto simp: reads_as_def)
  let ?d' = "if dc_key d = dc_key x then x\<lparr>dc_conditions := dc_conditions d\<rparr> else d"
  have "find_device_config req (replace_device_config (\<lambda>y. x\<lparr>dc_conditions := dc_conditions y\<rparr>) (dc_key x)
          (cl_device_configs cl)) = Some ?d'"
    using d(1) by (subst find_replace_device_config) (simp_all add: dc_key_def)
  moreover have "same_identity ?d' dc" using d(2) assms(2) by (auto simp: same_identity_def)
  moreover then have "om_deletion_timestamp (dc_meta ?d') = None" using assms(3) by (simp add: same_identity_def)
  ultimately show ?thesis using assms(1)
    by (auto simp: client_simps reads_as_def dest: find_gc_device_configs split: option.splits)
qed

lemma reads_as_status_update:
  assumes "reads_as req dc cl"
  shows "reads_as req dc (snd (client_status_update_device_config x cl))"
proof -
  obtain d where d: "find_device_config req (cl_device_configs cl) = Some d" "same_identity d dc"
    using assms(1) by (auto simp: reads_as_def)
  let ?d' = "if dc_key d = dc_key x then d\<lparr>dc_conditions := dc_conditions x\<rparr> else d"
  have "find_device_config req (replace_device_config (\<lambda>y. y\<lparr>dc_conditions := dc_conditions x\<rparr>) (dc_key x)
          (cl_device_configs cl)) = Some ?d'"
    using d(1) by (subst find_replace_device_config) (simp_all add: dc_key_def)
  moreover have "same_identity ?d' dc" using d(2) by (auto simp: same_identity_def)
  ultimately show ?thesis using assms(1)
    by (auto simp: client_simps reads_as_def split: option.splits)
qed

lemma selected_nodes_same_view:
  "cl_faults a = cl_faults b \<Longrightarrow> cl_nodes a = cl_nodes b \<Longrightarrow>
     get_device_config_selected_nodes d a = get_device_config_selected_nodes d b"
  by (simp add: get_device_config_selected_nodes_def client_simps split: option.splits)

lemma check_against_same_view:
  assumes "cl_faults a = cl_faults b" and "cl_nodes a = cl_nodes b"
  shows "check_against mine ds a = check_against mine ds b"
  by (induction ds) (simp_all add: selected_nodes_same_view [OF assms] split: sum.splits)

text \<open>The validator sees only the DeviceConfigs, the nodes and the faults.\<close>

lemma check_same_view:
  assumes "cl_faults a = cl_faults b" and "cl_nodes a = cl_nodes b"
    and "cl_device_configs a = cl_device_configs b"
  shows "check_device_config_for_conflicting_node_selector d a = check_device_config_for_conflicting_node_selector d b"
  using assms check_against_same_view [OF assms(1,2)] selected_nodes_same_view [OF assms(1,2)]
  by (simp add: check_device_config_for_conflicting_node_selector_def client_simps split: option.splits sum.splits)

lemma reconcile_module_reads_as:
  assumes p: "(reads_as req dc t \<and> modules_wf t) \<and> cl_faults t = F"
  shows "(reads_as req dc (snd (reconcile_module st mr d t)) \<and> modules_wf (snd (reconcile_module st mr d t)))
          \<and> cl_faults (snd (reconcile_module st mr d t)) = F"
proof -
  obtain res t' where rm: "reconcile_module st mr d t = (res, t')" by fastforce
  from reconcile_module_effect [OF rm] p have "t' = t \<or> (\<exists>m. t' = t\<lparr>cl_modules := (cl_modules t)(module_key d \<mapsto> m)\<rparr>)"
    by blast
  then have "cl_device_configs t' = cl_device_configs t \<and> cl_faults t' = cl_faults t" by auto
  moreover have "modules_wf t'" using reconcile_module_modules_wf [OF rm] p by simp
  ultimately show ?thesis
    using p rm unfolding reads_as_def by simp
qed

lemma set_conditions_reads_as:
  assumes p: "(reads_as req dc t \<and> modules_wf t) \<and> cl_faults t = F"
  shows "(reads_as req dc (snd (set_conditions a b d rs m t)) \<and> modules_wf (snd (set_conditions a b d rs m t)))
          \<and> cl_faults (snd (set_conditions a b d rs m t)) = F"
proof -
  have "dc_write t (snd (set_conditions a b d rs m t))"
    by (rule set_conditions_dc_write [of a b d rs m t "fst (set_conditions a b d rs m t)"]) simp
  moreover have "reads_as req dc (snd (set_conditions a b d rs m t))"
    using p unfolding set_conditions_def Let_def by (simp add: reads_as_status_update)
  moreover have "modules_wf (snd (set_conditions a b d rs m t))"
    using p by (simp add: modules_wf_set_conditions)
  ultimately show ?thesis
    using p by (simp add: dc_write_def)
qed

lemma keeps_objects_reads_as:
  assumes p: "(reads_as req dc t \<and> modules_wf t) \<and> cl_faults t = F" and lab: "keeps_objects lab"
  shows "(reads_as req dc (snd (lab d t)) \<and> modules_wf (snd (lab d t))) \<and> cl_faults (snd (lab d t)) = F"
proof -
  from lab have "cl_modules (snd (lab d t)) = cl_modules t" "cl_device_configs (snd (lab d t)) = cl_device_configs t"
     "cl_faults (snd (lab d t)) = cl_faults t" unfolding keeps_objects_def by blast+
  with p show ?thesis unfolding reads_as_def modules_wf_def by simp
qed

lemma stages_reads_as:
  assumes "reads_as req dc s" and "modules_wf s" and lab: "keeps_objects lab" and met: "keeps_objects met"
  shows "(reads_as req dc (snd (reconcile_stages (cluster_reconciler st mr lab met) d s)) \<and>
          modules_wf (snd (reconcile_stages (cluster_reconciler st mr lab met) d s))) \<and>
         cl_faults (snd (reconcile_stages (cluster_reconciler st mr lab met) d s)) = cl_faults s"
proof (rule reconcile_stages_preserves [where P = "\<lambda>t. (reads_as req dc t \<and> modules_wf t) \<and> cl_faults t = cl_faults s"])
  show "(reads_as req dc s \<and> modules_wf s) \<and> cl_faults s = cl_faults s" using assms(1,2) by simp
qed (simp_all only: cluster_reconciler_fields set_conditions_ready_def set_conditions_errored_def,
     (rule reconcile_module_reads_as keeps_objects_reads_as [OF _ lab] keeps_objects_reads_as [OF _ met]
           set_conditions_reads_as, assumption)+)

lemma modules_wf_cong: "cl_modules a = cl_modules b \<Longrightarrow> modules_wf a = modules_wf b"
  by (simp add: modules_wf_def)

lemma same_identity_sym: "same_identity a b \<Longrightarrow> same_identity b a"
  by (simp add: same_identity_def)

lemma same_identity_trans: "same_identity a b \<Longrightarrow> same_identity b c \<Longrightarrow> same_identity a c"
  by (simp add: same_identity_def)

lemma reconcile_module_same_identity:
  "same_identity a b \<Longrightarrow> reconcile_module st r a = reconcile_module st r b"
  by (rule reconcile_module_cong) (simp_all add: same_identity_def)

lemma add_deletion_finalizer_Inl:
  "add_deletion_finalizer dc cl = (Inl e, cl') \<Longrightarrow> cl' = cl"
  by (auto simp: add_deletion_finalizer_def Let_def client_simps split: option.splits prod.splits)

lemma reads_as_add_finalizer:
  assumes "add_deletion_finalizer dc cl = (Inr dc', cl')" and "reads_as req dc cl"
    and "om_deletion_timestamp (dc_meta dc) = None"
  shows "reads_as req dc cl'"
proof -
  have "cl' = snd (client_update_device_config (add_finalizer_to deletion_finalizer dc) cl)"
    using assms(1) by (auto simp: add_deletion_finalizer_def Let_def split: option.splits prod.splits)
  with reads_as_update [OF assms(2) same_identity_add_finalizer assms(3)] show ?thesis by simp
qed

text \<open>After the stages the Modules are those the Module sub-reconciler left.\<close>

lemma stages_modules:
  assumes lab: "keeps_objects lab" and met: "keeps_objects met"
  shows "cl_modules (snd (reconcile_stages (cluster_reconciler st mr lab met) d a)) =
         cl_modules (snd (reconcile_module st mr d a))"
proof -
  obtain res a' where rm: "reconcile_module st mr d a = (res, a')" by fastforce
  let ?P = "\<lambda>t. cl_modules t = cl_modules a'"
  have tail: "?P (snd (run_stages [(reason_node_labeler_failed, lab), (reason_node_metrics_failed, met)] d a'))"
    by (rule run_stages_preserves) (use lab met in \<open>simp_all add: keeps_objects_def\<close>)
  obtain out s1 where rs: "run_stages (stages (cluster_reconciler st mr lab met)) d a = (out, s1)"
    by fastforce
  have p1: "?P s1" using rm tail rs by (cases res) (simp_all add: stages_def)
  have "?P (snd (set_conditions x y d rs m s1))" for x y rs m
    using p1 set_conditions_dc_write [of x y d rs m s1 "fst (set_conditions x y d rs m s1)"]
    by (simp add: dc_write_def)
  then show ?thesis using rm rs
    by (simp add: reconcile_stages_def set_conditions_ready_def set_conditions_errored_def case_prod_unfold
             split: option.splits)
qed

text \<open>The three outcomes of the normal path for the Modules.\<close>

lemma normal_tick_cases:
  assumes lab: "keeps_objects lab" and met: "keeps_objects met" and wf: "modules_wf t"
    and rd: "reads_as req dc t" and live: "om_deletion_timestamp (dc_meta dc) = None"
  shows "(\<exists>e. check_device_config_for_conflicting_node_selector dc t = Some e \<and>
            snd (reconcile_normal (cluster_reconciler st mr lab met) dc t) =
              record_event dc ''Warning'' reason_node_selector_conflict conflict_event_message t) \<or>
         snd (reconcile_normal (cluster_reconciler st mr lab met) dc t) = t \<or>
         (\<exists>d' a. same_identity d' dc \<and> cl_modules a = cl_modules t \<and> cl_faults a = cl_faults t \<and>
            cl_modules (snd (reconcile_normal (cluster_reconciler st mr lab met) dc t)) =
              cl_modules (snd (reconcile_module st mr d' a)) \<and>
            reads_as req dc (snd (reconcile_normal (cluster_reconciler st mr lab met) dc t)) \<and>
            modules_wf (snd (reconcile_normal (cluster_reconciler st mr lab met) dc t)) \<and>
            cl_faults (snd (reconcile_normal (cluster_reconciler st mr lab met) dc t)) = cl_faults t)"
    (is "?conf \<or> ?same \<or> ?run")
proof (cases "check_device_config_for_conflicting_node_selector dc t")
  case (Some e)
  then have ?conf by (simp add: reconcile_normal_def)
  then show ?thesis by blast
next
  case None
  let ?R = "cluster_reconciler st mr lab met"
  have run: ?run if st: "snd (reconcile_normal ?R dc t) = snd (reconcile_stages ?R d' a)"
    and si: "same_identity d' dc" and w: "dc_write t a" and ra: "reads_as req dc a" for d' a
  proof -
    have "modules_wf a" using w wf by (rule dc_write_modules_wf)
    from stages_reads_as [OF ra this lab met, of st mr d'] stages_modules [OF lab met, of st mr d' a] si w st
    show ?thesis by (auto simp: dc_write_def)
  qed
  show ?thesis
  proof (cases "contains_deletion_finalizer dc")
    case True
    with None have "snd (reconcile_normal ?R dc t) = snd (reconcile_stages ?R dc t)"
      by (simp add: reconcile_normal_def)
    from run [OF this same_identity_refl dc_write_refl rd] show ?thesis by blast
  next
    case False
    obtain x t2 where af: "add_deletion_finalizer dc t = (x, t2)" by fastforce
    show ?thesis
    proof (cases x)
      case (Inl e)
      with af None False have ?same by (simp add: reconcile_normal_def add_deletion_finalizer_Inl)
      then show ?thesis by blast
    next
      case (Inr dc')
      with af None False have "snd (reconcile_normal ?R dc t) = snd (reconcile_stages ?R dc' t2)"
        by (simp add: reconcile_normal_def)
      moreover have "same_identity dc' dc" using add_deletion_finalizer_Inr [of dc t dc' t2] af Inr by simp
      moreover have "reads_as req dc t2" using reads_as_add_finalizer af Inr rd live by simp
      ultimately have ?run using run add_deletion_finalizer_dc_write [OF af] by blast
      then show ?thesis by blast
    qed
  qed
qed

lemma same_identity_remove_finalizer [simp]: "same_identity (remove_finalizer_from f dc) dc"
  by (simp add: same_identity_def remove_finalizer_from_def)

lemma dc_key_remove_finalizer [simp]: "dc_key (remove_finalizer_from f dc) = dc_key dc"
  by (simp add: dc_key_def om_key_def remove_finalizer_from_def)

lemma reads_as_at_most: "reads_as req dc cl \<Longrightarrow> reads_at_most req dc cl"
  by (auto simp: reads_as_def reads_at_most_def)

lemma reads_at_most_update:
  assumes "reads_at_most req dc cl" and "same_identity x dc" and "dc_key x = req"
  shows "reads_at_most req dc (snd (client_update_device_config x cl))"
proof -
  have "same_identity d dc"
    if "d \<in> set (gc_device_configs (replace_device_config (\<lambda>y. x\<lparr>dc_conditions := dc_conditions y\<rparr>) req ys))"
      and "dc_key d = req" for d ys
    using that assms(2,3)
    by (auto simp: gc_device_configs_def replace_device_config_def same_identity_def dc_key_def split: if_splits)
  with assms show ?thesis
    by (auto simp: reads_at_most_def client_simps dest!: find_device_config_SomeD split: option.splits)
qed

text \<open>The two outcomes of the deletion path for the Modules.\<close>

lemma delete_tick_cases:
  assumes "dc_key dc = req" and "reads_at_most req dc t"
  shows "snd (delete_device_config (cluster_reconciler st mr lab met) dc t) = t \<or>
         (cl_modules (snd (delete_device_config (cluster_reconciler st mr lab met) dc t)) =
            (cl_modules t)(module_key dc := None) \<and>
          reads_at_most req dc (snd (delete_device_config (cluster_reconciler st mr lab met) dc t)))"
proof -
  obtain out t' where dd: "delete_device_config (cluster_reconciler st mr lab met) dc t = (out, t')"
    by fastforce
  from delete_device_config_released [OF dd] consider "t' = t"
    | t2 where "delete_module mr dc t = (None, t2)" "remove_deletion_finalizer dc t2 = (fst (remove_deletion_finalizer dc t2), t')"
    | e where "delete_module mr dc t = (Some e, t')"
    by auto
  then show ?thesis
  proof cases
    case 1
    with dd show ?thesis by simp
  next
    case (2 t2)
    from delete_module_ok [OF 2(1)] have t2: "t2 = t\<lparr>cl_modules := (cl_modules t)(module_key dc := None)\<rparr>" .
    have "t' = snd (client_update_device_config (remove_finalizer_from deletion_finalizer dc) t2)"
      using 2(2) by (metis remove_deletion_finalizer_def snd_conv)
    moreover have "reads_at_most req dc t2" using assms(2) t2 by (simp add: reads_at_most_def)
    ultimately have "reads_at_most req dc t'" using assms(1) by (simp add: reads_at_most_update)
    moreover have "cl_modules t' = cl_modules t2" using remove_deletion_finalizer_dc_write [OF 2(2)]
      by (simp add: dc_write_def)
    ultimately show ?thesis using dd t2 by simp
  next
    case (3 e)
    with dd show ?thesis by (simp add: delete_module_error)
  qed
qed

lemma tick_found_cases:
  "snd (cluster_tick st mr lab met req u) = u \<or>
   (\<exists>d. cl_faults u VGet KindDeviceConfig = None \<and> find_device_config req (cl_device_configs u) = Some d \<and>
        snd (cluster_tick st mr lab met req u) =
          snd (if om_deletion_timestamp (dc_meta d) \<noteq> None
               then delete_device_config (cluster_reconciler st mr lab met) d u
               else reconcile_normal (cluster_reconciler st mr lab met) d u))"
proof (cases "cl_faults u VGet KindDeviceConfig")
  case (Some f)
  then show ?thesis by (simp add: tick_get_fault)
next
  case None
  show ?thesis
  proof (cases "find_device_config req (cl_device_configs u)")
    case None
    with \<open>cl_faults u VGet KindDeviceConfig = None\<close> show ?thesis
      by (simp add: cluster_tick_def reconcile_def client_simps)
  next
    case (Some d)
    with tick_get_ok [OF \<open>cl_faults u VGet KindDeviceConfig = None\<close> Some, of st mr lab met]
      \<open>cl_faults u VGet KindDeviceConfig = None\<close>
    show ?thesis by (simp add: cluster_tick_def reconcile_found)
  qed
qed

text \<open>A second tick after a tick that deleted the Module leaves the Modules alone.\<close>

lemma tick_after_delete:
  assumes "reads_at_most req dc s" and "om_deletion_timestamp (dc_meta dc) \<noteq> None"
    and "cl_modules s (module_key dc) = None"
  shows "cl_modules (snd (cluster_tick st mr lab met req s)) = cl_modules s"
  using tick_found_cases [of st mr lab met req s]
proof
  assume "\<exists>d. cl_faults s VGet KindDeviceConfig = None \<and> find_device_config req (cl_device_configs s) = Some d \<and>
        snd (cluster_tick st mr lab met req s) =
          snd (if om_deletion_timestamp (dc_meta d) \<noteq> None
               then delete_device_config (cluster_reconciler st mr lab met) d s
               else reconcile_normal (cluster_reconciler st mr lab met) d s)"
  then obtain d where f: "find_device_config req (cl_device_configs s) = Some d" and
    t: "snd (cluster_tick st mr lab met req s) =
          snd (if om_deletion_timestamp (dc_meta d) \<noteq> None
               then delete_device_config (cluster_reconciler st mr lab met) d s
               else reconcile_normal (cluster_reconciler st mr lab met) d s)" by blast
  have si: "same_identity d dc" using assms(1) f by (simp add: reads_at_most_def)
  then have ts: "om_deletion_timestamp (dc_meta d) \<noteq> None" using assms(2) by (simp add: same_identity_def)
  have key: "module_key d = module_key dc" using si by (rule module_key_same_identity)
  have "reads_at_most req d s" using f by (simp add: reads_at_most_def)
  moreover have "dc_key d = req" using find_device_config_SomeD [OF f] by simp
  ultimately have "cl_modules (snd (delete_device_config (cluster_reconciler st mr lab met) d s)) = cl_modules s \<or>
      cl_modules (snd (delete_device_config (cluster_reconciler st mr lab met) d s)) = (cl_modules s)(module_key d := None)"
    using delete_tick_cases [of d req s st mr lab met] by auto
  moreover have "(cl_modules s)(module_key d := None) = cl_modules s"
    using assms(3) key by (simp add: fun_upd_idem)
  ultimately show ?thesis using t ts by auto
qed simp

text \<open>A second tick after a tick that ran the Module sub-reconciler leaves the Modules alone.\<close>

lemma tick_after_run:
  assumes lab: "keeps_objects lab" and met: "keeps_objects met"
    and rm: "reconcile_module st mr d' a = (res, a')" and wfa: "modules_wf a" and si': "same_identity d' dc"
    and rd: "reads_as req dc s" and wfs: "modules_wf s"
    and ms: "cl_modules s = cl_modules a'" and fs: "cl_faults s = cl_faults a"
    and live: "om_deletion_timestamp (dc_meta dc) = None"
  shows "cl_modules (snd (cluster_tick st mr lab met req s)) = cl_modules s"
  using tick_found_cases [of st mr lab met req s]
proof
  assume "\<exists>d. cl_faults s VGet KindDeviceConfig = None \<and> find_device_config req (cl_device_configs s) = Some d \<and>
        snd (cluster_tick st mr lab met req s) =
          snd (if om_deletion_timestamp (dc_meta d) \<noteq> None
               then delete_device_config (cluster_reconciler st mr lab met) d s
               else reconcile_normal (cluster_reconciler st mr lab met) d s)"
  then obtain d where f: "find_device_config req (cl_device_configs s) = Some d" and
    t: "snd (cluster_tick st mr lab met req s) =
          snd (if om_deletion_timestamp (dc_meta d) \<noteq> None
               then delete_device_config (cluster_reconciler st mr lab met) d s
               else reconcile_normal (cluster_reconciler st mr lab met) d s)" by blast
  have si: "same_identity d dc" using rd f by (auto simp: reads_as_def)
  then have ld: "om_deletion_timestamp (dc_meta d) = None" using live by (simp add: same_identity_def)
  with t have t': "snd (cluster_tick st mr lab met req s) = snd (reconcile_normal (cluster_reconciler st mr lab met) d s)"
    by simp
  have "reads_as req d s" using f by (simp add: reads_as_def)
  from normal_tick_cases [OF lab met wfs this ld, of st mr] show ?thesis
  proof (elim disjE exE conjE)
    fix d'' b
    assume si'': "same_identity d'' d" and mb: "cl_modules b = cl_modules s" and fb: "cl_faults b = cl_faults s"
      and m2: "cl_modules (snd (reconcile_normal (cluster_reconciler st mr lab met) d s)) =
                 cl_modules (snd (reconcile_module st mr d'' b))"
    have "same_identity d'' d'" using si'' si si' by (blast intro: same_identity_trans same_identity_sym)
    then have "reconcile_module st mr d'' = reconcile_module st mr d'" by (rule reconcile_module_same_identity)
    moreover have "reconcile_module st mr d' b = (res, b)"
      using rm wfa by (rule reconcile_module_settled) (simp_all add: mb ms fb fs)
    ultimately show ?thesis using t' m2 mb by simp
  qed (simp_all add: t' record_event_def)
qed simp

text \<open>A second tick after a tick that met a conflict meets it again.\<close>

lemma tick_after_conflict:
  assumes "cl_faults cl VGet KindDeviceConfig = None" and f: "find_device_config req (cl_device_configs cl) = Some dc"
    and live: "om_deletion_timestamp (dc_meta dc) = None"
    and c: "check_device_config_for_conflicting_node_selector dc cl = Some e"
  shows "cl_modules (snd (cluster_tick st mr lab met req (record_event dc w rs m cl))) = cl_modules cl"
proof -
  let ?s = "record_event dc w rs m cl"
  have view: "cl_faults ?s = cl_faults cl" "cl_nodes ?s = cl_nodes cl" "cl_device_configs ?s = cl_device_configs cl"
    by (simp_all add: record_event_def)
  have "rc_get (cluster_reconciler st mr lab met) req ?s = (Inr dc, ?s)"
    using assms(1) f view by (intro tick_get_ok) simp_all
  moreover have "check_device_config_for_conflicting_node_selector dc ?s = Some e"
    using c check_same_view [OF view] by simp
  ultimately show ?thesis using live
    by (simp add: cluster_tick_def reconcile_found reconcile_normal_def record_event_def)
qed

text \<open>C11: Idempotence (spec P1): a second tick on the same request, with no change of the store in between, leaves the Modules as the first tick left them, whatever the first tick did, provided the NodeLabeler and NodeMetrics sub-reconcilers write neither Modules nor DeviceConfigs.\<close>

theorem tick_idempotent_modules:
  assumes lab: "keeps_objects lab" and met: "keeps_objects met" and wf: "modules_wf cl"
  shows "cl_modules (snd (cluster_tick st mr lab met req (snd (cluster_tick st mr lab met req cl)))) =
         cl_modules (snd (cluster_tick st mr lab met req cl))"
  using tick_found_cases [of st mr lab met req cl]
proof
  assume "\<exists>d. cl_faults cl VGet KindDeviceConfig = None \<and> find_device_config req (cl_device_configs cl) = Some d \<and>
        snd (cluster_tick st mr lab met req cl) =
          snd (if om_deletion_timestamp (dc_meta d) \<noteq> None
               then delete_device_config (cluster_reconciler st mr lab met) d cl
               else reconcile_normal (cluster_reconciler st mr lab met) d cl)"
  then obtain dc where g: "cl_faults cl VGet KindDeviceConfig = None"
    and f: "find_device_config req (cl_device_configs cl) = Some dc" and
    t: "snd (cluster_tick st mr lab met req cl) =
          snd (if om_deletion_timestamp (dc_meta dc) \<noteq> None
               then delete_device_config (cluster_reconciler st mr lab met) dc cl
               else reconcile_normal (cluster_reconciler st mr lab met) dc cl)" by blast
  have rd: "reads_as req dc cl" using f by (simp add: reads_as_def)
  show ?thesis
  proof (cases "om_deletion_timestamp (dc_meta dc) = None")
    case False
    have "dc_key dc = req" using find_device_config_SomeD [OF f] by simp
    from delete_tick_cases [OF this reads_as_at_most [OF rd], of st mr lab met] False t show ?thesis
      by (auto intro: tick_after_delete)
  next
    case live: True
    from normal_tick_cases [OF lab met wf rd live, of st mr] live t show ?thesis
    proof (elim disjE exE conjE)
      fix e assume "check_device_config_for_conflicting_node_selector dc cl = Some e"
        and "snd (reconcile_normal (cluster_reconciler st mr lab met) dc cl) =
               record_event dc ''Warning'' reason_node_selector_conflict conflict_event_message cl"
      with tick_after_conflict [OF g f live] live t show ?thesis by (simp add: record_event_def)
    next
      fix d' a
      assume si: "same_identity d' dc" and ma: "cl_modules a = cl_modules cl" and fa: "cl_faults a = cl_faults cl"
        and m1: "cl_modules (snd (reconcile_normal (cluster_reconciler st mr lab met) dc cl)) =
                   cl_modules (snd (reconcile_module st mr d' a))"
        and r1: "reads_as req dc (snd (reconcile_normal (cluster_reconciler st mr lab met) dc cl))"
        and w1: "modules_wf (snd (reconcile_normal (cluster_reconciler st mr lab met) dc cl))"
        and f1: "cl_faults (snd (reconcile_normal (cluster_reconciler st mr lab met) dc cl)) = cl_faults cl"
      obtain res a' where rm: "reconcile_module st mr d' a = (res, a')" by fastforce
      have "modules_wf a" using wf modules_wf_cong [OF ma] by simp
      from tick_after_run [OF lab met rm this si r1 w1 _ _ live] m1 rm f1 fa live t show ?thesis by simp
    qed simp
  qed
qed simp

end
