(* ===== verification/TickStatus.thy ===== *)
theory TickStatus
  imports TickProps
begin

text \<open>
  The conditions a tick leaves on the DeviceConfig under the request (spec
  P4). A tick whose Module, NodeLabeler or NodeMetrics stage fails records
  Errored true when the status write goes through, and, since the conditions
  updater preserves the other conditions (spec 4.7), leaves Ready as the
  DeviceConfig the tick read had it: a Ready true from an earlier tick stays,
  contrary to spec P4. A tick that fails before the stages (the finalizer
  cannot be added) writes no condition at all.
\<close>

text \<open>The status of the condition of type \<open>t\<close> on the DeviceConfig stored under \<open>req\<close>.\<close>

definition condition_status_of :: "nsname \<Rightarrow> string \<Rightarrow> cluster \<Rightarrow> condition_status option" where
  "condition_status_of req t cl =
     (case find_device_config req (cl_device_configs cl) of
        None \<Rightarrow> None
      | Some d \<Rightarrow> map_option cond_status (find_status_condition (dc_conditions d) t))"

subsection \<open>Lemmas\<close>

lemma dc_key_conditions_update [simp]: "dc_key (d\<lparr>dc_conditions := cs\<rparr>) = dc_key d"
  by (simp add: dc_key_def)

lemma find_set_status_condition_status:
  "map_option cond_status (find_status_condition (set_status_condition now c cs) t) =
     (if t = cond_type c then Some (cond_status c) else map_option cond_status (find_status_condition cs t))"
  by (induction cs) auto

lemma new_condition_fields [simp]:
  "cond_type (new_condition t st rs m g) = t" "cond_status (new_condition t st rs m g) = st"
  by (simp_all add: new_condition_def)

lemma set_conditions_status:
  assumes "cl_faults s VStatusUpdate KindDeviceConfig = None"
    and "find_device_config (dc_key d) (cl_device_configs s) = Some d0"
  shows "condition_status_of (dc_key d) t' (snd (set_conditions t b d rs m s)) =
           (if t' = t then Some b else map_option cond_status (find_status_condition (dc_conditions d) t'))"
proof -
  let ?cs = "set_status_condition (cl_clock s) (new_condition t b rs m (om_generation (dc_meta d))) (dc_conditions d)"
  have "find_device_config (dc_key d) (cl_device_configs (snd (set_conditions t b d rs m s))) =
          Some (d0\<lparr>dc_conditions := ?cs\<rparr>)"
    using assms find_device_config_SomeD [OF assms(2)] unfolding set_conditions_def Let_def
    by (simp add: client_simps) (subst find_replace_device_config, simp_all)
  then show ?thesis
    by (simp add: condition_status_of_def find_set_status_condition_status)
qed

text \<open>The stages keep the DeviceConfigs and the fault table.\<close>

lemma run_stages_keeps:
  assumes lab: "keeps_objects lab" and met: "keeps_objects met" and "modules_wf s"
    and "run_stages (stages (cluster_reconciler st mr lab met)) d s = (out, s1)"
  shows "cl_faults s1 = cl_faults s \<and> cl_device_configs s1 = cl_device_configs s"
proof -
  let ?P = "\<lambda>t. (cl_faults t = cl_faults s \<and> cl_device_configs t = cl_device_configs s) \<and> modules_wf t"
  have rm: "?P (snd (reconcile_module st mr d t))" if "?P t" for t
  proof -
    obtain res t' where r: "reconcile_module st mr d t = (res, t')" by fastforce
    from reconcile_module_effect [OF r] reconcile_module_modules_wf [OF r] that r show ?thesis by auto
  qed
  have sub: "?P (snd (f d t))" if "keeps_objects f" "?P t" for f t
    using that by (simp add: keeps_objects_def modules_wf_def)
  have "\<forall>(reason, f)\<in>set (stages (cluster_reconciler st mr lab met)). \<forall>t. ?P t \<longrightarrow> ?P (snd (f d t))"
    using rm sub [OF lab] sub [OF met] by (simp add: stages_def)
  then have "?P (snd (run_stages (stages (cluster_reconciler st mr lab met)) d s))"
    by (rule run_stages_preserves) (simp add: assms(3))
  with assms(4) show ?thesis by simp
qed

text \<open>A failing stage ends with the Errored condition written.\<close>

lemma stage_error_errored:
  assumes "reconcile_stages (cluster_reconciler st mr lab met) d s = ((res, Some e), s')"
    and "keeps_objects lab" and "keeps_objects met" and "modules_wf s"
    and "cl_faults s VStatusUpdate KindDeviceConfig = None"
    and "find_device_config (dc_key d) (cl_device_configs s) = Some d0"
  shows "condition_status_of (dc_key d) condition_errored s' = Some ConditionTrue \<and>
         condition_status_of (dc_key d) condition_ready s' =
           map_option cond_status (find_status_condition (dc_conditions d) condition_ready)"
proof -
  from reconcile_stages_error [OF assms(1)] obtain reason s1 w where
    rs: "run_stages (stages (cluster_reconciler st mr lab met)) d s = (Some (reason, e), s1)" and
    se: "set_conditions_errored d reason (error_string e) s1 = (w, s')"
    by auto
  from run_stages_keeps [OF assms(2-4) rs] assms(5,6)
  have "cl_faults s1 VStatusUpdate KindDeviceConfig = None"
    and "find_device_config (dc_key d) (cl_device_configs s1) = Some d0" by simp_all
  note st = set_conditions_status [OF this, of _ condition_errored ConditionTrue reason "error_string e"]
  have "condition_ready \<noteq> condition_errored" by (simp add: condition_ready_def condition_errored_def)
  with st [of condition_errored] st [of condition_ready] se show ?thesis
    by (simp add: set_conditions_errored_def)
qed

lemma add_deletion_finalizer_ok:
  assumes "cl_faults cl VUpdate KindDeviceConfig = None"
    and "find_device_config (dc_key dc) (cl_device_configs cl) = Some d0"
  shows "fst (add_deletion_finalizer dc cl) = Inr (add_finalizer_to deletion_finalizer dc)"
proof -
  have "dc_key (add_finalizer_to deletion_finalizer dc) = dc_key dc"
    by (simp add: dc_key_def om_key_def)
  with assms show ?thesis
    by (simp add: add_deletion_finalizer_def Let_def client_simps)
qed

subsection \<open>The conditions after a failed stage\<close>

text \<open>C18: The conditions a failing tick leaves (spec P4, with the conditions updater of spec 4.7): when a tick on a DeviceConfig without deletion timestamp returns an error and the store answers the DeviceConfig's Get, Update and status Update, the DeviceConfig stored under the request has Errored true, and its Ready condition is the one the DeviceConfig read at the start of the tick had, so a Ready true from an earlier tick stays true.\<close>

theorem tick_error_errored:
  assumes tick: "cluster_tick st mr lab met req cl = ((res, Some e), cl')"
    and found: "find_device_config req (cl_device_configs cl) = Some dc"
    and live: "om_deletion_timestamp (dc_meta dc) = None"
    and get: "cl_faults cl VGet KindDeviceConfig = None"
    and upd: "cl_faults cl VUpdate KindDeviceConfig = None"
    and stu: "cl_faults cl VStatusUpdate KindDeviceConfig = None"
    and lab: "keeps_objects lab" and met: "keeps_objects met" and wf: "modules_wf cl"
  shows "condition_status_of req condition_errored cl' = Some ConditionTrue \<and>
         condition_status_of req condition_ready cl' =
           map_option cond_status (find_status_condition (dc_conditions dc) condition_ready)"
proof -
  let ?R = "cluster_reconciler st mr lab met"
  have key: "dc_key dc = req" using find_device_config_SomeD [OF found] by simp
  have normal: "reconcile_normal ?R dc cl = ((res, Some e), cl')"
    using tick_get_ok [OF get found, of st mr lab met] tick live by (simp add: cluster_tick_def reconcile_found)
  have "check_device_config_for_conflicting_node_selector dc cl = None"
  proof (rule ccontr)
    assume "check_device_config_for_conflicting_node_selector dc cl \<noteq> None"
    with normal show False by (auto simp: reconcile_normal_def)
  qed
  then have "rc_check_conflicts ?R dc cl = (None, cl)" by simp
  from reconcile_normal_admitted [OF normal this] consider
      "reconcile_stages ?R dc cl = ((res, Some e), cl')"
    | dc' s3 where "add_deletion_finalizer dc cl = (Inr dc', s3)" "reconcile_stages ?R dc' s3 = ((res, Some e), cl')"
    | e' where "add_deletion_finalizer dc cl = (Inl e', cl')"
    by auto
  then show ?thesis
  proof cases
    case 1
    from stage_error_errored [OF 1 lab met wf stu, of dc] found key show ?thesis by simp
  next
    case (2 dc' s3)
    have w: "dc_write cl s3" using add_deletion_finalizer_dc_write [OF 2(1)] .
    have "reads_as req dc s3" using reads_as_add_finalizer [OF 2(1)] found live by (simp add: reads_as_def)
    then obtain d0 where d0: "find_device_config req (cl_device_configs s3) = Some d0" by (auto simp: reads_as_def)
    have k': "dc_key dc' = req" using add_deletion_finalizer_Inr [OF 2(1)] key by (simp add: dc_key_def om_key_def)
    have "modules_wf s3" using w wf by (rule dc_write_modules_wf)
    moreover have "dc_conditions dc' = dc_conditions dc"
      using add_deletion_finalizer_Inr [OF 2(1)] by (simp add: add_finalizer_to_def)
    ultimately show ?thesis using stage_error_errored [OF 2(2) lab met] w stu d0 k' by (simp add: dc_write_def)
  next
    case (3 e')
    have "fst (add_deletion_finalizer dc cl) = Inr (add_finalizer_to deletion_finalizer dc)"
      using add_deletion_finalizer_ok [OF upd, of dc dc] found key by simp
    with 3 show ?thesis by simp
  qed
qed

end
