(* ===== verification/ClusterTest.thy ===== *)
theory ClusterTest
  imports TickStatus ModuleTest
begin

text \<open>
  Concrete runs of the controller against a store, which show that the
  hypotheses of the end-to-end theorems of \<open>Cluster.thy\<close>,
  \<open>Reachable.thy\<close>, \<open>TickProps.thy\<close> and \<open>TickStatus.thy\<close> hold together:
  a DeviceConfig reconciled for the first time and then again, a deleted
  DeviceConfig whose Module is removed before its finalizer, a Ready
  DeviceConfig whose Module Get fails, and a DeviceConfig whose finalizer
  cannot be added. The NodeLabeler and NodeMetrics sub-reconcilers are stubs
  that succeed without writing.
\<close>

definition idle_sub :: sub_reconciler where
  "idle_sub dc cl = (None, cl)"

definition demo_dc :: device_config where
  "demo_dc = module_test_dc_with_spec"

definition demo_cluster :: cluster where
  "demo_cluster = empty_cluster\<lparr>cl_device_configs := [demo_dc]\<rparr>"

definition demo_tick :: "cluster \<Rightarrow> cluster tick" where
  "demo_tick cl = cluster_tick test_settings module_test_reconciler idle_sub idle_sub (dc_key demo_dc) cl"

definition deleted_demo_dc :: device_config where
  "deleted_demo_dc =
     demo_dc\<lparr>dc_meta := (dc_meta demo_dc)\<lparr>om_deletion_timestamp := Some 1, om_finalizers := [deletion_finalizer]\<rparr>\<rparr>"

definition deleting_cluster :: cluster where
  "deleting_cluster =
     empty_cluster\<lparr>cl_device_configs := [deleted_demo_dc],
                   cl_modules := [module_key demo_dc \<mapsto> new_module demo_dc]\<rparr>"

text \<open>A store whose DeviceConfig Update fails, as in the case "an add finalizer error occurs".\<close>

definition update_failing_cluster :: cluster where
  "update_failing_cluster = failing VUpdate KindDeviceConfig (FaultOther ''some-error'') demo_cluster"

text \<open>
  The DeviceConfig after an earlier successful tick (Ready true, finalizer
  held), in a store whose Module Get now fails.
\<close>

definition ready_dc :: device_config where
  "ready_dc = (add_finalizer_to deletion_finalizer demo_dc)
                \<lparr>dc_conditions := [new_condition condition_ready ConditionTrue reason_reconciled ''ok'' 0]\<rparr>"

definition ready_module_failing_cluster :: cluster where
  "ready_module_failing_cluster =
     failing VGet KindModule (FaultOther ''some-error'') (empty_cluster\<lparr>cl_device_configs := [ready_dc]\<rparr>)"

lemmas cluster_eval = demo_tick_def cluster_tick_def reconcile_def reconcile_normal_def reconcile_stages_def
  stages_def delete_device_config_def remove_deletion_finalizer_def remove_finalizer_from_def
  check_device_config_for_conflicting_node_selector_def get_device_config_selected_nodes_def
  contains_duplicates_def conflict_error_def add_deletion_finalizer_def add_finalizer_to_def
  contains_deletion_finalizer_def set_conditions_ready_def set_conditions_def idle_sub_def
  find_device_config_def dc_key_def gc_device_configs_def replace_device_config_def
  demo_dc_def demo_cluster_def deleted_demo_dc_def deleting_cluster_def holds_finalizer_def
  ready_dc_def update_failing_cluster_def ready_module_failing_cluster_def

lemma keeps_objects_idle_sub: "keeps_objects idle_sub"
  by (simp add: keeps_objects_def idle_sub_def)

theorem tick_module_exists_witness:
  "fst (demo_tick demo_cluster) = (no_requeue, None) \<and>
   (\<exists>m. cl_modules (snd (demo_tick demo_cluster)) (module_key demo_dc) = Some m \<and>
        ms_selector (mod_spec m) = (node_selector (dc_spec demo_dc))(''habana.ai/hpu.gaudi.present'' \<mapsto> ''true'') \<and>
        (\<exists>av. controller_ref av device_config_kind (dc_meta demo_dc) \<in> set (om_owner_references (mod_meta m))))"
  using tick_module_exists [of test_settings module_test_reconciler idle_sub idle_sub "dc_key demo_dc"
                              demo_cluster no_requeue "snd (demo_tick demo_cluster)" demo_dc]
  by (simp add: cluster_eval module_eval module_test_defs client_simps keeps_objects_idle_sub modules_wf_def)

theorem tick_deletion_barrier_witness:
  "holds_finalizer (dc_key demo_dc) deleting_cluster \<and>
   \<not> holds_finalizer (dc_key demo_dc) (snd (demo_tick deleting_cluster)) \<and>
   cl_modules (snd (demo_tick deleting_cluster)) (module_key deleted_demo_dc) = None"
  using tick_deletion_barrier [of test_settings module_test_reconciler idle_sub idle_sub "dc_key demo_dc"
                                 deleting_cluster "fst (demo_tick deleting_cluster)" "snd (demo_tick deleting_cluster)"]
  by (simp add: cluster_eval module_eval module_test_defs client_simps keeps_objects_idle_sub modules_wf_def
                delete_module_def)

lemma demo_reachable:
  "reachable test_settings module_test_reconciler idle_sub idle_sub (snd (demo_tick demo_cluster))"
  unfolding demo_tick_def
  by (rule reachable.tick, rule reachable.init) (simp add: demo_cluster_def empty_cluster_def)

lemma demo_tick_module:
  "cl_modules (snd (demo_tick demo_cluster)) (module_key demo_dc) =
     Some (the (cl_modules (snd (demo_tick demo_cluster)) (module_key demo_dc)))"
  by (simp add: cluster_eval module_eval module_test_defs client_simps)

theorem reachable_module_owned_witness:
  "reachable test_settings module_test_reconciler idle_sub idle_sub (snd (demo_tick demo_cluster)) \<and>
   cl_modules (snd (demo_tick demo_cluster)) (module_key demo_dc) \<noteq> None \<and>
   (\<exists>d\<in>set (cl_device_configs (snd (demo_tick demo_cluster))).
      module_key d = module_key demo_dc \<and> contains_deletion_finalizer d)"
  using reachable_module_owned [OF demo_reachable keeps_objects_idle_sub keeps_objects_idle_sub]
    demo_reachable demo_tick_module by (metis domI option.distinct(1))

theorem set_status_condition_types_unique_witness:
  "types_unique [] \<and>
   types_unique (set_status_condition 3 (new_condition condition_ready ConditionTrue ''Reconciled'' ''ok'' 1) [])"
  using set_status_condition_types_unique [of "[]" 3 "new_condition condition_ready ConditionTrue ''Reconciled'' ''ok'' 1"]
  by (simp add: types_unique_def)

theorem finalizer_once_add_witness:
  "finalizer_once demo_dc \<and> finalizer_once (add_finalizer_to deletion_finalizer demo_dc)"
  using finalizer_once_add [of demo_dc]
  by (simp add: finalizer_once_def demo_dc_def module_test_defs)

theorem tick_idempotent_modules_witness:
  "keeps_objects idle_sub \<and> modules_wf demo_cluster \<and>
   cl_modules (snd (demo_tick demo_cluster)) (module_key demo_dc) \<noteq> None \<and>
   cl_modules (snd (demo_tick (snd (demo_tick demo_cluster)))) = cl_modules (snd (demo_tick demo_cluster))"
  using tick_idempotent_modules [OF keeps_objects_idle_sub keeps_objects_idle_sub,
                                 of demo_cluster test_settings module_test_reconciler "dc_key demo_dc"]
    keeps_objects_idle_sub demo_tick_module
  by (simp add: demo_tick_def modules_wf_def demo_cluster_def empty_cluster_def) blast

theorem tick_error_errored_witness:
  "fst (demo_tick ready_module_failing_cluster) = (no_requeue, Some (Plain ''some-error'')) \<and>
   condition_status_of (dc_key demo_dc) condition_errored (snd (demo_tick ready_module_failing_cluster)) =
     Some ConditionTrue \<and>
   condition_status_of (dc_key demo_dc) condition_ready (snd (demo_tick ready_module_failing_cluster)) =
     Some ConditionTrue"
proof -
  have tick: "demo_tick ready_module_failing_cluster =
                ((no_requeue, Some (Plain ''some-error'')), snd (demo_tick ready_module_failing_cluster))"
    by (simp add: cluster_eval module_eval module_test_defs client_simps case_prod_unfold)
  have f: "find_device_config (dc_key demo_dc) (cl_device_configs ready_module_failing_cluster) = Some ready_dc"
    and live: "om_deletion_timestamp (dc_meta ready_dc) = None"
    and faults: "cl_faults ready_module_failing_cluster VGet KindDeviceConfig = None"
      "cl_faults ready_module_failing_cluster VUpdate KindDeviceConfig = None"
      "cl_faults ready_module_failing_cluster VStatusUpdate KindDeviceConfig = None"
    and wf: "modules_wf ready_module_failing_cluster"
    and ready: "map_option cond_status (find_status_condition (dc_conditions ready_dc) condition_ready) =
                  Some ConditionTrue"
    by (simp_all add: ready_module_failing_cluster_def ready_dc_def empty_cluster_def failing_def no_faults_def
                      find_device_config_def modules_wf_def demo_dc_def module_test_defs dc_key_def
                      add_finalizer_to_def new_condition_def om_key_def)
  have "fst (demo_tick ready_module_failing_cluster) = (no_requeue, Some (Plain ''some-error''))"
    by (subst tick) simp
  with tick_error_errored [OF tick [unfolded demo_tick_def] f live faults
                              keeps_objects_idle_sub keeps_objects_idle_sub wf] ready
  show ?thesis unfolding demo_tick_def by simp
qed

text \<open>
  When adding the finalizer fails the tick returns the error and writes no
  condition: spec P4's Errored true does not hold after this error.
\<close>

theorem tick_add_finalizer_error_no_condition:
  "fst (demo_tick update_failing_cluster) = (no_requeue, Some (Plain ''some-error'')) \<and>
   condition_status_of (dc_key demo_dc) condition_errored (snd (demo_tick update_failing_cluster)) = None"
  by (simp add: cluster_eval module_eval module_test_defs client_simps condition_status_of_def)

end
