(* ===== verification/Spec2Isabelle.thy ===== *)
theory Spec2Isabelle
  imports ControllerTest NodeSelectorTest ClusterTest
begin

text \<open>
  \<^bold>\<open>Verification development of the Habana AI operator.\<close>

  \<^bold>\<open>The program.\<close> The operator reconciles a \<open>DeviceConfig\<close> custom resource
  into a Kernel Module Management \<open>Module\<close> that loads the Habana driver and
  runs the device plugin on the selected nodes. One reconcile tick
  (\<open>controllers/deviceconfig_controller.go\<close>) reads the DeviceConfig; if it
  is being deleted, it deletes the Module through the Module sub-reconciler
  and only then removes its finalizer; otherwise it asks the node-selector
  validator whether another DeviceConfig selects a common node (a conflict
  gives a warning event and no error), adds the finalizer, runs the Module,
  NodeLabeler and NodeMetrics sub-reconcilers in this order until one fails,
  and writes one condition, Ready or Errored. The only shared state is the
  object store. Of this program the repository holds the Module
  sub-reconciler \<open>src/internal/module/module.go\<close> and the tests
  \<open>module_test.go\<close>, \<open>deviceconfig_controller_test.go\<close> and
  \<open>nodeselector_test.go\<close>; the other parts are modelled from \<open>spec.md\<close>.

  \<^bold>\<open>Theories and correspondence to the code.\<close>
  \<^item> \<open>Prelude\<close>: shared type synonyms, the collections \<open>client_simps\<close> and
    \<open>builder_defs\<close>, generic lemmas on maps, lists and substrings.
  \<^item> \<open>Api\<close>: Go errors (\<open>%v\<close> flattens, \<open>%w\<close> wraps, \<open>IsNotFound\<close> follows
    \<open>%w\<close>), object metadata, owner references and
    \<open>ctrl.SetControllerReference\<close>.
  \<^item> \<open>Types\<close>: DeviceConfig, conditions, nodes, settings and the KMM Module in
    the shape \<open>module.go\<close> builds it.
  \<^item> \<open>Store\<close>: the object store as a record \<open>cluster\<close> (DeviceConfigs, Modules
    by identity, nodes, events, clock, and a fault table that injects the
    mocks' errors), the client's Get/List/Create/Update/Status().Update/
    Patch/Delete and \<open>controllerutil.CreateOrPatch\<close>.
  \<^item> \<open>Module\<close>: \<open>module.go\<close> line by line: the interface
    \<open>Reconciler\<close> (record \<open>module_iface\<close>, implemented by
    \<open>module_reconciler_iface\<close>), \<open>GetModuleName\<close> (\<open>get_module_name\<close>),
    \<open>ReconcileModule\<close> (\<open>reconcile_module\<close>), \<open>DeleteModule\<close>
    (\<open>delete_module\<close>), \<open>SetDesiredModule\<close> (\<open>set_desired_module\<close>)
    and the builders; each method takes the store and returns its error and
    the new store.
  \<^item> \<open>ModuleSpec\<close>: the abstract contract \<open>ensure_module\<close> on the map of
    Modules and the refinement of ReconcileModule to it; what re-running
    ReconcileModule or DeleteModule does; the owner references
    SetDesiredModule keeps.
  \<^item> \<open>ModuleTest\<close>: the fixtures and cases of \<open>module_test.go\<close>.
  \<^item> \<open>Controller\<close>: the tick \<open>reconcile\<close> over a record \<open>'s reconciler\<close> of
    collaborator functions, the gomock mocks of the controller test as a
    call-logging \<open>mock_reconciler\<close>, and the spec's order of calls as the
    automaton \<open>proto_next\<close>.
  \<^item> \<open>ControllerTest\<close>: every case of \<open>deviceconfig_controller_test.go\<close>
    with its exact call sequence.
  \<^item> \<open>Finalizers\<close>, \<open>Conditions\<close>, \<open>NodeSelector\<close> (with
    \<open>NodeSelectorTest\<close>): the finalizer updater, the conditions updater
    (\<open>meta.SetStatusCondition\<close>) and the validator, from the spec.
  \<^item> \<open>Cluster\<close>: the tick with its collaborators instantiated by the concrete
    models (\<open>cluster_reconciler\<close>, \<open>cluster_tick\<close>); the Module
    sub-reconciler is called through \<open>module_reconciler_iface\<close>.
  \<^item> \<open>TickProps\<close>: two ticks on one request (spec P1): what the first
    tick leaves of the DeviceConfig module.go reads, and that the second tick
    writes no Module.
  \<^item> \<open>TickStatus\<close>: the conditions a failing tick leaves (spec P4).
  \<^item> \<open>Reachable\<close>: the inductive set \<open>reachable\<close> of stores reached from a
    store without Modules by ticks interleaved with users' creates, spec
    updates and deletes and with changes of nodes, faults and clock.
  \<^item> \<open>ClusterTest\<close>: concrete runs that witness the end-to-end theorems.

  \<^bold>\<open>What is proved.\<close> For \<open>module.go\<close>: a successful ReconcileModule leaves
  the desired Module with the DeviceConfig as its one controller, is
  idempotent, writes only its own Module, never takes over a Module another
  object controls, and fails without writing; when the store answers it
  refines \<open>ensure_module\<close>; DeleteModule treats an absent Module as success
  and is idempotent; SetDesiredModule's outcome, the owner references it
  keeps, and GetModuleName's injectivity. For the tick over any
  collaborators: the finalizer is removed only right after a successful
  DeleteModule, added only after admission, the sub-reconcilers run in
  order, and at most one condition is written. End to end: spec P3 (the
  Module exists after an error-free tick), P1 for Modules (a second tick with
  no store change in between writes no Module), the deletion barrier I4 for
  one tick and, by rule induction over \<open>reachable\<close>, the invariant that every
  Module has a stored DeviceConfig holding the finalizer. After a tick whose
  stage fails, Errored is true and Ready is what it was, so spec P4 holds
  only if Ready was not true (a finding). Of the validator, the conditions
  and the finalizers (modelled from the spec): the validator decides the
  spec's conflict relation, which is symmetric (P5); \<open>containsDuplicates\<close>
  equals \<open>\<not> distinct\<close>; conditions stay keyed by type; the finalizer stays
  unique.

  \<^bold>\<open>Bounds and termination.\<close> Every definition is total and executable:
  the loops (\<open>run_stages\<close>, \<open>contains_duplicates_from\<close>, \<open>check_against\<close>,
  \<open>set_status_condition\<close>, \<open>upsert_owner_ref\<close>) are structural recursion
  over lists, so no fuel is needed. Resource quantities stay the strings
  \<open>module.go\<close> passes to \<open>resource.MustParse\<close>; the parse is not
  modelled.

  \<^bold>\<open>Modelling decisions.\<close> Injected faults are never NotFound (absence is
  the store's content). A conflict gives only a warning event, as the
  controller test pins it. The conditions updater writes one condition type
  per call and preserves the others (spec 4.7). \<open>GetNodeSelector\<close> is read
  as a copy of the node selector. A failed condition write is only logged. Write
  conflicts are not retried. The finalizer string and the DeviceConfig API
  group are not in the sources; any fixed strings serve.

  \<^bold>\<open>Not modelled.\<close> The NodeLabeler and NodeMetrics sub-reconcilers are
  not in the repository and the spec gives only their interface: they are
  parameters, assumed to write neither Modules nor DeviceConfigs. The
  manager entry point, RBAC and deployment manifests are not behaviour of the
  engine. Concurrent ticks are not modelled: the controller runtime runs one
  tick per object at a time, and ticks on different objects are interleaved
  in \<open>reachable\<close>.
\<close>

end
